theory Spec2Isabelle
  imports Complex_Main "HOL-Library.AList" "HOL-Library.Word"
begin

section \<open>JavaScript values\<close>

text \<open>
  The plaintext of a metadata tier is a JSON object, and several functions of the
  upload pipeline return the result of a JavaScript \<^verbatim>\<open>&&\<close> chain rather than a
  boolean. Both are values of one type. Numbers are the integers the metadata
  fields hold (epoch microseconds, pixel counts, small enumerations).

  An object is the list of its entries in the order \<^verbatim>\<open>Object.entries\<close> lists
  them; the keys of an object are distinct.
\<close>

datatype js_value =
    JUndefined
  | JNull
  | JBool bool
  | JNum int
  | JStr string
  | JArr "js_value list"
  | JObj "(string \<times> js_value) list"

type_synonym js_object = "(string \<times> js_value) list"

text \<open>The truthiness a condition or \<^verbatim>\<open>&&\<close> tests.\<close>

fun truthy :: "js_value \<Rightarrow> bool" where
  "truthy JUndefined = False"
| "truthy JNull = False"
| "truthy (JBool b) = b"
| "truthy (JNum n) = (n \<noteq> 0)"
| "truthy (JStr s) = (s \<noteq> [])"
| "truthy (JArr xs) = True"
| "truthy (JObj kvs) = True"

text \<open>\<^verbatim>\<open>a && b\<close>: the left operand when it is falsy, the right one otherwise.\<close>

definition js_and :: "js_value \<Rightarrow> js_value \<Rightarrow> js_value" where
  "js_and a b = (if truthy a then b else a)"

text \<open>An optional string field read as a value: an absent field reads \<^verbatim>\<open>undefined\<close>.\<close>

definition str_val :: "string option \<Rightarrow> js_value" where
  "str_val x = (case x of None \<Rightarrow> JUndefined | Some s \<Rightarrow> JStr s)"

text \<open>A string-typed expression inside a template literal; \<^verbatim>\<open>undefined\<close> prints as its name.\<close>

definition template_str :: "string option \<Rightarrow> string" where
  "template_str x = (case x of None \<Rightarrow> ''undefined'' | Some s \<Rightarrow> s)"

section \<open>Immutable metadata and the content hash\<close>

datatype FileType = Image | Video | LivePhoto

text \<open>
  The \<^verbatim>\<open>Metadata\<close> interface of \<^verbatim>\<open>file-metadata.ts\<close>, without the three fields
  that only the mobile client writes.
\<close>

record Metadata =
  fileType :: FileType
  title :: string
  creationTime :: int
  modificationTime :: int
  latitude :: "real option"
  longitude :: "real option"
  hash :: "string option"
  imageHash :: "string option"
  videoHash :: "string option"
  duration :: "int option"
  hasStaticThumbnail :: "bool option"

definition metadataHash :: "Metadata \<Rightarrow> string option" where
  "metadataHash metadata =
     (if truthy (str_val (hash metadata)) then hash metadata
      else if fileType metadata = LivePhoto
              \<and> truthy (str_val (imageHash metadata))
              \<and> truthy (str_val (videoHash metadata))
      then Some (template_str (imageHash metadata) @ '':'' @ template_str (videoHash metadata))
      else None)"

definition areFilesSame :: "Metadata \<Rightarrow> Metadata \<Rightarrow> js_value" where
  "areFilesSame f g =
     (if fileType f \<noteq> fileType g \<or> title f \<noteq> title g then JBool False
      else
        let fh = metadataHash f; gh = metadataHash g
        in js_and (js_and (str_val fh) (str_val gh)) (JBool (fh = gh)))"

section \<open>Errors\<close>

text \<open>
  Every \<^verbatim>\<open>throw\<close> of the modelled code is a value of this type. An error is
  identified by its message, as the code identifies it; \<open>ExternalError\<close> is
  whatever a collaborator outside the core throws (a failed decryption, a network
  failure).
\<close>

datatype error =
    UPLOAD_CANCELLED
  | ETagMissing
  | FILE_TOO_LARGE
  | LessChunksThanExpected
  | MoreChunksThanExpected
  | FailedToObtainUploadURL
  | DuplicateUploadURLs
  | UnexpectedFileType
  | MagicMetadataNotDecrypted
  | ZodError
  | TypeError
  | HTTPError nat
  | ExternalError string

section \<open>Mutable metadata tiers\<close>

text \<open>
  \<^verbatim>\<open>Object.fromEntries\<close>: a later entry of a key replaces the value of the earlier
  one, in the earlier one's position. An object spread \<^verbatim>\<open>{...a, ...b}\<close> defines
  the entries of \<open>a\<close> and then those of \<open>b\<close> on a fresh object.
\<close>

definition fromEntries :: "js_object \<Rightarrow> js_object" where
  "fromEntries es = fold (\<lambda>(k, v). AList.update k v) es []"

definition spread :: "js_object \<Rightarrow> js_object \<Rightarrow> js_object" where
  "spread a b = fromEntries (a @ b)"

text \<open>The predicate of both filters: \<^verbatim>\<open>([, v]) => v !== null && v !== undefined\<close>.\<close>

definition notNullish :: "string \<times> js_value \<Rightarrow> bool" where
  "notNullish kv = (snd kv \<noteq> JNull \<and> snd kv \<noteq> JUndefined)"

definition withoutNullAndUndefinedValues :: "js_object \<Rightarrow> js_object" where
  "withoutNullAndUndefinedValues obj = fromEntries (filter notNullish obj)"

text \<open>
  The envelope of a tier. Its \<open>data\<close> is the ciphertext as remote sent it, or the
  decrypted object once a reader has cached it there. The type \<open>'c\<close> of
  ciphertexts is left open: the encryption functions are collaborators.
\<close>

datatype 'c envelope_data = Encrypted 'c | Decrypted js_object

record 'c MagicMetadataEnvelope =
  version :: int
  count :: nat
  data :: "'c envelope_data"
  header :: string

record 'c EnteFile =
  file_id :: int
  file_key :: string
  file_metadata :: Metadata
  magicMetadata :: "'c MagicMetadataEnvelope option"
  pubMagicMetadata :: "'c MagicMetadataEnvelope option"

record 'c UpdateMagicMetadataRequest =
  metadataList :: "(int \<times> 'c MagicMetadataEnvelope) list"

text \<open>
  The collaborators of \<^verbatim>\<open>file-metadata.ts\<close>: the two encryption functions of
  \<^verbatim>\<open>ente-base/crypto\<close>, \<^verbatim>\<open>fetch\<close> (the path requested and the body sent; the
  answer is the response's status, or the error thrown), and \<^verbatim>\<open>mergeMetadata1\<close> of
  \<^verbatim>\<open>./file\<close>, which recomputes the fields that depend on the public tier.
\<close>

record 'c MetadataEnv =
  encryptMetadataJSON :: "js_object \<Rightarrow> string \<Rightarrow> 'c \<times> string"
  decryptMetadataJSON :: "'c \<times> string \<Rightarrow> string \<Rightarrow> error + js_object"
  fetch :: "string \<Rightarrow> 'c UpdateMagicMetadataRequest \<Rightarrow> error + nat"
  mergeMetadata1 :: "'c EnteFile \<Rightarrow> 'c EnteFile"

text \<open>\<^verbatim>\<open>ensureOk\<close> throws unless the response's status is 2xx.\<close>

definition ensureOk :: "nat \<Rightarrow> error + unit" where
  "ensureOk status = (if 200 \<le> status \<and> status < 300 then Inr () else Inl (HTTPError status))"

text \<open>
  The Zod schema \<^verbatim>\<open>PublicMagicMetadata\<close>: a loose object, so every key is kept,
  whose \<^verbatim>\<open>editedTime\<close>, when present, is a number. The parsed object has the keys
  and values of the input; the order in which Zod lists the keys (the declared key
  first) is not modelled.
\<close>

definition PublicMagicMetadata_parse :: "js_object \<Rightarrow> error + js_object" where
  "PublicMagicMetadata_parse obj =
     (case map_of obj ''editedTime'' of
        None \<Rightarrow> Inr obj
      | Some JUndefined \<Rightarrow> Inr obj
      | Some (JNum n) \<Rightarrow> Inr obj
      | Some _ \<Rightarrow> Inl ZodError)"

definition filePrivateMagicMetadata :: "'c EnteFile \<Rightarrow> error + js_object option" where
  "filePrivateMagicMetadata file =
     (case magicMetadata file of
        None \<Rightarrow> Inr None
      | Some envelope \<Rightarrow>
          (case data envelope of
             Encrypted c \<Rightarrow> Inl MagicMetadataNotDecrypted
           | Decrypted obj \<Rightarrow> Inr (Some obj)))"

text \<open>
  \<^verbatim>\<open>decryptPublicMagicMetadata\<close> returns the decrypted object and, since it caches
  the object on the envelope, the file as it then is.
\<close>

definition decryptPublicMagicMetadata ::
  "'c MetadataEnv \<Rightarrow> 'c EnteFile \<Rightarrow> error + (js_object option \<times> 'c EnteFile)" where
  "decryptPublicMagicMetadata env file =
     (case pubMagicMetadata file of
        None \<Rightarrow> Inr (None, file)
      | Some envelope \<Rightarrow>
          (case (case data envelope of
                   Encrypted c \<Rightarrow> decryptMetadataJSON env (c, header envelope) (file_key file)
                 | Decrypted obj \<Rightarrow> Inr obj) of
             Inl e \<Rightarrow> Inl e
           | Inr jsonValue \<Rightarrow>
               (case PublicMagicMetadata_parse (withoutNullAndUndefinedValues jsonValue) of
                  Inl e \<Rightarrow> Inl e
                | Inr result \<Rightarrow>
                    Inr (Some result,
                         file\<lparr>pubMagicMetadata := Some (envelope\<lparr>data := Decrypted result\<rparr>)\<rparr>))))"

definition updateMagicMetadataRequest ::
  "'c MetadataEnv \<Rightarrow> 'c EnteFile \<Rightarrow> js_object \<Rightarrow> int \<Rightarrow> 'c UpdateMagicMetadataRequest" where
  "updateMagicMetadataRequest env file metadata metadataVersion =
     (let validEntries = filter notNullish metadata;
          (encryptedData, decryptionHeader) =
             encryptMetadataJSON env (fromEntries validEntries) (file_key file)
      in \<lparr>metadataList =
            [(file_id file,
              \<lparr>version = metadataVersion,
               count = length validEntries,
               data = Encrypted encryptedData,
               header = decryptionHeader\<rparr>)]\<rparr>)"

text \<open>
  The two \<^verbatim>\<open>PUT\<close>s. Each returns the requests it sent, so that what is
  transmitted can be stated.
\<close>

definition putFilesPrivateMagicMetadata ::
  "'c MetadataEnv \<Rightarrow> 'c UpdateMagicMetadataRequest \<Rightarrow> error + unit" where
  "putFilesPrivateMagicMetadata env request =
     (case fetch env ''/files/magic-metadata'' request of
        Inl e \<Rightarrow> Inl e
      | Inr status \<Rightarrow> ensureOk status)"

definition putFilesPublicMagicMetadata ::
  "'c MetadataEnv \<Rightarrow> 'c UpdateMagicMetadataRequest \<Rightarrow> error + unit" where
  "putFilesPublicMagicMetadata env request =
     (case fetch env ''/files/public-magic-metadata'' request of
        Inl e \<Rightarrow> Inl e
      | Inr status \<Rightarrow> ensureOk status)"

text \<open>
  An interactive update returns, beside its result, the request it sent to remote
  (none when it failed before sending).
\<close>

definition updateRemotePrivateMagicMetadata ::
  "'c MetadataEnv \<Rightarrow> 'c EnteFile \<Rightarrow> js_object
     \<Rightarrow> 'c UpdateMagicMetadataRequest list \<times> (error + 'c MagicMetadataEnvelope)" where
  "updateRemotePrivateMagicMetadata env file metadataUpdates =
     (case filePrivateMagicMetadata file of
        Inl e \<Rightarrow> ([], Inl e)
      | Inr existingMetadata \<Rightarrow>
          (let updatedMetadata =
                 spread (case existingMetadata of None \<Rightarrow> [] | Some m \<Rightarrow> m) metadataUpdates;
               metadataVersion =
                 (case magicMetadata file of None \<Rightarrow> 1 | Some envelope \<Rightarrow> version envelope);
               updateRequest = updateMagicMetadataRequest env file updatedMetadata metadataVersion
           in case metadataList updateRequest of
                [] \<Rightarrow> ([], Inl TypeError)
              | (i, updatedEnvelope) # rest \<Rightarrow>
                  (case putFilesPrivateMagicMetadata env updateRequest of
                     Inl e \<Rightarrow> ([updateRequest], Inl e)
                   | Inr u \<Rightarrow>
                       ([updateRequest],
                        Inr (updatedEnvelope\<lparr>version := metadataVersion + 1,
                                              data := Decrypted updatedMetadata\<rparr>)))))"

definition updateRemotePublicMagicMetadata ::
  "'c MetadataEnv \<Rightarrow> 'c EnteFile \<Rightarrow> js_object
     \<Rightarrow> 'c UpdateMagicMetadataRequest list \<times> (error + 'c EnteFile)" where
  "updateRemotePublicMagicMetadata env file0 metadataUpdates =
     (case decryptPublicMagicMetadata env file0 of
        Inl e \<Rightarrow> ([], Inl e)
      | Inr (existingMetadata, file) \<Rightarrow>
          (let updatedMetadata =
                 spread (case existingMetadata of None \<Rightarrow> [] | Some m \<Rightarrow> m) metadataUpdates;
               metadataVersion =
                 (case pubMagicMetadata file of None \<Rightarrow> 1 | Some envelope \<Rightarrow> version envelope);
               updateRequest = updateMagicMetadataRequest env file updatedMetadata metadataVersion
           in case metadataList updateRequest of
                [] \<Rightarrow> ([], Inl TypeError)
              | (i, updatedEnvelope) # rest \<Rightarrow>
                  (case putFilesPublicMagicMetadata env updateRequest of
                     Inl e \<Rightarrow> ([updateRequest], Inl e)
                   | Inr u \<Rightarrow>
                       (let file1 = file\<lparr>pubMagicMetadata :=
                                           Some (updatedEnvelope\<lparr>version := version updatedEnvelope + 1\<rparr>)\<rparr>
                        in case decryptPublicMagicMetadata env file1 of
                             Inl e \<Rightarrow> ([updateRequest], Inl e)
                           | Inr (reread, file2) \<Rightarrow>
                               ([updateRequest], Inr (mergeMetadata1 env file2))))))"

section \<open>Reading an upload item\<close>

type_synonym bytes = "8 word list"

text \<open>
  A web \<^verbatim>\<open>File\<close>: its name, the size and modification time it reports, and the
  chunks, of whatever sizes, that its \<^verbatim>\<open>stream()\<close> delivers.
\<close>

record File =
  file_name :: string
  file_size :: nat
  lastModified :: int
  file_stream :: "bytes list"

text \<open>
  The four shapes of an \<^verbatim>\<open>UploadItem\<close>: a web file, a file with its path, a path,
  and an entry of a zip file (the zip's path and the entry's name).
\<close>

datatype UploadItem =
    WebFile File
  | FileAndPath File string
  | Path string
  | ZipItem string string

text \<open>What \<^verbatim>\<open>readStream\<close> of the desktop app answers for a path or a zip entry.\<close>

record NativeStream =
  body :: "bytes list"
  ns_size :: nat
  ns_lastModifiedMs :: int

record Location =
  loc_latitude :: real
  loc_longitude :: real

record ParsedMetadataDate =
  dateTime :: string
  offset :: "string option"
  timestamp :: int

text \<open>
  \<^verbatim>\<open>ParsedMetadata\<close>, with the \<^verbatim>\<open>creationTime\<close> that \<^verbatim>\<open>ExternalParsedMetadata\<close>
  adds to it, and \<^verbatim>\<open>ParsedMetadataJSON\<close>, the parsed sidecar of a file.
\<close>

record ParsedMetadata =
  pm_width :: "int option"
  pm_height :: "int option"
  pm_creationDate :: "ParsedMetadataDate option"
  pm_location :: "Location option"
  pm_description :: "string option"
  pm_creationTime :: "int option"

record ParsedMetadataJSON =
  pj_creationTime :: "int option"
  pj_modificationTime :: "int option"
  pj_location :: "Location option"
  pj_description :: "string option"

text \<open>
  The collaborators of \<^verbatim>\<open>upload-service.ts\<close> that read files and their metadata:
  the desktop app's \<^verbatim>\<open>readStream\<close> and \<^verbatim>\<open>pathOrZipItemSize\<close> (which throw
  outside the desktop app), the file name helpers, the Exif and video metadata
  extractors, the sidecar lookup, and the clock that stamps a \<^verbatim>\<open>File\<close> made
  without a modification time. \<^verbatim>\<open>matchJSONMetadata\<close> receives the path prefix, the
  collection, the file name and the map of parsed sidecars.
\<close>

record UploadEnv =
  readStream :: "UploadItem \<Rightarrow> error + NativeStream"
  pathOrZipItemSize :: "UploadItem \<Rightarrow> error + nat"
  basename :: "string \<Rightarrow> string"
  nameAndExtension :: "string \<Rightarrow> string \<times> string option"
  extractExif :: "File \<Rightarrow> error + ParsedMetadata"
  extractVideoMetadata :: "UploadItem \<Rightarrow> error + ParsedMetadata"
  determineVideoDuration :: "UploadItem \<Rightarrow> error + real"
  matchJSONMetadata ::
    "string option \<Rightarrow> int \<Rightarrow> string \<Rightarrow> (string \<rightharpoonup> ParsedMetadataJSON) \<Rightarrow> ParsedMetadataJSON option"
  tryParseEpochMicrosecondsFromFileName :: "string \<Rightarrow> int option"
  dateNow :: int

text \<open>
  The chunk hashing and chunk encryption of the crypto worker. A state the worker
  updates in place is passed and returned. \<^verbatim>\<open>encryptStreamChunk\<close> receives what the
  reader gave, which is \<^verbatim>\<open>undefined\<close> once the stream has ended.
\<close>

record ('hs, 'ps) CryptoWorker =
  chunkHashInit :: 'hs
  chunkHashUpdate :: "'hs \<Rightarrow> bytes \<Rightarrow> 'hs"
  chunkHashFinal :: "'hs \<Rightarrow> string"
  initChunkEncryption :: "string \<Rightarrow> string \<times> 'ps"
  encryptStreamChunk :: "bytes option \<Rightarrow> 'ps \<Rightarrow> bool \<Rightarrow> error + (bytes \<times> 'ps)"

definition streamEncryptionChunkSize :: nat where
  "streamEncryptionChunkSize = 4 * 1024 * 1024"

definition multipartChunksPerPart :: nat where
  "multipartChunksPerPart = 5"

text \<open>
  A readable stream is the list of the chunks it has yet to deliver; a read takes the
  first of them, and answers \<^verbatim>\<open>done\<close> (here \<open>None\<close>) when there is none left.
\<close>

fun reader_read :: "'a list \<Rightarrow> 'a option \<times> 'a list" where
  "reader_read [] = (None, [])"
| "reader_read (chunk # rest) = (Some chunk, rest)"

record FileStream =
  stream :: "bytes list"
  chunkCount :: nat
  fileSize :: nat
  lastModifiedMs :: int
  file_opt :: "File option"

text \<open>
  The transformer of \<^verbatim>\<open>readUploadItem\<close>. Its state is the \<^verbatim>\<open>pending\<close> remainder
  and the chunks enqueued so far. The \<^verbatim>\<open>while\<close> loop of \<^verbatim>\<open>transform\<close> enqueues
  full chunks off the front of \<^verbatim>\<open>next\<close>.
\<close>

function transform_while :: "bytes list \<Rightarrow> bytes \<Rightarrow> bytes list \<times> bytes" where
  "transform_while enqueued next =
     (if streamEncryptionChunkSize \<le> length next
      then transform_while (enqueued @ [take streamEncryptionChunkSize next])
                           (drop streamEncryptionChunkSize next)
      else (enqueued, next))"
  by pat_completeness auto
termination
  by (relation "measure (\<lambda>(enqueued, next). length next)")
     (auto simp: streamEncryptionChunkSize_def)

declare transform_while.simps [simp del]

definition transform :: "bytes \<Rightarrow> bytes option \<times> bytes list \<Rightarrow> bytes option \<times> bytes list" where
  "transform chunk st =
     (let next = (case fst st of Some pending \<Rightarrow> pending @ chunk | None \<Rightarrow> chunk);
          (enqueued, next') = transform_while (snd st) next
      in (if length next' \<noteq> 0 then Some next' else None, enqueued))"

definition flush :: "bytes option \<times> bytes list \<Rightarrow> bytes list" where
  "flush st = (case fst st of Some pending \<Rightarrow> snd st @ [pending] | None \<Rightarrow> snd st)"

definition pipeThrough :: "bytes list \<Rightarrow> bytes list" where
  "pipeThrough underlyingStream = flush (fold transform underlyingStream (None, []))"

text \<open>
  What holds of the transformer's state after it has consumed the bytes
  \<open>consumed\<close>: every enqueued chunk is full, the pending remainder is shorter
  than a chunk and not empty, and together they are the bytes consumed.
\<close>

definition chunked :: "bytes option \<times> bytes list \<Rightarrow> bytes \<Rightarrow> bool" where
  "chunked st consumed =
     ((\<forall>c\<in>set (snd st). length c = streamEncryptionChunkSize)
      \<and> (case fst st of
            None \<Rightarrow> concat (snd st) = consumed
          | Some p \<Rightarrow> 0 < length p \<and> length p < streamEncryptionChunkSize
                      \<and> concat (snd st) @ p = consumed))"

text \<open>
  \<^verbatim>\<open>readUploadItem\<close> in its two steps. The first obtains the underlying stream,
  the \<^verbatim>\<open>File\<close> when there is one, the size and the modification time, from the
  desktop app for a path or a zip entry and from the \<^verbatim>\<open>File\<close> otherwise. The
  second computes the chunk count from the size and pipes the stream through the
  transformer.
\<close>

definition readUploadItem_source ::
  "UploadEnv \<Rightarrow> UploadItem \<Rightarrow> error + (bytes list \<times> File option \<times> nat \<times> int)" where
  "readUploadItem_source env uploadItem =
     (case uploadItem of
        Path p \<Rightarrow>
          (case readStream env uploadItem of
             Inl e \<Rightarrow> Inl e
           | Inr r \<Rightarrow> Inr (body r, None, ns_size r, ns_lastModifiedMs r))
      | ZipItem z n \<Rightarrow>
          (case readStream env uploadItem of
             Inl e \<Rightarrow> Inl e
           | Inr r \<Rightarrow> Inr (body r, None, ns_size r, ns_lastModifiedMs r))
      | WebFile f \<Rightarrow> Inr (file_stream f, Some f, file_size f, lastModified f)
      | FileAndPath f p \<Rightarrow> Inr (file_stream f, Some f, file_size f, lastModified f))"

definition readUploadItem :: "UploadEnv \<Rightarrow> UploadItem \<Rightarrow> error + FileStream" where
  "readUploadItem env uploadItem =
     (case readUploadItem_source env uploadItem of
        Inl e \<Rightarrow> Inl e
      | Inr (underlyingStream, file, sz, lm) \<Rightarrow>
          Inr \<lparr>stream = pipeThrough underlyingStream,
               chunkCount = nat \<lceil>real sz / real streamEncryptionChunkSize\<rceil>,
               fileSize = sz,
               lastModifiedMs = lm,
               file_opt = file\<rparr>)"

definition uploadItemFileName :: "UploadEnv \<Rightarrow> UploadItem \<Rightarrow> string" where
  "uploadItemFileName env uploadItem =
     (case uploadItem of
        WebFile f \<Rightarrow> file_name f
      | Path p \<Rightarrow> basename env p
      | ZipItem z n \<Rightarrow> basename env n
      | FileAndPath f p \<Rightarrow> file_name f)"

section \<open>Hashing\<close>

text \<open>The \<^verbatim>\<open>for\<close> loop of \<^verbatim>\<open>computeHash\<close>, by the number of rounds left.\<close>

fun computeHash_loop ::
  "('hs, 'ps) CryptoWorker \<Rightarrow> nat \<Rightarrow> bytes list \<Rightarrow> 'hs \<Rightarrow> error + ('hs \<times> bytes list)" where
  "computeHash_loop worker 0 streamReader hashState = Inr (hashState, streamReader)"
| "computeHash_loop worker (Suc n) streamReader hashState =
     (case reader_read streamReader of
        (None, rest) \<Rightarrow> Inl LessChunksThanExpected
      | (Some chunk, rest) \<Rightarrow>
          computeHash_loop worker n rest (chunkHashUpdate worker hashState chunk))"

definition computeHash ::
  "UploadEnv \<Rightarrow> ('hs, 'ps) CryptoWorker \<Rightarrow> UploadItem \<Rightarrow> error + string" where
  "computeHash env worker uploadItem =
     (case readUploadItem env uploadItem of
        Inl e \<Rightarrow> Inl e
      | Inr fs \<Rightarrow>
          (case computeHash_loop worker (chunkCount fs) (stream fs) (chunkHashInit worker) of
             Inl e \<Rightarrow> Inl e
           | Inr (hashState, streamReader) \<Rightarrow>
               (case reader_read streamReader of
                  (Some chunk, rest) \<Rightarrow> Inl MoreChunksThanExpected
                | (None, rest) \<Rightarrow> Inr (chunkHashFinal worker hashState))))"

section \<open>Extracting the metadata of an asset\<close>

record FileTypeInfo =
  fti_fileType :: FileType
  extension :: "string option"
  imageType :: "string option"
  videoType :: "string option"

text \<open>
  For a path or a zip entry, \<^verbatim>\<open>tryExtractImageMetadata\<close> reads the whole stream
  into a \<^verbatim>\<open>File\<close> first; a failure of that read is not caught, a failure of the
  Exif extraction is.
\<close>

definition tryExtractImageMetadata ::
  "UploadEnv \<Rightarrow> UploadItem \<Rightarrow> int option \<Rightarrow> error + ParsedMetadata option" where
  "tryExtractImageMetadata env uploadItem lastModifiedMs' =
     (let fromStream = (\<lambda>path.
            case readStream env uploadItem of
              Inl e \<Rightarrow> Inl e
            | Inr r \<Rightarrow>
                Inr \<lparr>file_name = basename env path,
                     file_size = length (concat (body r)),
                     lastModified =
                       (case lastModifiedMs' of
                          None \<Rightarrow> dateNow env
                        | Some lm \<Rightarrow> if lm \<noteq> 0 then lm else dateNow env),
                     file_stream = [concat (body r)]\<rparr>)
      in case (case uploadItem of
                 Path p \<Rightarrow> fromStream p
               | ZipItem z n \<Rightarrow> fromStream n
               | WebFile f \<Rightarrow> Inr f
               | FileAndPath f p \<Rightarrow> Inr f) of
           Inl e \<Rightarrow> Inl e
         | Inr file \<Rightarrow>
             (case extractExif env file of
                Inl e \<Rightarrow> Inr None
              | Inr parsed \<Rightarrow> Inr (Some parsed)))"

definition tryExtractVideoMetadata :: "UploadEnv \<Rightarrow> UploadItem \<Rightarrow> ParsedMetadata option" where
  "tryExtractVideoMetadata env uploadItem =
     (case extractVideoMetadata env uploadItem of
        Inl e \<Rightarrow> None
      | Inr parsed \<Rightarrow> Some parsed)"

definition tryDetermineVideoDuration :: "UploadEnv \<Rightarrow> UploadItem \<Rightarrow> real option" where
  "tryDetermineVideoDuration env uploadItem =
     (case determineVideoDuration env uploadItem of
        Inl e \<Rightarrow> None
      | Inr d \<Rightarrow> Some d)"

text \<open>
  \<^verbatim>\<open>{ ...externalParsedMetadata, ...parsedMetadata }\<close> on records of optional
  fields: a field the extraction found replaces the external one.
\<close>

definition spreadField :: "'a option \<Rightarrow> 'a option \<Rightarrow> 'a option" where
  "spreadField a b = (case b of None \<Rightarrow> a | Some v \<Rightarrow> Some v)"

definition spreadParsedMetadata :: "ParsedMetadata \<Rightarrow> ParsedMetadata option \<Rightarrow> ParsedMetadata" where
  "spreadParsedMetadata ext parsed =
     (case parsed of
        None \<Rightarrow> ext
      | Some p \<Rightarrow>
          \<lparr>pm_width = spreadField (pm_width ext) (pm_width p),
           pm_height = spreadField (pm_height ext) (pm_height p),
           pm_creationDate = spreadField (pm_creationDate ext) (pm_creationDate p),
           pm_location = spreadField (pm_location ext) (pm_location p),
           pm_description = spreadField (pm_description ext) (pm_description p),
           pm_creationTime = spreadField (pm_creationTime ext) (pm_creationTime p)\<rparr>)"

text \<open>A number that a condition tests: present and not zero.\<close>

definition truthy_num :: "int option \<Rightarrow> bool" where
  "truthy_num x = (case x of None \<Rightarrow> False | Some n \<Rightarrow> n \<noteq> 0)"

text \<open>
  \<^verbatim>\<open>extractImageOrVideoMetadata\<close>. The times are integers, so that
  \<^verbatim>\<open>ensureInteger\<close> and \<^verbatim>\<open>ensureNumber\<close> have nothing to reject.
\<close>

definition extractImageOrVideoMetadata ::
  "UploadEnv \<Rightarrow> ('hs, 'ps) CryptoWorker \<Rightarrow> UploadItem \<Rightarrow> string option
     \<Rightarrow> ParsedMetadata option \<Rightarrow> FileTypeInfo \<Rightarrow> int \<Rightarrow> int
     \<Rightarrow> (string \<rightharpoonup> ParsedMetadataJSON) \<Rightarrow> error + (Metadata \<times> js_object)" where
  "extractImageOrVideoMetadata env worker uploadItem pathPrefix externalParsedMetadata
       fileTypeInfo lastModifiedMs' collectionID parsedMetadataJSONMap =
     (let fileName = uploadItemFileName env uploadItem;
          fileType' = fti_fileType fileTypeInfo
      in case (if fileType' = Image
               then tryExtractImageMetadata env uploadItem (Some lastModifiedMs')
               else if fileType' = Video
               then Inr (tryExtractVideoMetadata env uploadItem)
               else Inl UnexpectedFileType) of
           Inl e \<Rightarrow> Inl e
         | Inr extracted \<Rightarrow>
             (let parsedMetadata =
                    (case externalParsedMetadata of
                       None \<Rightarrow> extracted
                     | Some ext \<Rightarrow> Some (spreadParsedMetadata ext extracted))
              in case computeHash env worker uploadItem of
                   Inl e \<Rightarrow> Inl e
                 | Inr hash' \<Rightarrow>
                     (let parsedMetadataJSON =
                            matchJSONMetadata env pathPrefix collectionID fileName parsedMetadataJSONMap;
                          modificationTime' =
                            (case Option.bind parsedMetadataJSON pj_modificationTime of
                               Some t \<Rightarrow> t
                             | None \<Rightarrow> lastModifiedMs' * 1000);
                          jsonCreationTime = Option.bind parsedMetadataJSON pj_creationTime;
                          creationDate = Option.bind parsedMetadata pm_creationDate;
                          parsedCreationTime = Option.bind parsedMetadata pm_creationTime;
                          (creationTime', publicMagicMetadata1) =
                            (if truthy_num jsonCreationTime then (the jsonCreationTime, [])
                             else case creationDate of
                                    Some d \<Rightarrow>
                                      (timestamp d,
                                       (let pmm = AList.update ''dateTime'' (JStr (dateTime d)) []
                                        in if truthy (str_val (offset d))
                                           then AList.update ''offsetTime'' (str_val (offset d)) pmm
                                           else pmm))
                                  | None \<Rightarrow>
                                      if truthy_num parsedCreationTime
                                      then (the parsedCreationTime, [])
                                      else (case tryParseEpochMicrosecondsFromFileName env fileName of
                                              Some t \<Rightarrow> (t, [])
                                            | None \<Rightarrow> (modificationTime', [])));
                          duration' =
                            (if fileType' = Video then tryDetermineVideoDuration env uploadItem
                             else None);
                          location =
                            (case Option.bind parsedMetadataJSON pj_location of
                               Some l \<Rightarrow> Some l
                             | None \<Rightarrow> Option.bind parsedMetadata pm_location);
                          metadata =
                            \<lparr>fileType = fileType',
                             title = fileName,
                             creationTime = creationTime',
                             modificationTime = modificationTime',
                             latitude = map_option loc_latitude location,
                             longitude = map_option loc_longitude location,
                             hash = Some hash',
                             imageHash = None,
                             videoHash = None,
                             duration =
                               (case duration' of
                                  None \<Rightarrow> None
                                | Some d \<Rightarrow> if d \<noteq> 0 then Some \<lceil>d\<rceil> else None),
                             hasStaticThumbnail = None\<rparr>;
                          w = Option.bind parsedMetadata pm_width;
                          h = Option.bind parsedMetadata pm_height;
                          publicMagicMetadata2 =
                            (if truthy_num w
                             then AList.update ''w'' (JNum (the w)) publicMagicMetadata1
                             else publicMagicMetadata1);
                          publicMagicMetadata3 =
                            (if truthy_num h
                             then AList.update ''h'' (JNum (the h)) publicMagicMetadata2
                             else publicMagicMetadata2);
                          caption =
                            (case Option.bind parsedMetadataJSON pj_description of
                               Some c \<Rightarrow> Some c
                             | None \<Rightarrow> Option.bind parsedMetadata pm_description);
                          publicMagicMetadata4 =
                            (if truthy (str_val caption)
                             then AList.update ''caption'' (str_val caption) publicMagicMetadata3
                             else publicMagicMetadata3)
                      in Inr (metadata, publicMagicMetadata4))))"

definition extractLivePhotoMetadata ::
  "UploadEnv \<Rightarrow> ('hs, 'ps) CryptoWorker \<Rightarrow> UploadItem \<times> UploadItem \<Rightarrow> string option
     \<Rightarrow> FileTypeInfo \<Rightarrow> int \<Rightarrow> int \<Rightarrow> (string \<rightharpoonup> ParsedMetadataJSON)
     \<Rightarrow> error + (Metadata \<times> js_object)" where
  "extractLivePhotoMetadata env worker livePhotoAssets pathPrefix fileTypeInfo
       lastModifiedMs' collectionID parsedMetadataJSONMap =
     (let image = fst livePhotoAssets;
          video = snd livePhotoAssets;
          imageFileTypeInfo =
            \<lparr>fti_fileType = Image, extension = imageType fileTypeInfo,
             imageType = None, videoType = None\<rparr>
      in case extractImageOrVideoMetadata env worker image pathPrefix None imageFileTypeInfo
                lastModifiedMs' collectionID parsedMetadataJSONMap of
           Inl e \<Rightarrow> Inl e
         | Inr (imageMetadata, publicMagicMetadata) \<Rightarrow>
             (let imageHash' = hash imageMetadata
              in case computeHash env worker video of
                   Inl e \<Rightarrow> Inl e
                 | Inr videoHash' \<Rightarrow>
                     (let hash' = template_str imageHash' @ '':'' @ videoHash'
                      in Inr (imageMetadata\<lparr>title := uploadItemFileName env image,
                                            fileType := LivePhoto,
                                            hash := Some hash'\<rparr>,
                              publicMagicMetadata))))"

section \<open>Encrypting a file stream\<close>

text \<open>
  The stream that \<^verbatim>\<open>encryptFileStream\<close> returns is lazy: its consumer makes it call
  \<^verbatim>\<open>pull\<close>. Its state is the reader of the plaintext stream, the push state of the
  cipher, the \<^verbatim>\<open>pullCount\<close>, the chunks enqueued so far and whether the controller
  has been closed; \<open>es_chunkCount\<close> is the \<^verbatim>\<open>chunkCount\<close> that \<^verbatim>\<open>pull\<close> closes
  over.
\<close>

record 'ps EncryptedStreamSource =
  es_reader :: "bytes list"
  es_pushState :: 'ps
  es_pullCount :: nat
  es_chunkCount :: nat
  es_enqueued :: "bytes list"
  es_closed :: bool

definition pull ::
  "('hs, 'ps) CryptoWorker \<Rightarrow> 'ps EncryptedStreamSource \<Rightarrow> error + 'ps EncryptedStreamSource" where
  "pull worker s =
     (case reader_read (es_reader s) of
        (v, rest) \<Rightarrow>
          (case encryptStreamChunk worker v (es_pushState s) (es_pullCount s = es_chunkCount s) of
             Inl e \<Rightarrow> Inl e
           | Inr (encryptedFileChunk, pushState') \<Rightarrow>
               Inr (s\<lparr>es_reader := rest,
                      es_pushState := pushState',
                      es_enqueued := es_enqueued s @ [encryptedFileChunk],
                      es_closed := (es_pullCount s = es_chunkCount s),
                      es_pullCount := es_pullCount s + 1\<rparr>)))"

definition encryptFileStream ::
  "('hs, 'ps) CryptoWorker \<Rightarrow> FileStream \<Rightarrow> string \<Rightarrow> string \<times> 'ps EncryptedStreamSource \<times> nat" where
  "encryptFileStream worker fs fileKey =
     (case initChunkEncryption worker fileKey of
        (decryptionHeader, pushState) \<Rightarrow>
          (decryptionHeader,
           \<lparr>es_reader = stream fs, es_pushState = pushState, es_pullCount = 1,
            es_chunkCount = chunkCount fs, es_enqueued = [], es_closed = False\<rparr>,
           chunkCount fs))"

text \<open>
  A consumer that reads the encrypted stream to its end, as \<^verbatim>\<open>readEntireStream\<close>
  and the multipart upload do: it pulls until the controller is closed or a pull
  throws. The number of pulls it is allowed is an argument, since a stream that is
  never closed is pulled for ever; \<open>None\<close> says that the allowance ran out.
\<close>

fun pullUntilClosed ::
  "nat \<Rightarrow> ('hs, 'ps) CryptoWorker \<Rightarrow> 'ps EncryptedStreamSource
     \<Rightarrow> (error + 'ps EncryptedStreamSource) option" where
  "pullUntilClosed 0 worker s = (if es_closed s then Some (Inr s) else None)"
| "pullUntilClosed (Suc n) worker s =
     (if es_closed s then Some (Inr s)
      else case pull worker s of
             Inl e \<Rightarrow> Some (Inl e)
           | Inr s' \<Rightarrow> pullUntilClosed n worker s')"

section \<open>Uploading to the bucket\<close>

record ObjectUploadURL =
  objectKey :: string
  url :: string

record MultipartUploadURLs =
  mp_objectKey :: string
  partURLs :: "string list"
  completeURL :: string

text \<open>
  The requests of the file upload: a \<^verbatim>\<open>PUT\<close> of a whole object, a \<^verbatim>\<open>PUT\<close> of a
  part, and the completion of a multipart upload with its (part number, tag) pairs.
  The flag says whether the request goes via the worker. A response is its status
  and its \<^verbatim>\<open>ETag\<close> header.
\<close>

datatype http_request =
    PutFile bool string bytes
  | PutFilePart bool string bytes
  | CompleteMultipartUpload bool string "(nat \<times> string) list"

record http_response =
  resp_status :: nat
  resp_etag :: "string option"

text \<open>
  What the upload does not control is a state \<open>'w\<close> and functions on it: the
  cancellation flag that \<^verbatim>\<open>abortIfCancelled\<close> polls, one network attempt (which can
  change anything, the flag included, while it is awaited), the requests for
  pre-signed URLs, and the number of further attempts that \<^verbatim>\<open>retryAsyncOperation\<close>
  makes after a failed one.
\<close>

record 'w Network =
  isCancelled :: "'w \<Rightarrow> bool"
  send :: "http_request \<Rightarrow> 'w \<Rightarrow> (error + http_response) \<times> 'w"
  fetchUploadURLs :: "int \<Rightarrow> 'w \<Rightarrow> (error + ObjectUploadURL list) \<times> 'w"
  fetchMultipartUploadURLs :: "nat \<Rightarrow> 'w \<Rightarrow> (error + MultipartUploadURLs) \<times> 'w"
  retries :: nat

text \<open>
  The state an upload threads through: the outside state, the pool of
  \<^verbatim>\<open>UploadService\<close>, the network attempts made so far, in order, and the progress
  reported.
\<close>

record 'w UploadState =
  world :: 'w
  uploadURLs :: "ObjectUploadURL list"
  pendingUploadCount :: int
  sent :: "http_request list"
  progress :: "(int \<times> real) list"

definition abortIfCancelled :: "'w Network \<Rightarrow> 'w UploadState \<Rightarrow> error + unit" where
  "abortIfCancelled net st =
     (if isCancelled net (world st) then Inl UPLOAD_CANCELLED else Inr ())"

text \<open>
  Modelled from the spec: \<^verbatim>\<open>retryAsyncOperation\<close> of \<^verbatim>\<open>ente-base/http\<close> is not
  under \<^verbatim>\<open>src/\<close>. It runs the operation; on a failure it first lets
  \<^verbatim>\<open>abortIfNeeded\<close> rethrow, and otherwise tries again while attempts are left.
\<close>

fun retryAsyncOperation ::
  "nat \<Rightarrow> ('s \<Rightarrow> (error + 'a) \<times> 's) \<Rightarrow> (error \<Rightarrow> error option) \<Rightarrow> 's \<Rightarrow> (error + 'a) \<times> 's" where
  "retryAsyncOperation 0 op abortIfNeeded st =
     (case op st of
        (Inr r, st') \<Rightarrow> (Inr r, st')
      | (Inl e, st') \<Rightarrow>
          (case abortIfNeeded e of
             Some thrown \<Rightarrow> (Inl thrown, st')
           | None \<Rightarrow> (Inl e, st')))"
| "retryAsyncOperation (Suc n) op abortIfNeeded st =
     (case op st of
        (Inr r, st') \<Rightarrow> (Inr r, st')
      | (Inl e, st') \<Rightarrow>
          (case abortIfNeeded e of
             Some thrown \<Rightarrow> (Inl thrown, st')
           | None \<Rightarrow> retryAsyncOperation n op abortIfNeeded st'))"

text \<open>
  The operation that \<^verbatim>\<open>createAbortableRetryEnsuringHTTPOk\<close> retries: check the
  flag, make the request, ensure a 2xx status.
\<close>

definition attempt ::
  "'w Network \<Rightarrow> http_request \<Rightarrow> 'w UploadState \<Rightarrow> (error + http_response) \<times> 'w UploadState" where
  "attempt net request st =
     (case abortIfCancelled net st of
        Inl e \<Rightarrow> (Inl e, st)
      | Inr u \<Rightarrow>
          (case send net request (world st) of
             (res, w') \<Rightarrow>
               (let st' = st\<lparr>world := w', sent := sent st @ [request]\<rparr>
                in case res of
                     Inl e \<Rightarrow> (Inl e, st')
                   | Inr r \<Rightarrow>
                       (case ensureOk (resp_status r) of
                          Inl e \<Rightarrow> (Inl e, st')
                        | Inr u' \<Rightarrow> (Inr r, st')))))"

definition createAbortableRetryEnsuringHTTPOk ::
  "'w Network \<Rightarrow> http_request \<Rightarrow> 'w UploadState \<Rightarrow> (error + http_response) \<times> 'w UploadState" where
  "createAbortableRetryEnsuringHTTPOk net request =
     retryAsyncOperation (retries net) (attempt net request)
       (\<lambda>e. if e = UPLOAD_CANCELLED then Some e else None)"



text \<open>
  An \<^verbatim>\<open>HTTPRequestRetrier\<close> makes a request, as many times as it sees fit, and
  answers the response or throws.
\<close>

type_synonym 'w HTTPRequestRetrier =
  "http_request \<Rightarrow> 'w UploadState \<Rightarrow> (error + http_response) \<times> 'w UploadState"

text \<open>
  Modelled from the spec: the functions of \<^verbatim>\<open>./remote\<close> are not under \<^verbatim>\<open>src/\<close>.
  Each makes its request through the retrier it is given; \<^verbatim>\<open>putFilePart\<close> answers
  the integrity tag of the response.
\<close>

definition putFile ::
  "'w HTTPRequestRetrier \<Rightarrow> bool \<Rightarrow> string \<Rightarrow> bytes \<Rightarrow> 'w UploadState
     \<Rightarrow> (error + unit) \<times> 'w UploadState" where
  "putFile requestRetrier viaWorker fileUploadURL fileData st =
     (case requestRetrier (PutFile viaWorker fileUploadURL fileData) st of
        (Inl e, st') \<Rightarrow> (Inl e, st')
      | (Inr r, st') \<Rightarrow> (Inr (), st'))"

definition putFilePart ::
  "'w HTTPRequestRetrier \<Rightarrow> bool \<Rightarrow> string \<Rightarrow> bytes \<Rightarrow> 'w UploadState
     \<Rightarrow> (error + string option) \<times> 'w UploadState" where
  "putFilePart requestRetrier viaWorker partUploadURL partData st =
     (case requestRetrier (PutFilePart viaWorker partUploadURL partData) st of
        (Inl e, st') \<Rightarrow> (Inl e, st')
      | (Inr r, st') \<Rightarrow> (Inr (resp_etag r), st'))"

definition completeMultipartUpload ::
  "'w HTTPRequestRetrier \<Rightarrow> bool \<Rightarrow> string \<Rightarrow> (nat \<times> string) list \<Rightarrow> 'w UploadState
     \<Rightarrow> (error + unit) \<times> 'w UploadState" where
  "completeMultipartUpload requestRetrier viaWorker completionURL completedParts st =
     (case requestRetrier
             (CompleteMultipartUpload viaWorker completionURL completedParts) st of
        (Inl e, st') \<Rightarrow> (Inl e, st')
      | (Inr r, st') \<Rightarrow> (Inr (), st'))"

text \<open>
  \<^verbatim>\<open>UploadService.getUploadURL\<close>: refill the pool when it is empty and uploads are
  pending, check that the pooled URLs are distinct, and pop the last one.
\<close>

definition refillUploadURLs ::
  "'w Network \<Rightarrow> 'w UploadState \<Rightarrow> (error + unit) \<times> 'w UploadState" where
  "refillUploadURLs net st =
     (case fetchUploadURLs net (pendingUploadCount st) (world st) of
        (Inl e, w') \<Rightarrow> (Inl e, st\<lparr>world := w'\<rparr>)
      | (Inr urls, w') \<Rightarrow> (Inr (), st\<lparr>world := w', uploadURLs := uploadURLs st @ urls\<rparr>))"

definition ensureUniqueUploadURLs :: "'w UploadState \<Rightarrow> error + unit" where
  "ensureUniqueUploadURLs st =
     (if length (uploadURLs st) \<noteq> card (set (map url (uploadURLs st)))
      then Inl DuplicateUploadURLs else Inr ())"

definition getUploadURL ::
  "'w Network \<Rightarrow> 'w UploadState \<Rightarrow> (error + ObjectUploadURL) \<times> 'w UploadState" where
  "getUploadURL net st =
     (case (if uploadURLs st = [] \<and> pendingUploadCount st \<noteq> 0
            then (case refillUploadURLs net st of
                    (Inl e, st') \<Rightarrow> (Inl e, st')
                  | (Inr u, st') \<Rightarrow> (ensureUniqueUploadURLs st', st'))
            else (Inr (), st)) of
        (Inl e, st') \<Rightarrow> (Inl e, st')
      | (Inr u, st') \<Rightarrow>
          (case rev (uploadURLs st') of
             [] \<Rightarrow> (Inl FailedToObtainUploadURL, st')
           | popped # others \<Rightarrow> (Inr popped, st'\<lparr>uploadURLs := rev others\<rparr>)))"

record EncryptedFileStream =
  enc_stream :: "bytes list"
  enc_chunkCount :: nat

text \<open>The \<^verbatim>\<open>for\<close> loop of \<^verbatim>\<open>nextMultipartUploadPart\<close>, by the number of rounds left.\<close>

fun nextMultipartUploadPart_loop ::
  "nat \<Rightarrow> bytes list \<Rightarrow> bytes list \<Rightarrow> bytes list \<times> bytes list" where
  "nextMultipartUploadPart_loop 0 streamReader chunks = (chunks, streamReader)"
| "nextMultipartUploadPart_loop (Suc n) streamReader chunks =
     (case reader_read streamReader of
        (None, rest) \<Rightarrow> (chunks, rest)
      | (Some chunk, rest) \<Rightarrow> nextMultipartUploadPart_loop n rest (chunks @ [chunk]))"

definition nextMultipartUploadPart :: "bytes list \<Rightarrow> bytes \<times> bytes list" where
  "nextMultipartUploadPart streamReader =
     (case nextMultipartUploadPart_loop multipartChunksPerPart streamReader [] of
        (chunks, streamReader') \<Rightarrow> (concat chunks, streamReader'))"

text \<open>
  The loop of \<^verbatim>\<open>uploadStreamUsingMultipart\<close> over the entries (index and URL) of
  \<^verbatim>\<open>partURLs\<close>. It carries the stream reader, the \<^verbatim>\<open>fileSize\<close> and the
  \<^verbatim>\<open>completedParts\<close>. The cancellation flag is that of the upload context
  (\<open>net\<close>); the retrier is the one \<^verbatim>\<open>uploadStreamUsingMultipart\<close> was given.
\<close>

fun uploadStreamUsingMultipart_loop ::
  "'w Network \<Rightarrow> 'w HTTPRequestRetrier \<Rightarrow> bool \<Rightarrow> int \<Rightarrow> real \<Rightarrow> (nat \<times> string) list
     \<Rightarrow> bytes list \<times> nat \<times> (nat \<times> string) list \<Rightarrow> 'w UploadState
     \<Rightarrow> (error + bytes list \<times> nat \<times> (nat \<times> string) list) \<times> 'w UploadState" where
  "uploadStreamUsingMultipart_loop net requestRetrier isCFUploadProxyDisabled fileLocalID
       percentPerPart [] acc st =
     (Inr acc, st)"
| "uploadStreamUsingMultipart_loop net requestRetrier isCFUploadProxyDisabled fileLocalID
       percentPerPart ((index, partUploadURL) # entries) acc st =
     (case acc of
        (streamReader, fileSize', completedParts) \<Rightarrow>
          (case abortIfCancelled net st of
             Inl e \<Rightarrow> (Inl e, st)
           | Inr u \<Rightarrow>
               (let partNumber = index + 1
                in case nextMultipartUploadPart streamReader of
                     (partData, streamReader') \<Rightarrow>
                       (case putFilePart requestRetrier (\<not> isCFUploadProxyDisabled)
                               partUploadURL partData st of
                          (Inl e, st') \<Rightarrow> (Inl e, st')
                        | (Inr eTag, st') \<Rightarrow>
                            (case eTag of
                               None \<Rightarrow> (Inl ETagMissing, st')
                             | Some tag \<Rightarrow>
                                 if tag = [] then (Inl ETagMissing, st')
                                 else uploadStreamUsingMultipart_loop net requestRetrier
                                        isCFUploadProxyDisabled fileLocalID percentPerPart entries
                                        (streamReader', fileSize' + length partData,
                                         completedParts @ [(partNumber, tag)])
                                        (st'\<lparr>progress := progress st'
                                               @ [(fileLocalID, percentPerPart * real partNumber)]\<rparr>))))))"

definition uploadStreamUsingMultipart ::
  "'w Network \<Rightarrow> 'w HTTPRequestRetrier \<Rightarrow> bool \<Rightarrow> int \<Rightarrow> EncryptedFileStream \<Rightarrow> real
     \<Rightarrow> 'w UploadState \<Rightarrow> (error + string \<times> nat) \<times> 'w UploadState" where
  "uploadStreamUsingMultipart net requestRetrier isCFUploadProxyDisabled fileLocalID dataStream
       maxPercent st =
     (let uploadPartCount = nat \<lceil>real (enc_chunkCount dataStream) / real multipartChunksPerPart\<rceil>
      in case fetchMultipartUploadURLs net uploadPartCount (world st) of
           (Inl e, w') \<Rightarrow> (Inl e, st\<lparr>world := w'\<rparr>)
         | (Inr multipartUploadURLs, w') \<Rightarrow>
             (let percentPerPart = maxPercent / real uploadPartCount
              in case uploadStreamUsingMultipart_loop net requestRetrier isCFUploadProxyDisabled
                        fileLocalID percentPerPart
                        (zip [0 ..< length (partURLs multipartUploadURLs)]
                             (partURLs multipartUploadURLs))
                        (enc_stream dataStream, 0, []) (st\<lparr>world := w'\<rparr>) of
                   (Inl e, st') \<Rightarrow> (Inl e, st')
                 | (Inr (streamReader, fileSize', completedParts), st') \<Rightarrow>
                     (case reader_read streamReader of
                        (Some chunk, rest) \<Rightarrow> (Inl MoreChunksThanExpected, st')
                      | (None, rest) \<Rightarrow>
                          (case completeMultipartUpload requestRetrier (\<not> isCFUploadProxyDisabled)
                                  (completeURL multipartUploadURLs) completedParts st' of
                             (Inl e, st'') \<Rightarrow> (Inl e, st'')
                           | (Inr u, st'') \<Rightarrow>
                               (Inr (mp_objectKey multipartUploadURLs, fileSize'), st'')))))"

datatype encrypted_data = Bytes bytes | Stream EncryptedFileStream

record EncryptedFilePieces =
  piece_file :: "encrypted_data \<times> string"
  piece_thumbnail :: "bytes \<times> string"
  piece_metadata :: "string \<times> string"
  piece_localID :: int

record UploadedObject =
  decryptionHeader :: string
  uo_objectKey :: string
  uo_size :: nat

record BackedUpFile =
  bf_file :: UploadedObject
  bf_thumbnail :: UploadedObject
  bf_metadata :: "string \<times> string"

text \<open>
  \<^verbatim>\<open>uploadToBucket\<close>. The value of \<^verbatim>\<open>Math.random()\<close> is the argument \<open>random\<close>.
  The public magic metadata, which is passed through untouched, is left out.
\<close>

definition uploadToBucket ::
  "'w Network \<Rightarrow> bool \<Rightarrow> real \<Rightarrow> EncryptedFilePieces \<Rightarrow> 'w UploadState
     \<Rightarrow> (error + BackedUpFile) \<times> 'w UploadState" where
  "uploadToBucket net isCFUploadProxyDisabled random pieces st =
     (let localID = piece_localID pieces;
          requestRetrier = createAbortableRetryEnsuringHTTPOk net;
          maxPercent = real_of_int \<lfloor>95 + 5 * random\<rfloor>;
          encryptedData = fst (piece_file pieces);
          multipart = (case encryptedData of
                         Bytes b \<Rightarrow> None
                       | Stream es \<Rightarrow>
                           if multipartChunksPerPart \<le> enc_chunkCount es then Some es else None)
      in case (case multipart of
                 Some es \<Rightarrow>
                   uploadStreamUsingMultipart net requestRetrier isCFUploadProxyDisabled localID es
                     maxPercent st
               | None \<Rightarrow>
                   (let data = (case encryptedData of
                                  Bytes b \<Rightarrow> b
                                | Stream es \<Rightarrow> concat (enc_stream es))
                    in case getUploadURL net st of
                         (Inl e, st1) \<Rightarrow> (Inl e, st1)
                       | (Inr fileUploadURL, st1) \<Rightarrow>
                           (case putFile requestRetrier (\<not> isCFUploadProxyDisabled)
                                   (url fileUploadURL) data st1 of
                              (Inl e, st2) \<Rightarrow> (Inl e, st2)
                            | (Inr u, st2) \<Rightarrow>
                                (Inr (objectKey fileUploadURL, length data),
                                 st2\<lparr>progress := progress st2 @ [(localID, maxPercent)]\<rparr>)))) of
           (Inl e, st3) \<Rightarrow> (Inl e, st3)
         | (Inr (fileObjectKey, fileSize'), st3) \<Rightarrow>
             (case getUploadURL net st3 of
                (Inl e, st4) \<Rightarrow> (Inl e, st4)
              | (Inr thumbnailUploadURL, st4) \<Rightarrow>
                  (case putFile requestRetrier (\<not> isCFUploadProxyDisabled) (url thumbnailUploadURL)
                          (fst (piece_thumbnail pieces)) st4 of
                     (Inl e, st5) \<Rightarrow> (Inl e, st5)
                   | (Inr u, st5) \<Rightarrow>
                       (Inr \<lparr>bf_file = \<lparr>decryptionHeader = snd (piece_file pieces),
                                        uo_objectKey = fileObjectKey,
                                        uo_size = fileSize'\<rparr>,
                             bf_thumbnail = \<lparr>decryptionHeader = snd (piece_thumbnail pieces),
                                             uo_objectKey = objectKey thumbnailUploadURL,
                                             uo_size = length (fst (piece_thumbnail pieces))\<rparr>,
                             bf_metadata = piece_metadata pieces\<rparr>,
                        st5))))"

text \<open>
  The results of \<^verbatim>\<open>upload\<close>: the values its \<^verbatim>\<open>return\<close> statements give, and
  \<open>cancelled\<close>, which the specification's taxonomy names and no \<^verbatim>\<open>return\<close>
  statement gives.
\<close>

datatype UploadResult =
    unsupported
  | tooLarge
  | alreadyUploaded
  | addedSymlink
  | uploaded
  | uploadedWithStaticThumbnail
  | blocked
  | largerThanAvailableStorage
  | failed
  | cancelled

text \<open>
  The \<^verbatim>\<open>catch\<close> block of \<^verbatim>\<open>upload\<close>. \<^verbatim>\<open>handleUploadError\<close> of
  \<^verbatim>\<open>ente-shared/error\<close> is not under \<^verbatim>\<open>src/\<close> and is an argument: it returns an
  error (\<open>Inr\<close>) or throws one (\<open>Inl\<close>). What it throws leaves \<^verbatim>\<open>upload\<close>.
\<close>

definition upload_catch :: "(error \<Rightarrow> error + error) \<Rightarrow> error \<Rightarrow> error + UploadResult" where
  "upload_catch handleUploadError e =
     (case handleUploadError e of
        Inl thrown \<Rightarrow> Inl thrown
      | Inr err \<Rightarrow>
          Inr (case err of
                 ETagMissing \<Rightarrow> blocked
               | FILE_TOO_LARGE \<Rightarrow> largerThanAvailableStorage
               | _ \<Rightarrow> failed))"

text \<open>
  The end of \<^verbatim>\<open>upload\<close>, from the call of \<^verbatim>\<open>uploadToBucket\<close> on, inside its
  \<^verbatim>\<open>try\<close>: upload to the bucket, check the flag, post the file (\<open>postFile\<close>, an
  argument, is the call of remote that finalizes it), and return the result.
\<close>

definition upload_fromBucket ::
  "'w Network \<Rightarrow> (error \<Rightarrow> error + error)
     \<Rightarrow> (BackedUpFile \<Rightarrow> 'w \<Rightarrow> (error + unit) \<times> 'w)
     \<Rightarrow> bool \<Rightarrow> real \<Rightarrow> EncryptedFilePieces \<Rightarrow> bool \<Rightarrow> 'w UploadState
     \<Rightarrow> (error + UploadResult) \<times> 'w UploadState" where
  "upload_fromBucket net handleUploadError postFile isCFUploadProxyDisabled random pieces
       hasStaticThumbnail' st =
     (case uploadToBucket net isCFUploadProxyDisabled random pieces st of
        (Inl e, st1) \<Rightarrow> (upload_catch handleUploadError e, st1)
      | (Inr backupedFile, st1) \<Rightarrow>
          (case abortIfCancelled net st1 of
             Inl e \<Rightarrow> (upload_catch handleUploadError e, st1)
           | Inr u \<Rightarrow>
               (case postFile backupedFile (world st1) of
                  (Inl e, w') \<Rightarrow> (upload_catch handleUploadError e, st1\<lparr>world := w'\<rparr>)
                | (Inr u', w') \<Rightarrow>
                    (Inr (if hasStaticThumbnail' then uploadedWithStaticThumbnail else uploaded),
                     st1\<lparr>world := w'\<rparr>))))"

section \<open>Clubbing the parts of a live photo\<close>

record PotentialLivePhotoAsset =
  pl_fileName :: string
  pl_fileType :: FileType
  pl_collectionID :: int
  pl_uploadItem :: UploadItem
  pl_pathPrefix :: "string option"

text \<open>
  \<^verbatim>\<open>endsWith\<close> and \<^verbatim>\<open>toLowerCase\<close> of a string. The characters of the model are
  bytes, and \<^verbatim>\<open>toLowerCase\<close> maps the letters A to Z.
\<close>

definition endsWith :: "string \<Rightarrow> string \<Rightarrow> bool" where
  "endsWith name s = (length s \<le> length name \<and> drop (length name - length s) name = s)"

definition toLowerCase :: "string \<Rightarrow> string" where
  "toLowerCase s =
     map (\<lambda>c. case map_of (zip ''ABCDEFGHIJKLMNOPQRSTUVWXYZ'' ''abcdefghijklmnopqrstuvwxyz'') c of
                 Some l \<Rightarrow> l
               | None \<Rightarrow> c) s"

text \<open>
  \<^verbatim>\<open>removePotentialLivePhotoSuffix\<close>. A suffix that is found is not empty, and
  \<^verbatim>\<open>name.slice(0, -n)\<close> keeps all but the last \<open>n\<close> characters.
\<close>

definition removePotentialLivePhotoSuffix :: "string \<Rightarrow> string option \<Rightarrow> string" where
  "removePotentialLivePhotoSuffix name suffix =
     (let suffix_3 = ''_3'';
          suffix_hvec = ''_HVEC'';
          foundSuffix =
            (if endsWith name suffix_3 then Some suffix_3
             else if endsWith name suffix_hvec \<or> endsWith name (toLowerCase suffix_hvec)
             then Some suffix_hvec
             else case suffix of
                    None \<Rightarrow> None
                  | Some s \<Rightarrow>
                      if s \<noteq> [] \<and> (endsWith name s \<or> endsWith name (toLowerCase s))
                      then Some s else None)
      in case foundSuffix of
           Some found \<Rightarrow> if found \<noteq> [] then take (length name - length found) name else name
         | None \<Rightarrow> name)"

definition uploadItemSize :: "UploadEnv \<Rightarrow> UploadItem \<Rightarrow> error + nat" where
  "uploadItemSize env uploadItem =
     (case uploadItem of
        WebFile f \<Rightarrow> Inr (file_size f)
      | Path p \<Rightarrow> pathOrZipItemSize env uploadItem
      | ZipItem z n \<Rightarrow> pathOrZipItemSize env uploadItem
      | FileAndPath f p \<Rightarrow> Inr (file_size f))"

definition uploadItemCreationDate ::
  "UploadEnv \<Rightarrow> UploadItem \<Rightarrow> FileType \<Rightarrow> ParsedMetadataJSON option \<Rightarrow> error + int option" where
  "uploadItemCreationDate env uploadItem fileType' parsedMetadataJSON =
     (if truthy_num (Option.bind parsedMetadataJSON pj_creationTime)
      then Inr (Option.bind parsedMetadataJSON pj_creationTime)
      else case (if fileType' = Image then tryExtractImageMetadata env uploadItem None
                 else if fileType' = Video then Inr (tryExtractVideoMetadata env uploadItem)
                 else Inl UnexpectedFileType) of
             Inl e \<Rightarrow> Inl e
           | Inr parsedMetadata \<Rightarrow>
               Inr (map_option timestamp (Option.bind parsedMetadata pm_creationDate)))"

text \<open>
  The pruned names of \<^verbatim>\<open>areLivePhotoAssets\<close>: of an image and a video, in either
  order, and \<open>None\<close> for any other pair of types. The extension of the video,
  when it has one, is a suffix to remove from the name of the image.
\<close>

definition dotted :: "string option \<Rightarrow> string option" where
  "dotted ext = (case ext of None \<Rightarrow> None | Some e \<Rightarrow> if e \<noteq> [] then Some (''.'' @ e) else None)"

definition prunedNames ::
  "UploadEnv \<Rightarrow> PotentialLivePhotoAsset \<Rightarrow> PotentialLivePhotoAsset \<Rightarrow> (string \<times> string) option" where
  "prunedNames env f g =
     (case nameAndExtension env (pl_fileName f) of
        (fName, fExt) \<Rightarrow>
          (case nameAndExtension env (pl_fileName g) of
             (gName, gExt) \<Rightarrow>
               if pl_fileType f = Image \<and> pl_fileType g = Video
               then Some (removePotentialLivePhotoSuffix fName (dotted gExt),
                          removePotentialLivePhotoSuffix gName None)
               else if pl_fileType f = Video \<and> pl_fileType g = Image
               then Some (removePotentialLivePhotoSuffix fName None,
                          removePotentialLivePhotoSuffix gName (dotted fExt))
               else None))"

definition maxAssetSize :: nat where
  "maxAssetSize = 20 * 1024 * 1024"

definition thresholdSeconds :: real where
  "thresholdSeconds = 24 * 60 * 60"

text \<open>
  \<^verbatim>\<open>fDate && gDate && Math.abs(fDate - gDate) / 1e6 < thresholdSeconds\<close>, as a
  condition.
\<close>

definition haveSameishDate :: "int option \<Rightarrow> int option \<Rightarrow> bool" where
  "haveSameishDate fDate gDate =
     (truthy_num fDate \<and> truthy_num gDate
      \<and> real_of_int \<bar>the fDate - the gDate\<bar> / 1000000 < thresholdSeconds)"

definition areLivePhotoAssets ::
  "UploadEnv \<Rightarrow> PotentialLivePhotoAsset \<Rightarrow> PotentialLivePhotoAsset
     \<Rightarrow> (string \<rightharpoonup> ParsedMetadataJSON) \<Rightarrow> error + bool" where
  "areLivePhotoAssets env f g parsedMetadataJSONMap =
     (if pl_collectionID f \<noteq> pl_collectionID g then Inr False
      else if pl_pathPrefix f \<noteq> pl_pathPrefix g then Inr False
      else case prunedNames env f g of
             None \<Rightarrow> Inr False
           | Some (fPrunedName, gPrunedName) \<Rightarrow>
               if fPrunedName \<noteq> gPrunedName then Inr False
               else case uploadItemSize env (pl_uploadItem f) of
                      Inl e \<Rightarrow> Inl e
                    | Inr fSize \<Rightarrow>
               (case uploadItemSize env (pl_uploadItem g) of
                      Inl e \<Rightarrow> Inl e
                    | Inr gSize \<Rightarrow>
               if fSize > maxAssetSize \<or> gSize > maxAssetSize then Inr False
               else
                 let fParsedMetadataJSON =
                       matchJSONMetadata env (pl_pathPrefix f) (pl_collectionID f) (pl_fileName f)
                         parsedMetadataJSONMap;
                     gParsedMetadataJSON =
                       matchJSONMetadata env (pl_pathPrefix g) (pl_collectionID g) (pl_fileName g)
                         parsedMetadataJSONMap
                 in case uploadItemCreationDate env (pl_uploadItem f) (pl_fileType f)
                           fParsedMetadataJSON of
                      Inl e \<Rightarrow> Inl e
                    | Inr fDate \<Rightarrow>
                 (case uploadItemCreationDate env (pl_uploadItem g) (pl_fileType g)
                           gParsedMetadataJSON of
                      Inl e \<Rightarrow> Inl e
                    | Inr gDate \<Rightarrow>
                 if \<not> haveSameishDate fDate gDate
                    \<and> ((fParsedMetadataJSON = None \<and> gParsedMetadataJSON = None)
                        \<or> (fParsedMetadataJSON \<noteq> None \<and> gParsedMetadataJSON \<noteq> None))
                 then Inr False
                 else Inr True)))"

section \<open>Sample collaborators and inputs\<close>

text \<open>
  Concrete collaborators, on which the functions above can be evaluated: a web app
  (no desktop file access) whose extractors find nothing, and a worker whose hash
  of a file is a letter followed by one letter for each of the file's bytes and whose encryption of a chunk
  prefixes it with the final flag.
\<close>

definition sample_env :: UploadEnv where
  "sample_env =
     \<lparr>readStream = (\<lambda>item. Inl (ExternalError ''not the desktop app'')),
      pathOrZipItemSize = (\<lambda>item. Inl (ExternalError ''not the desktop app'')),
      basename = (\<lambda>s. s),
      nameAndExtension = (\<lambda>s. (s, None)),
      extractExif = (\<lambda>f. Inl (ExternalError ''no Exif'')),
      extractVideoMetadata = (\<lambda>item. Inl (ExternalError ''no metadata'')),
      determineVideoDuration = (\<lambda>item. Inl (ExternalError ''no duration'')),
      matchJSONMetadata = (\<lambda>pathPrefix collectionID fileName m. m fileName),
      tryParseEpochMicrosecondsFromFileName = (\<lambda>s. None),
      dateNow = 0\<rparr>"

definition sample_worker :: "(bytes, nat) CryptoWorker" where
  "sample_worker =
     \<lparr>chunkHashInit = [],
      chunkHashUpdate = (\<lambda>hs chunk. hs @ chunk),
      chunkHashFinal = (\<lambda>hs. CHR ''h'' # replicate (length hs) CHR ''x''),
      initChunkEncryption = (\<lambda>key. (''header'', 0)),
      encryptStreamChunk = (\<lambda>v ps final.
         case v of
           None \<Rightarrow> Inl TypeError
         | Some chunk \<Rightarrow> Inr ((if final then 1 else 0) # chunk, ps + 1))\<rparr>"

definition sample_image :: UploadItem where
  "sample_image =
     WebFile \<lparr>file_name = ''IMG_0001.jpg'', file_size = 3, lastModified = 0,
              file_stream = [[97, 98], [99]]\<rparr>"

definition sample_video :: UploadItem where
  "sample_video =
     WebFile \<lparr>file_name = ''IMG_0001.mov'', file_size = 2, lastModified = 0,
              file_stream = [[100, 101]]\<rparr>"

definition sample_metadata :: Metadata where
  "sample_metadata =
     \<lparr>fileType = Image, title = ''IMG_0001.jpg'', creationTime = 0, modificationTime = 0,
      latitude = None, longitude = None, hash = Some ''abc'', imageHash = None,
      videoHash = None, duration = None, hasStaticThumbnail = None\<rparr>"

text \<open>
  Collaborators of the metadata tiers: a ciphertext is the plaintext paired with the
  key, decryption fails under any other key, remote accepts every write, and
  \<^verbatim>\<open>mergeMetadata1\<close> leaves the modelled fields alone.
\<close>

definition sample_metadata_env :: "(js_object \<times> string) MetadataEnv" where
  "sample_metadata_env =
     \<lparr>encryptMetadataJSON = (\<lambda>obj k. ((obj, k), ''header'')),
      decryptMetadataJSON = (\<lambda>ch k.
         if snd (fst ch) = k then Inr (fst (fst ch))
         else Inl (ExternalError ''decryption failed'')),
      fetch = (\<lambda>path request. Inr 200),
      mergeMetadata1 = (\<lambda>file. file)\<rparr>"

definition sample_file :: "(js_object \<times> string) EnteFile" where
  "sample_file =
     \<lparr>file_id = 7, file_key = ''key'', file_metadata = sample_metadata,
      magicMetadata = None, pubMagicMetadata = None\<rparr>"

text \<open>
  A network that answers every request with status 200 and a tag that tells how many
  requests came before, hands out as many part URLs as it is asked for, and raises
  the cancellation flag once the given number of requests has been answered (never,
  for \<open>None\<close>); and twelve one-byte chunks of ciphertext.
\<close>

definition sample_network :: "nat option \<Rightarrow> nat Network" where
  "sample_network cancelAfter =
     \<lparr>isCancelled = (\<lambda>w. case cancelAfter of None \<Rightarrow> False | Some k \<Rightarrow> k \<le> w),
      send = (\<lambda>req w.
         (Inr \<lparr>resp_status = 200, resp_etag = Some (replicate (Suc w) CHR ''t'')\<rparr>, Suc w)),
      fetchUploadURLs = (\<lambda>n w. (Inr [\<lparr>objectKey = ''object'', url = ''upload-url''\<rparr>], w)),
      fetchMultipartUploadURLs = (\<lambda>n w.
         (Inr \<lparr>mp_objectKey = ''object'',
               partURLs = map (\<lambda>i. replicate (Suc i) CHR ''p'') [0 ..< n],
               completeURL = ''complete-url''\<rparr>, w)),
      retries = 3\<rparr>"

definition sample_state :: "nat UploadState" where
  "sample_state =
     \<lparr>world = 0, uploadURLs = [], pendingUploadCount = 1, sent = [], progress = []\<rparr>"

definition sample_pieces :: "encrypted_data \<Rightarrow> EncryptedFilePieces" where
  "sample_pieces encryptedData =
     \<lparr>piece_file = (encryptedData, ''file-header''),
      piece_thumbnail = ([7], ''thumbnail-header''),
      piece_metadata = (''metadata'', ''metadata-header''),
      piece_localID = 1\<rparr>"

definition twelve_chunks :: EncryptedFileStream where
  "twelve_chunks =
     \<lparr>enc_stream = [[1], [2], [3], [4], [5], [6], [7], [8], [9], [10], [11], [12]],
      enc_chunkCount = 12\<rparr>"

text \<open>
  A network on which the first request made is interrupted by the cancellation
  signal, thrown by the request itself, and every later one is answered; and a
  retrier that makes its request once, without looking at the cancellation flag.
\<close>

definition interrupted_network :: "nat Network" where
  "interrupted_network =
     (sample_network None)\<lparr>send := (\<lambda>req w.
        if w = 0 then (Inl UPLOAD_CANCELLED, 1) else send (sample_network None) req w)\<rparr>"

definition heedless_retrier :: "nat HTTPRequestRetrier" where
  "heedless_retrier request st =
     (Inr \<lparr>resp_status = 200, resp_etag = Some ''t''\<rparr>, st\<lparr>sent := sent st @ [request]\<rparr>)"

text \<open>A remote that accepts every file posted to it.\<close>

definition sample_postFile :: "BackedUpFile \<Rightarrow> nat \<Rightarrow> (error + unit) \<times> nat" where
  "sample_postFile backupedFile w = (Inr (), w)"

text \<open>
  A file that has grown since its size was taken, to a full chunk and one byte more,
  and a file that has shrunk to one byte.
\<close>

definition grown_file :: UploadItem where
  "grown_file =
     WebFile \<lparr>file_name = ''IMG_0002.jpg'', file_size = 1, lastModified = 0,
              file_stream = [replicate streamEncryptionChunkSize 0, [1]]\<rparr>"

definition shrunk_file :: UploadItem where
  "shrunk_file =
     WebFile \<lparr>file_name = ''IMG_0003.jpg'', file_size = 4194305, lastModified = 0,
              file_stream = [[1]]\<rparr>"

text \<open>
  A Google Takeout: \<^verbatim>\<open>nameAndExtension\<close> splits a file name at its last dot (a name
  without a dot, or with its only dot in front, has no extension), and the image of a
  live photo comes with a sidecar and the video without one. In the second
  environment the Exif data of every image holds a creation date.
\<close>

definition lastDot :: "string \<Rightarrow> string \<times> string option" where
  "lastDot fileName =
     (let ext = rev (takeWhile (\<lambda>c. c \<noteq> CHR ''.'') (rev fileName))
      in if length fileName \<le> length ext + 1 then (fileName, None)
         else (take (length fileName - length ext - 1) fileName, Some ext))"

definition takeout_env :: UploadEnv where
  "takeout_env = sample_env\<lparr>nameAndExtension := lastDot\<rparr>"

definition takeout_image :: PotentialLivePhotoAsset where
  "takeout_image =
     \<lparr>pl_fileName = ''IMG_0001.jpg'', pl_fileType = Image, pl_collectionID = 1,
      pl_uploadItem = sample_image, pl_pathPrefix = Some ''Takeout''\<rparr>"

definition takeout_video :: PotentialLivePhotoAsset where
  "takeout_video =
     \<lparr>pl_fileName = ''IMG_0001.mov'', pl_fileType = Video, pl_collectionID = 1,
      pl_uploadItem = sample_video, pl_pathPrefix = Some ''Takeout''\<rparr>"

definition takeout_json :: "string \<rightharpoonup> ParsedMetadataJSON" where
  "takeout_json =
     [''IMG_0001.jpg'' \<mapsto>
        \<lparr>pj_creationTime = Some 1700000000000000, pj_modificationTime = None,
         pj_location = None, pj_description = None\<rparr>]"

definition exif_env :: UploadEnv where
  "exif_env =
     takeout_env\<lparr>extractExif := (\<lambda>file.
        Inr \<lparr>pm_width = None, pm_height = None,
             pm_creationDate =
               Some \<lparr>dateTime = ''2023-11-14T22:13:20'', offset = None,
                     timestamp = 1700000000000000\<rparr>,
             pm_location = None, pm_description = None, pm_creationTime = None\<rparr>)\<rparr>"

text \<open>
  A file of two full chunks that its stream delivers in two uneven pieces, an empty
  file, and a desktop app whose \<^verbatim>\<open>readStream\<close> delivers a full chunk and two bytes.
\<close>

definition desktop_env :: UploadEnv where
  "desktop_env =
     sample_env\<lparr>readStream := (\<lambda>item.
        Inr \<lparr>body = [replicate 4194304 7, [8, 9]], ns_size = 4194306, ns_lastModifiedMs = 0\<rparr>)\<rparr>"

definition two_chunk_file :: UploadItem where
  "two_chunk_file =
     WebFile \<lparr>file_name = ''IMG_0004.jpg'', file_size = 8388608, lastModified = 0,
              file_stream = [replicate 3 0, replicate 8388605 1]\<rparr>"

definition empty_file :: UploadItem where
  "empty_file =
     FileAndPath \<lparr>file_name = ''empty.jpg'', file_size = 0, lastModified = 0,
                  file_stream = []\<rparr> ''/photos/empty.jpg''"

section \<open>Properties of reading an upload item\<close>

lemma chunkSize_pos: "0 < streamEncryptionChunkSize"
  by (simp add: streamEncryptionChunkSize_def)

lemma transform_while_spec:
  "\<exists>ws. fst (transform_while q n) = q @ ws
        \<and> (\<forall>c\<in>set ws. length c = streamEncryptionChunkSize)
        \<and> concat ws @ snd (transform_while q n) = n
        \<and> length (snd (transform_while q n)) < streamEncryptionChunkSize"
proof (induction q n rule: transform_while.induct)
  case (1 enqueued "next")
  show ?case
  proof (cases "streamEncryptionChunkSize \<le> length next")
    case True
    let ?N = streamEncryptionChunkSize
    from 1 [OF True] obtain ws where ws:
      "fst (transform_while (enqueued @ [take ?N next]) (drop ?N next))
         = (enqueued @ [take ?N next]) @ ws"
      "\<forall>c\<in>set ws. length c = ?N"
      "concat ws @ snd (transform_while (enqueued @ [take ?N next]) (drop ?N next))
         = drop ?N next"
      "length (snd (transform_while (enqueued @ [take ?N next]) (drop ?N next))) < ?N"
      by blast
    have step: "transform_while enqueued next
                  = transform_while (enqueued @ [take ?N next]) (drop ?N next)"
      using True by (subst transform_while.simps) simp
    show ?thesis
      apply (rule exI [of _ "take ?N next # ws"])
      using ws True by (simp add: step)
  next
    case False
    then have "transform_while enqueued next = (enqueued, next)"
      by (subst transform_while.simps) simp
    with False show ?thesis by simp
  qed
qed

lemma transform_chunked:
  assumes "chunked st consumed"
  shows "chunked (transform chunk st) (consumed @ chunk)"
proof -
  obtain pending q where st: "st = (pending, q)" by (cases st)
  let ?next = "case pending of Some p \<Rightarrow> p @ chunk | None \<Rightarrow> chunk"
  obtain ws where ws:
    "fst (transform_while q ?next) = q @ ws"
    "\<forall>c\<in>set ws. length c = streamEncryptionChunkSize"
    "concat ws @ snd (transform_while q ?next) = ?next"
    "length (snd (transform_while q ?next)) < streamEncryptionChunkSize"
    using transform_while_spec [of q ?next] by blast
  have c: "concat q @ ?next = consumed @ chunk"
    using assms st by (auto simp: chunked_def split: option.splits)
  have "concat (q @ ws) @ snd (transform_while q ?next) = consumed @ chunk"
    using ws(3) c by simp
  then show ?thesis
    using ws assms st
    by (auto simp: chunked_def transform_def Let_def split: prod.splits option.splits)
qed

lemma fold_transform_chunked:
  "chunked st consumed \<Longrightarrow> chunked (fold transform cs st) (consumed @ concat cs)"
proof (induction cs arbitrary: st consumed)
  case Nil
  then show ?case by simp
next
  case (Cons c cs)
  from Cons.IH [OF transform_chunked [OF Cons.prems, of c]] show ?case by simp
qed

lemma pipeThrough_shape:
  "\<exists>q r. pipeThrough cs = q @ (if r = [] then [] else [r])
         \<and> (\<forall>c\<in>set q. length c = streamEncryptionChunkSize)
         \<and> length r < streamEncryptionChunkSize
         \<and> concat q @ r = concat cs"
proof -
  have init: "chunked (None, []) []" by (simp add: chunked_def)
  have inv: "chunked (fold transform cs (None, [])) (concat cs)"
    using fold_transform_chunked [OF init, of cs] by simp
  obtain pending q where st: "fold transform cs (None, []) = (pending, q)"
    by (cases "fold transform cs (None, [])")
  show ?thesis
  proof (cases pending)
    case None
    with inv st show ?thesis
      by (intro exI [of _ q] exI [of _ "[]"])
         (simp add: pipeThrough_def flush_def chunked_def chunkSize_pos)
  next
    case (Some p)
    with inv st show ?thesis
      by (intro exI [of _ q] exI [of _ p])
         (auto simp: pipeThrough_def flush_def chunked_def)
  qed
qed

lemma length_concat_uniform:
  "\<forall>c\<in>set q. length c = n \<Longrightarrow> length (concat q) = n * length q"
  by (induction q) auto

text \<open>Rounding a quotient of naturals up, in integer arithmetic.\<close>

lemma nat_ceil_div_aux:
  fixes a b :: nat
  assumes b: "0 < b"
  shows "(a + b - 1) div b = (if a mod b = 0 then a div b else Suc (a div b))"
proof -
  define r where "r = a mod b"
  define q where "q = a div b"
  have a: "a = q * b + r" by (simp add: q_def r_def)
  have rb: "r < b" using b by (simp add: r_def)
  show ?thesis
  proof (cases "r = 0")
    case True
    have "a + b - 1 = q * b + (b - 1)" using a True b by simp
    then have "(a + b - 1) div b = q + (b - 1) div b"
      using b by (simp only: div_mult_self3)
    moreover have "(b - 1) div b = 0" using b by simp
    ultimately show ?thesis using True by (simp add: q_def r_def)
  next
    case False
    have "a + b - 1 = (q + 1) * b + (r - 1)" using a False by (simp add: algebra_simps)
    then have "(a + b - 1) div b = (q + 1) + (r - 1) div b"
      using b by (simp only: div_mult_self3)
    moreover have "(r - 1) div b = 0" using rb by simp
    ultimately show ?thesis using False by (simp add: q_def r_def)
  qed
qed

lemma ceil_div_nat: "0 < b \<Longrightarrow> nat \<lceil>real a / real b\<rceil> = (a + b - 1) div b"
proof -
  assume b: "0 < b"
  have "\<lceil>real a / real b\<rceil> = \<lceil>real_of_int (int a) / real_of_int (int b)\<rceil>" by simp
  also have "\<dots> = - (- int a div int b)" by (rule ceiling_divide_eq_div)
  finally have 1: "\<lceil>real a / real b\<rceil> = - (- int a div int b)" .
  have 2: "- (- int a div int b)
             = (if int a mod int b = 0 then int a div int b else int a div int b + 1)"
    using b by (simp add: zdiv_zminus1_eq_if)
  have 3: "(int a mod int b = 0) = (a mod b = 0)"
    by (metis of_nat_eq_0_iff zmod_int)
  have 4: "int a div int b = int (a div b)" by (simp add: zdiv_int)
  have 5: "nat (int (a div b) + 1) = Suc (a div b)" by (simp add: nat_add_distrib)
  show ?thesis
    unfolding 1 2 3 4 nat_ceil_div_aux [OF b] using 5 by simp
qed

lemma pipeThrough_chunks:
  fixes cs :: "bytes list"
  defines "S \<equiv> length (concat cs)" and "N \<equiv> streamEncryptionChunkSize"
  shows "length (pipeThrough cs) = (S + N - 1) div N
         \<and> (\<forall>i. i + 1 < length (pipeThrough cs) \<longrightarrow> length (pipeThrough cs ! i) = N)
         \<and> (pipeThrough cs \<noteq> [] \<longrightarrow>
              length (last (pipeThrough cs)) = (if S mod N \<noteq> 0 then S mod N else N))
         \<and> (S = 0 \<longrightarrow> pipeThrough cs = [])
         \<and> concat (pipeThrough cs) = concat cs"
proof -
  obtain q r where qr:
    "pipeThrough cs = q @ (if r = [] then [] else [r])"
    "\<forall>c\<in>set q. length c = N"
    "length r < N"
    "concat q @ r = concat cs"
    using pipeThrough_shape [of cs] unfolding N_def by blast
  have N: "0 < N" by (simp add: N_def chunkSize_pos)
  have S: "S = N * length q + length r"
    using qr(4) length_concat_uniform [OF qr(2)] unfolding S_def
    by (metis length_append)
  have dv: "S div N = length q" and md: "S mod N = length r"
    using S qr(3) N by simp_all
  have cnt: "(S + N - 1) div N = (if S mod N = 0 then S div N else Suc (S div N))"
    using nat_ceil_div_aux [OF N, of S] by simp
  have 1: "length (pipeThrough cs) = (S + N - 1) div N"
    using qr(1) dv md cnt by simp
  have 2: "\<forall>i. i + 1 < length (pipeThrough cs) \<longrightarrow> length (pipeThrough cs ! i) = N"
    using qr(1) qr(2) by (auto simp: nth_append split: if_splits)
  have 3: "pipeThrough cs \<noteq> [] \<longrightarrow>
              length (last (pipeThrough cs)) = (if S mod N \<noteq> 0 then S mod N else N)"
    using qr(1) qr(2) md by (auto split: if_splits)
  have 4: "S = 0 \<longrightarrow> pipeThrough cs = []"
    using qr(1) S N by auto
  have 5: "concat (pipeThrough cs) = concat cs"
    using qr(1) qr(4) by (auto split: if_splits)
  from 1 2 3 4 5 show ?thesis by blast
qed

text \<open>The chunk count of \<^verbatim>\<open>readUploadItem\<close> in integer arithmetic, for evaluation.\<close>

lemma readUploadItem_eval:
  "readUploadItem env uploadItem =
     (case readUploadItem_source env uploadItem of
        Inl e \<Rightarrow> Inl e
      | Inr (underlyingStream, file, sz, lm) \<Rightarrow>
          Inr \<lparr>stream = pipeThrough underlyingStream,
               chunkCount = (sz + 4194303) div 4194304,
               fileSize = sz,
               lastModifiedMs = lm,
               file_opt = file\<rparr>)"
proof -
  have "\<And>sz. nat \<lceil>real sz / real streamEncryptionChunkSize\<rceil> = (sz + 4194303) div 4194304"
    using ceil_div_nat [OF chunkSize_pos] by (simp add: streamEncryptionChunkSize_def)
  then show ?thesis
    by (simp add: readUploadItem_def split: sum.splits prod.splits)
qed

lemmas sample_defs = sample_env_def sample_worker_def sample_image_def sample_video_def

lemmas pipeThrough_eval =
  pipeThrough_def transform_def flush_def transform_while.simps streamEncryptionChunkSize_def

lemma readUploadItem_chunks_of_source:
  assumes "readUploadItem_source env uploadItem = Inr (underlyingStream, file, S, lm)"
    and "length (concat underlyingStream) = S"
  shows "\<exists>fs. readUploadItem env uploadItem = Inr fs
           \<and> fileSize fs = S
           \<and> chunkCount fs = nat \<lceil>real S / real streamEncryptionChunkSize\<rceil>
           \<and> streamEncryptionChunkSize = 4194304
           \<and> chunkCount fs = (S + 4194303) div 4194304
           \<and> length (stream fs) = chunkCount fs
           \<and> (\<forall>i. i + 1 < length (stream fs) \<longrightarrow> length (stream fs ! i) = 4194304)
           \<and> (stream fs \<noteq> [] \<longrightarrow>
                length (last (stream fs))
                  = (if S mod 4194304 \<noteq> 0 then S mod 4194304 else 4194304))
           \<and> (S = 0 \<longrightarrow> stream fs = [])
           \<and> concat (stream fs) = concat underlyingStream"
proof -
  have N: "streamEncryptionChunkSize = 4194304"
    by (simp add: streamEncryptionChunkSize_def)
  let ?out = "pipeThrough underlyingStream"
  let ?fs = "\<lparr>stream = ?out,
              chunkCount = nat \<lceil>real S / real streamEncryptionChunkSize\<rceil>,
              fileSize = S, lastModifiedMs = lm, file_opt = file\<rparr>"
  have r: "readUploadItem env uploadItem = Inr ?fs"
    using assms(1) by (simp add: readUploadItem_def)
  have cc: "nat \<lceil>real S / real streamEncryptionChunkSize\<rceil> = (S + 4194303) div 4194304"
    using ceil_div_nat [OF chunkSize_pos, of S] by (simp add: N)
  note pc = pipeThrough_chunks [of underlyingStream, unfolded assms(2) N]
  have 1: "length ?out = (S + 4194303) div 4194304"
    using pc by simp
  have 2: "\<forall>i. i + 1 < length ?out \<longrightarrow> length (?out ! i) = 4194304"
    using pc by blast
  have 3: "?out \<noteq> [] \<longrightarrow>
             length (last ?out) = (if S mod 4194304 \<noteq> 0 then S mod 4194304 else 4194304)"
    using pc by blast
  have 4: "S = 0 \<longrightarrow> ?out = []"
    using pc by blast
  have 5: "concat ?out = concat underlyingStream"
    using pc by blast
  have "readUploadItem env uploadItem = Inr ?fs
           \<and> fileSize ?fs = S
           \<and> chunkCount ?fs = nat \<lceil>real S / real streamEncryptionChunkSize\<rceil>
           \<and> streamEncryptionChunkSize = 4194304
           \<and> chunkCount ?fs = (S + 4194303) div 4194304
           \<and> length (stream ?fs) = chunkCount ?fs
           \<and> (\<forall>i. i + 1 < length (stream ?fs) \<longrightarrow> length (stream ?fs ! i) = 4194304)
           \<and> (stream ?fs \<noteq> [] \<longrightarrow>
                length (last (stream ?fs))
                  = (if S mod 4194304 \<noteq> 0 then S mod 4194304 else 4194304))
           \<and> (S = 0 \<longrightarrow> stream ?fs = [])
           \<and> concat (stream ?fs) = concat underlyingStream"
    apply (intro conjI)
    subgoal by (rule r)
    subgoal by simp
    subgoal by simp
    subgoal by (rule N)
    subgoal using cc by simp
    subgoal using 1 cc by simp
    subgoal using 2 by simp
    subgoal using 3 by simp
    subgoal using 4 by simp
    subgoal using 5 by simp
    done
  then show ?thesis by (rule exI)
qed

text \<open>
  Claim C1. Let an upload item be a web file (alone or with its path), with the size
  \<open>S\<close> that the file reports, or a path or a zip entry for which the desktop
  app's \<^verbatim>\<open>readStream\<close> answers a stream and the size \<open>S\<close>; and let the file's or
  the answer's stream deliver \<open>S\<close> bytes, in pieces of whatever sizes. Then
  \<^verbatim>\<open>readUploadItem\<close> returns, with \<^verbatim>\<open>chunkCount\<close> the quotient of \<open>S\<close> by
  4194304 rounded up, a stream of that many chunks in which every chunk but the last
  has 4194304 bytes and the last has the remainder of \<open>S\<close> by 4194304, or 4194304
  bytes when that remainder is zero; a source of no bytes gives no chunk. The chunks
  are the source's bytes in order.
\<close>

theorem readUploadItem_chunks:
  assumes item:
      "((uploadItem = WebFile f \<or> uploadItem = FileAndPath f p)
          \<and> underlyingStream = file_stream f \<and> S = file_size f)
       \<or> ((uploadItem = Path p \<or> uploadItem = ZipItem z entryName)
          \<and> readStream env uploadItem = Inr r
          \<and> underlyingStream = body r \<and> S = ns_size r)"
    and bytes: "length (concat underlyingStream) = S"
  shows "\<exists>fs. readUploadItem env uploadItem = Inr fs
           \<and> fileSize fs = S
           \<and> chunkCount fs = nat \<lceil>real S / real streamEncryptionChunkSize\<rceil>
           \<and> streamEncryptionChunkSize = 4194304
           \<and> chunkCount fs = (S + 4194303) div 4194304
           \<and> length (stream fs) = chunkCount fs
           \<and> (\<forall>i. i + 1 < length (stream fs) \<longrightarrow> length (stream fs ! i) = 4194304)
           \<and> (stream fs \<noteq> [] \<longrightarrow>
                length (last (stream fs))
                  = (if S mod 4194304 \<noteq> 0 then S mod 4194304 else 4194304))
           \<and> (S = 0 \<longrightarrow> stream fs = [])
           \<and> concat (stream fs) = concat underlyingStream"
proof -
  have "\<exists>fl lm. readUploadItem_source env uploadItem = Inr (underlyingStream, fl, S, lm)"
    using item by (auto simp: readUploadItem_source_def)
  then obtain fl lm where
    src: "readUploadItem_source env uploadItem = Inr (underlyingStream, fl, S, lm)"
    by blast
  show ?thesis
    by (rule readUploadItem_chunks_of_source [OF src bytes])
qed

text \<open>
  A web file of 3 bytes gives one chunk of 3 bytes; a web file of 8388608 bytes gives
  two full chunks; an empty file gives no chunk; a path whose stream delivers 4194306
  bytes gives a full chunk and a chunk of 2 bytes.
\<close>

theorem readUploadItem_chunks_witness:
  "(\<exists>fs. readUploadItem sample_env sample_image = Inr fs
      \<and> chunkCount fs = 1 \<and> length (stream fs) = 1 \<and> length (last (stream fs)) = 3
      \<and> concat (stream fs) = [97, 98, 99])
   \<and> (\<exists>fs. readUploadItem sample_env two_chunk_file = Inr fs
      \<and> chunkCount fs = 2 \<and> length (stream fs) = 2
      \<and> length (stream fs ! 0) = 4194304 \<and> length (last (stream fs)) = 4194304)
   \<and> (\<exists>fs. readUploadItem sample_env empty_file = Inr fs
      \<and> chunkCount fs = 0 \<and> stream fs = [])
   \<and> (\<exists>fs. readUploadItem desktop_env (Path ''/photos/IMG_0005.jpg'') = Inr fs
      \<and> chunkCount fs = 2 \<and> length (stream fs) = 2
      \<and> length (stream fs ! 0) = 4194304 \<and> length (last (stream fs)) = 2)"
proof -
  let ?f1 = "\<lparr>file_name = ''IMG_0001.jpg'', file_size = 3, lastModified = 0,
              file_stream = [[97, 98], [99]]\<rparr>"
  let ?f2 = "\<lparr>file_name = ''IMG_0004.jpg'', file_size = 8388608, lastModified = 0,
              file_stream = [replicate 3 0, replicate 8388605 1]\<rparr>"
  let ?f3 = "\<lparr>file_name = ''empty.jpg'', file_size = 0, lastModified = 0,
              file_stream = []\<rparr>"
  let ?r = "\<lparr>body = [replicate 4194304 (7 :: 8 word), [8, 9]], ns_size = 4194306,
             ns_lastModifiedMs = 0\<rparr>"
  have i1: "((sample_image = WebFile ?f1 \<or> sample_image = FileAndPath ?f1 p)
          \<and> [[97, 98], [99]] = file_stream ?f1 \<and> 3 = file_size ?f1)
       \<or> ((sample_image = Path p \<or> sample_image = ZipItem z e)
          \<and> readStream sample_env sample_image = Inr r
          \<and> [[97, 98], [99]] = body r \<and> 3 = ns_size r)" for p z e r
    by (simp add: sample_image_def)
  have b1: "length (concat [[97, 98], [99 :: 8 word]]) = 3" by simp
  obtain fs1 where fs1: "readUploadItem sample_env sample_image = Inr fs1"
    "chunkCount fs1 = (3 + 4194303) div 4194304"
    "length (stream fs1) = chunkCount fs1"
    "stream fs1 \<noteq> [] \<longrightarrow>
       length (last (stream fs1)) = (if 3 mod 4194304 \<noteq> (0::nat) then 3 mod 4194304 else 4194304)"
    "concat (stream fs1) = concat [[97, 98], [99]]"
    using readUploadItem_chunks [OF i1 b1] by blast
  have w1: "\<exists>fs. readUploadItem sample_env sample_image = Inr fs
      \<and> chunkCount fs = 1 \<and> length (stream fs) = 1 \<and> length (last (stream fs)) = 3
      \<and> concat (stream fs) = [97, 98, 99]"
    using fs1 by (intro exI [of _ fs1]) auto
  have i2: "((two_chunk_file = WebFile ?f2 \<or> two_chunk_file = FileAndPath ?f2 p)
          \<and> [replicate 3 0, replicate 8388605 1] = file_stream ?f2 \<and> 8388608 = file_size ?f2)
       \<or> ((two_chunk_file = Path p \<or> two_chunk_file = ZipItem z e)
          \<and> readStream sample_env two_chunk_file = Inr r
          \<and> [replicate 3 0, replicate 8388605 1] = body r \<and> 8388608 = ns_size r)" for p z e r
    by (simp add: two_chunk_file_def)
  have b2: "length (concat [replicate 3 0, replicate 8388605 (1 :: 8 word)]) = 8388608" by simp
  obtain fs2 where fs2: "readUploadItem sample_env two_chunk_file = Inr fs2"
    "chunkCount fs2 = (8388608 + 4194303) div 4194304"
    "length (stream fs2) = chunkCount fs2"
    "\<forall>i. i + 1 < length (stream fs2) \<longrightarrow> length (stream fs2 ! i) = 4194304"
    "stream fs2 \<noteq> [] \<longrightarrow>
       length (last (stream fs2))
         = (if 8388608 mod 4194304 \<noteq> (0::nat) then 8388608 mod 4194304 else 4194304)"
    using readUploadItem_chunks [OF i2 b2] by blast
  have c2: "chunkCount fs2 = 2" using fs2(2) by simp
  have w2: "\<exists>fs. readUploadItem sample_env two_chunk_file = Inr fs
      \<and> chunkCount fs = 2 \<and> length (stream fs) = 2
      \<and> length (stream fs ! 0) = 4194304 \<and> length (last (stream fs)) = 4194304"
    using fs2(1) c2 fs2(3) fs2(4) fs2(5) by (intro exI [of _ fs2]) auto
  have i3: "((empty_file = WebFile ?f3 \<or> empty_file = FileAndPath ?f3 ''/photos/empty.jpg'')
          \<and> [] = file_stream ?f3 \<and> 0 = file_size ?f3)
       \<or> ((empty_file = Path ''/photos/empty.jpg'' \<or> empty_file = ZipItem z e)
          \<and> readStream sample_env empty_file = Inr r
          \<and> [] = body r \<and> 0 = ns_size r)" for z e r
    by (simp add: empty_file_def)
  have b3: "length (concat ([] :: bytes list)) = 0" by simp
  obtain fs3 where fs3: "readUploadItem sample_env empty_file = Inr fs3"
    "chunkCount fs3 = (0 + 4194303) div 4194304"
    "(0::nat) = 0 \<longrightarrow> stream fs3 = []"
    using readUploadItem_chunks [OF i3 b3] by blast
  have w3: "\<exists>fs. readUploadItem sample_env empty_file = Inr fs
      \<and> chunkCount fs = 0 \<and> stream fs = []"
    using fs3 by (intro exI [of _ fs3]) auto
  let ?item = "Path ''/photos/IMG_0005.jpg''"
  have i4: "((?item = WebFile f \<or> ?item = FileAndPath f ''/photos/IMG_0005.jpg'')
          \<and> body ?r = file_stream f \<and> 4194306 = file_size f)
       \<or> ((?item = Path ''/photos/IMG_0005.jpg'' \<or> ?item = ZipItem z e)
          \<and> readStream desktop_env ?item = Inr ?r
          \<and> body ?r = body ?r \<and> 4194306 = ns_size ?r)" for f z e
    by (simp add: desktop_env_def sample_env_def)
  have b4: "length (concat (body ?r)) = 4194306" by simp
  obtain fs4 where fs4: "readUploadItem desktop_env ?item = Inr fs4"
    "chunkCount fs4 = (4194306 + 4194303) div 4194304"
    "length (stream fs4) = chunkCount fs4"
    "\<forall>i. i + 1 < length (stream fs4) \<longrightarrow> length (stream fs4 ! i) = 4194304"
    "stream fs4 \<noteq> [] \<longrightarrow>
       length (last (stream fs4))
         = (if 4194306 mod 4194304 \<noteq> (0::nat) then 4194306 mod 4194304 else 4194304)"
    using readUploadItem_chunks [OF i4 b4] by blast
  have c4: "chunkCount fs4 = 2" using fs4(2) by simp
  have w4: "\<exists>fs. readUploadItem desktop_env ?item = Inr fs
      \<and> chunkCount fs = 2 \<and> length (stream fs) = 2
      \<and> length (stream fs ! 0) = 4194304 \<and> length (last (stream fs)) = 2"
    using fs4(1) c4 fs4(3) fs4(4) fs4(5) by (intro exI [of _ fs4]) auto
  from w1 w2 w3 w4 show ?thesis by blast
qed

section \<open>Properties of the content hash\<close>

lemma metadataHash_nonempty: "metadataHash m = Some h \<Longrightarrow> h \<noteq> []"
  by (auto simp: metadataHash_def str_val_def split: if_splits option.splits)

lemma areFilesSame_cases:
  "areFilesSame f g =
     (if fileType f \<noteq> fileType g \<or> title f \<noteq> title g then JBool False
      else case metadataHash f of
             None \<Rightarrow> JUndefined
           | Some fh \<Rightarrow> (case metadataHash g of
                          None \<Rightarrow> JUndefined
                        | Some gh \<Rightarrow> JBool (fh = gh)))"
  by (auto simp: areFilesSame_def js_and_def str_val_def Let_def
           dest: metadataHash_nonempty split: option.splits)

text \<open>
  Claim C5. \<^verbatim>\<open>areFilesSame(f, g)\<close> is \<^verbatim>\<open>true\<close> exactly when the two records have
  the same file type, the same title, and \<^verbatim>\<open>metadataHash\<close> gives the same non-empty
  string for both. The same condition decides whether the returned value is truthy
  (which is what the \<^verbatim>\<open>filter\<close> in \<^verbatim>\<open>upload\<close> tests), so a differing file type,
  title or hash breaks the match, and a record whose hash is absent is never reported
  as the same as any other.
\<close>

theorem areFilesSame_iff:
  "((areFilesSame f g = JBool True) =
      (fileType f = fileType g \<and> title f = title g
       \<and> (\<exists>h. h \<noteq> [] \<and> metadataHash f = Some h \<and> metadataHash g = Some h)))
   \<and> (truthy (areFilesSame f g) = (areFilesSame f g = JBool True))
   \<and> (fileType f \<noteq> fileType g \<or> title f \<noteq> title g \<or> metadataHash f \<noteq> metadataHash g
        \<longrightarrow> \<not> truthy (areFilesSame f g))
   \<and> (metadataHash f = None \<or> metadataHash g = None \<longrightarrow> \<not> truthy (areFilesSame f g))"
  by (auto simp: areFilesSame_cases dest: metadataHash_nonempty split: option.splits)

theorem areFilesSame_iff_witness:
  "areFilesSame sample_metadata sample_metadata = JBool True
   \<and> metadataHash (sample_metadata\<lparr>hash := None\<rparr>) = None
   \<and> \<not> truthy (areFilesSame sample_metadata (sample_metadata\<lparr>hash := None\<rparr>))
   \<and> \<not> truthy (areFilesSame sample_metadata (sample_metadata\<lparr>hash := Some ''abd''\<rparr>))
   \<and> \<not> truthy (areFilesSame sample_metadata (sample_metadata\<lparr>title := ''IMG_0002.jpg''\<rparr>))
   \<and> \<not> truthy (areFilesSame sample_metadata (sample_metadata\<lparr>fileType := Video\<rparr>))"
  using areFilesSame_iff [of sample_metadata sample_metadata]
        areFilesSame_iff [of sample_metadata "sample_metadata\<lparr>hash := None\<rparr>"]
        areFilesSame_iff [of sample_metadata "sample_metadata\<lparr>hash := Some ''abd''\<rparr>"]
        areFilesSame_iff [of sample_metadata "sample_metadata\<lparr>title := ''IMG_0002.jpg''\<rparr>"]
        areFilesSame_iff [of sample_metadata "sample_metadata\<lparr>fileType := Video\<rparr>"]
  by (simp add: sample_metadata_def metadataHash_def str_val_def)

lemma tryExtractImageMetadata_returns:
  "readUploadItem env item = Inr fs \<Longrightarrow> \<exists>r. tryExtractImageMetadata env item lm = Inr r"
  by (cases item)
     (auto simp: readUploadItem_def readUploadItem_source_def tryExtractImageMetadata_def Let_def
           split: sum.splits)

lemma extractImageOrVideoMetadata_hash:
  assumes "computeHash env worker item = Inr h" and "fti_fileType fti = Image"
  shows "\<exists>m pmm. extractImageOrVideoMetadata env worker item pp ext fti lm cid pmap = Inr (m, pmm)
            \<and> hash m = Some h"
proof -
  from assms(1) obtain fs where "readUploadItem env item = Inr fs"
    by (auto simp: computeHash_def split: sum.splits)
  then obtain r where r: "tryExtractImageMetadata env item (Some lm) = Inr r"
    using tryExtractImageMetadata_returns by blast
  show ?thesis
    unfolding extractImageOrVideoMetadata_def Let_def
    using assms r by (simp split: prod.splits)
qed

lemma metadataHash_legacy:
  assumes "fileType l = LivePhoto" and "\<not> truthy (str_val (hash l))"
    and "imageHash l = Some ih" and "videoHash l = Some vh" and "ih \<noteq> []" and "vh \<noteq> []"
  shows "metadataHash l = Some (ih @ '':'' @ vh)"
  using assms by (simp add: metadataHash_def str_val_def template_str_def)

text \<open>
  Claim C6. When the hashes of the image and of the video of a live photo are
  computed (as \<open>ih\<close> and \<open>vh\<close>), \<^verbatim>\<open>extractLivePhotoMetadata\<close> returns a
  live photo's metadata whose \<^verbatim>\<open>hash\<close> is \<open>ih\<close>, a colon, \<open>vh\<close>, and
  \<^verbatim>\<open>metadataHash\<close> reads that string back. A legacy live photo without a
  \<^verbatim>\<open>hash\<close> that has both component hashes (present and non-empty, which is how
  \<^verbatim>\<open>metadataHash\<close> tests for them) gets the very same string from \<^verbatim>\<open>metadataHash\<close>.
\<close>

theorem livePhoto_hash_is_colon_joined:
  assumes "computeHash env worker img = Inr ih"
    and "computeHash env worker vid = Inr vh"
  shows "\<exists>m pmm.
           extractLivePhotoMetadata env worker (img, vid) pathPrefix fileTypeInfo
               lm collectionID parsedMetadataJSONMap = Inr (m, pmm)
           \<and> fileType m = LivePhoto
           \<and> hash m = Some (ih @ '':'' @ vh)
           \<and> metadataHash m = Some (ih @ '':'' @ vh)
           \<and> (\<forall>l. fileType l = LivePhoto \<and> \<not> truthy (str_val (hash l))
                    \<and> imageHash l = Some ih \<and> videoHash l = Some vh
                    \<and> ih \<noteq> [] \<and> vh \<noteq> []
                  \<longrightarrow> metadataHash l = metadataHash m)"
proof -
  let ?fti = "\<lparr>fti_fileType = Image, extension = imageType fileTypeInfo,
               imageType = None, videoType = None\<rparr>"
  obtain im pmm where im:
    "extractImageOrVideoMetadata env worker img pathPrefix None ?fti lm collectionID
       parsedMetadataJSONMap = Inr (im, pmm)"
    "hash im = Some ih"
    using extractImageOrVideoMetadata_hash
            [OF assms(1), of ?fti pathPrefix None lm collectionID parsedMetadataJSONMap]
    by auto
  let ?m = "im\<lparr>title := uploadItemFileName env img, fileType := LivePhoto,
                hash := Some (ih @ '':'' @ vh)\<rparr>"
  have run: "extractLivePhotoMetadata env worker (img, vid) pathPrefix fileTypeInfo
               lm collectionID parsedMetadataJSONMap = Inr (?m, pmm)"
    using im assms(2) by (simp add: extractLivePhotoMetadata_def Let_def template_str_def)
  have mh: "metadataHash ?m = Some (ih @ '':'' @ vh)"
    by (simp add: metadataHash_def str_val_def)
  have "\<forall>l. fileType l = LivePhoto \<and> \<not> truthy (str_val (hash l))
              \<and> imageHash l = Some ih \<and> videoHash l = Some vh \<and> ih \<noteq> [] \<and> vh \<noteq> []
            \<longrightarrow> metadataHash l = metadataHash ?m"
    using mh metadataHash_legacy by auto
  with run mh show ?thesis by auto
qed

theorem livePhoto_hash_is_colon_joined_witness:
  "computeHash sample_env sample_worker sample_image = Inr ''hxxx''
   \<and> computeHash sample_env sample_worker sample_video = Inr ''hxx''
   \<and> (\<exists>m pmm.
         extractLivePhotoMetadata sample_env sample_worker (sample_image, sample_video) None
             \<lparr>fti_fileType = LivePhoto, extension = None, imageType = Some ''jpg'',
              videoType = Some ''mov''\<rparr> 0 1 Map.empty = Inr (m, pmm)
         \<and> hash m = Some ''hxxx:hxx''
         \<and> metadataHash (sample_metadata\<lparr>fileType := LivePhoto, hash := None,
                              imageHash := Some ''hxxx'', videoHash := Some ''hxx''\<rparr>)
             = metadataHash m)"
proof -
  have i: "computeHash sample_env sample_worker sample_image = Inr ''hxxx''"
    by (simp add: computeHash_def readUploadItem_eval readUploadItem_source_def
                  pipeThrough_eval sample_defs)
  have v: "computeHash sample_env sample_worker sample_video = Inr ''hxx''"
    by (simp add: computeHash_def readUploadItem_eval readUploadItem_source_def
                  pipeThrough_eval sample_defs)
  obtain m pmm where m:
    "extractLivePhotoMetadata sample_env sample_worker (sample_image, sample_video) None
             \<lparr>fti_fileType = LivePhoto, extension = None, imageType = Some ''jpg'',
              videoType = Some ''mov''\<rparr> 0 1 Map.empty = Inr (m, pmm)"
    "hash m = Some (''hxxx'' @ '':'' @ ''hxx'')"
    "\<forall>l. fileType l = LivePhoto \<and> \<not> truthy (str_val (hash l))
                    \<and> imageHash l = Some ''hxxx'' \<and> videoHash l = Some ''hxx''
                    \<and> ''hxxx'' \<noteq> [] \<and> ''hxx'' \<noteq> []
                  \<longrightarrow> metadataHash l = metadataHash m"
    using livePhoto_hash_is_colon_joined [OF i v, of None
             "\<lparr>fti_fileType = LivePhoto, extension = None, imageType = Some ''jpg'',
              videoType = Some ''mov''\<rparr>" 0 1 Map.empty] by blast
  have l: "metadataHash (sample_metadata\<lparr>fileType := LivePhoto, hash := None,
                              imageHash := Some ''hxxx'', videoHash := Some ''hxx''\<rparr>)
             = metadataHash m"
    using m(3) by (simp add: str_val_def)
  have h: "hash m = Some ''hxxx:hxx''" using m(2) by simp
  show ?thesis
    apply (intro conjI)
    subgoal by (rule i)
    subgoal by (rule v)
    subgoal using m(1) h l by blast
    done
qed

section \<open>Properties of the mutable metadata tiers\<close>

lemma fold_update_map_of:
  "map_of (fold (\<lambda>(k, v). AList.update k v) es acc) = map_of acc ++ map_of (rev es)"
proof (induction es arbitrary: acc)
  case Nil
  then show ?case by simp
next
  case (Cons e es)
  obtain k v where e: "e = (k, v)" by (cases e)
  have u: "map_of (AList.update k v acc) = map_of acc ++ [k \<mapsto> v]"
    by (simp add: update_conv')
  have "map_of (AList.update k v acc) ++ map_of (rev es)
          = map_of acc ++ ([k \<mapsto> v] ++ map_of (rev es))"
    unfolding u by (simp only: map_add_assoc)
  moreover have "map_of (rev (e # es)) = [k \<mapsto> v] ++ map_of (rev es)"
    using e by (simp only: rev.simps map_of_append) simp
  ultimately have "map_of (AList.update k v acc) ++ map_of (rev es)
          = map_of acc ++ map_of (rev (e # es))" by simp
  then show ?case using Cons.IH [of "AList.update k v acc"] e by (simp del: rev.simps)
qed

lemma fold_update_distinct:
  "distinct (map fst acc) \<Longrightarrow> distinct (map fst (fold (\<lambda>(k, v). AList.update k v) es acc))"
  by (induction es arbitrary: acc) (auto simp: distinct_update split: prod.splits)

lemma update_fresh: "k \<notin> fst ` set al \<Longrightarrow> AList.update k v al = al @ [(k, v)]"
  by (induction al) auto

lemma fold_update_fresh:
  "distinct (map fst (acc @ es)) \<Longrightarrow> fold (\<lambda>(k, v). AList.update k v) es acc = acc @ es"
proof (induction es arbitrary: acc)
  case Nil
  then show ?case by simp
next
  case (Cons e es)
  obtain k v where e: "e = (k, v)" by (cases e)
  have "k \<notin> fst ` set acc" using Cons.prems e by auto
  then have u: "AList.update k v acc = acc @ [(k, v)]" by (rule update_fresh)
  have "distinct (map fst ((acc @ [(k, v)]) @ es))" using Cons.prems e by simp
  from Cons.IH [OF this] show ?case using e u by simp
qed

lemma fromEntries_distinct: "distinct (map fst (fromEntries es))"
  by (simp add: fromEntries_def fold_update_distinct)

lemma fromEntries_id: "distinct (map fst es) \<Longrightarrow> fromEntries es = es"
  using fold_update_fresh [of "[]" es] by (simp add: fromEntries_def)

lemma spread_distinct: "distinct (map fst (spread a b))"
  by (simp add: spread_def fromEntries_distinct)

lemma map_of_rev_distinct: "distinct (map fst es) \<Longrightarrow> map_of (rev es) = map_of es"
  by (metis distinct_rev rev_map map_of_inject_set set_rev)

lemma map_of_fromEntries: "map_of (fromEntries es) = map_of (rev es)"
  by (simp add: fromEntries_def fold_update_map_of)

lemma set_fromEntries: "(k, v) \<in> set (fromEntries es) \<Longrightarrow> (k, v) \<in> set es"
proof -
  assume "(k, v) \<in> set (fromEntries es)"
  then have "map_of (fromEntries es) k = Some v"
    using fromEntries_distinct [of es] by simp
  then have "map_of (rev es) k = Some v" by (simp add: map_of_fromEntries)
  then have "(k, v) \<in> set (rev es)" by (rule map_of_SomeD)
  then show ?thesis by simp
qed

lemma map_of_spread:
  "distinct (map fst a) \<Longrightarrow> distinct (map fst b) \<Longrightarrow> map_of (spread a b) = map_of a ++ map_of b"
  by (simp add: spread_def map_of_fromEntries map_of_rev_distinct)

lemma distinct_filter_keys: "distinct (map fst es) \<Longrightarrow> distinct (map fst (filter P es))"
  by (simp add: distinct_map_filter)

lemma map_of_filter_notNullish:
  "distinct (map fst es) \<Longrightarrow>
   map_of (filter notNullish es) k =
     (case map_of es k of None \<Rightarrow> None | Some v \<Rightarrow> if v = JNull \<or> v = JUndefined then None else Some v)"
proof (induction es)
  case Nil
  then show ?case by simp
next
  case (Cons e es)
  obtain k' v' where e: "e = (k', v')" by (cases e)
  have "k' \<notin> fst ` set es" using Cons.prems e by simp
  then have "map_of es k' = None" by (simp add: map_of_eq_None_iff)
  then show ?case using Cons e by (auto simp: notNullish_def)
qed

lemma length_distinct_card:
  "distinct (map fst es) \<Longrightarrow> length es = card (dom (map_of es))"
  by (metis length_map list.set_map dom_map_of_conv_image_fst distinct_card)

lemma withoutNull_eq:
  "distinct (map fst obj) \<Longrightarrow> withoutNullAndUndefinedValues obj = filter notNullish obj"
  by (simp add: withoutNullAndUndefinedValues_def fromEntries_id distinct_filter_keys)

lemma withoutNull_values:
  "(k, v) \<in> set (withoutNullAndUndefinedValues obj) \<Longrightarrow> v \<noteq> JNull \<and> v \<noteq> JUndefined"
  using set_fromEntries [of k v "filter notNullish obj"]
  by (auto simp: withoutNullAndUndefinedValues_def notNullish_def)

lemma parse_result: "PublicMagicMetadata_parse obj = Inr r \<Longrightarrow> r = obj"
  by (auto simp: PublicMagicMetadata_parse_def split: option.splits js_value.splits)

lemma payload_facts:
  fixes a b :: js_object
  defines "merged \<equiv> spread a b"
  defines "payload \<equiv> filter notNullish merged"
  shows "(\<forall>k v. (k, v) \<in> set payload \<longrightarrow> v \<noteq> JNull \<and> v \<noteq> JUndefined)"
    and "fromEntries payload = payload"
    and "length payload = card {k. \<exists>v. map_of merged k = Some v \<and> v \<noteq> JNull \<and> v \<noteq> JUndefined}"
    and "\<forall>k. map_of payload k =
           (case map_of merged k of None \<Rightarrow> None
            | Some v \<Rightarrow> if v = JNull \<or> v = JUndefined then None else Some v)"
proof -
  have d: "distinct (map fst merged)" by (simp add: merged_def spread_distinct)
  then have dp: "distinct (map fst payload)" by (simp add: payload_def distinct_filter_keys)
  show "\<forall>k v. (k, v) \<in> set payload \<longrightarrow> v \<noteq> JNull \<and> v \<noteq> JUndefined"
    by (auto simp: payload_def notNullish_def)
  show "fromEntries payload = payload" using dp by (rule fromEntries_id)
  show m: "\<forall>k. map_of payload k =
           (case map_of merged k of None \<Rightarrow> None
            | Some v \<Rightarrow> if v = JNull \<or> v = JUndefined then None else Some v)"
    using map_of_filter_notNullish [OF d] by (simp add: payload_def)
  have "dom (map_of payload) = {k. \<exists>v. map_of merged k = Some v \<and> v \<noteq> JNull \<and> v \<noteq> JUndefined}"
    using m by (auto simp: dom_def split: option.splits if_splits)
  then show "length payload = card {k. \<exists>v. map_of merged k = Some v \<and> v \<noteq> JNull \<and> v \<noteq> JUndefined}"
    using length_distinct_card [OF dp] by simp
qed

lemma decryptPublic_cases:
  "decryptPublicMagicMetadata env file = Inr (r, file') \<Longrightarrow>
     (r = None \<and> pubMagicMetadata file = None \<and> file' = file)
     \<or> (\<exists>envelope jsonValue result.
           r = Some result
           \<and> pubMagicMetadata file = Some envelope
           \<and> (case data envelope of
                 Encrypted c \<Rightarrow> decryptMetadataJSON env (c, header envelope) (file_key file)
               | Decrypted obj \<Rightarrow> Inr obj) = Inr jsonValue
           \<and> result = withoutNullAndUndefinedValues jsonValue
           \<and> PublicMagicMetadata_parse result = Inr result
           \<and> file' = file\<lparr>pubMagicMetadata := Some (envelope\<lparr>data := Decrypted result\<rparr>)\<rparr>)"
  by (auto simp: decryptPublicMagicMetadata_def dest: parse_result
           split: option.splits sum.splits)

text \<open>
  Claim C10. Whenever \<^verbatim>\<open>decryptPublicMagicMetadata\<close> returns an object, no key of
  that object has the value \<^verbatim>\<open>null\<close> or \<^verbatim>\<open>undefined\<close>, and the object is
  cached as the data of the file's public envelope. It does return an object when
  the file has a public envelope whose data decrypts (or is already decrypted) to an
  object of which the \<^verbatim>\<open>editedTime\<close>, if any is left, is a number.
\<close>

theorem decryptPublicMagicMetadata_no_nullish:
  "(decryptPublicMagicMetadata env file = Inr (Some result, file')
      \<longrightarrow> (\<forall>k v. (k, v) \<in> set result \<longrightarrow> v \<noteq> JNull \<and> v \<noteq> JUndefined)
          \<and> (\<forall>k. map_of result k \<noteq> Some JNull \<and> map_of result k \<noteq> Some JUndefined)
          \<and> (\<exists>envelope. pubMagicMetadata file = Some envelope
                \<and> file' = file\<lparr>pubMagicMetadata := Some (envelope\<lparr>data := Decrypted result\<rparr>)\<rparr>))
   \<and> (pubMagicMetadata file = Some envelope
        \<and> (case data envelope of
              Encrypted c \<Rightarrow> decryptMetadataJSON env (c, header envelope) (file_key file)
            | Decrypted obj \<Rightarrow> Inr obj) = Inr jsonValue
        \<and> (\<forall>v. map_of (withoutNullAndUndefinedValues jsonValue) ''editedTime'' = Some v
               \<longrightarrow> (\<exists>n. v = JNum n))
      \<longrightarrow> decryptPublicMagicMetadata env file
            = Inr (Some (withoutNullAndUndefinedValues jsonValue),
                   file\<lparr>pubMagicMetadata :=
                          Some (envelope\<lparr>data := Decrypted (withoutNullAndUndefinedValues jsonValue)\<rparr>)\<rparr>))"
proof (intro conjI impI)
  assume a: "decryptPublicMagicMetadata env file = Inr (Some result, file')"
  from decryptPublic_cases [OF a] obtain envelope jsonValue where r:
    "pubMagicMetadata file = Some envelope"
    "result = withoutNullAndUndefinedValues jsonValue"
    "file' = file\<lparr>pubMagicMetadata := Some (envelope\<lparr>data := Decrypted result\<rparr>)\<rparr>"
    by auto
  show v: "\<forall>k v. (k, v) \<in> set result \<longrightarrow> v \<noteq> JNull \<and> v \<noteq> JUndefined"
    using withoutNull_values r(2) by blast
  show "\<forall>k. map_of result k \<noteq> Some JNull \<and> map_of result k \<noteq> Some JUndefined"
    using v by (auto dest: map_of_SomeD)
  show "\<exists>envelope. pubMagicMetadata file = Some envelope
                \<and> file' = file\<lparr>pubMagicMetadata := Some (envelope\<lparr>data := Decrypted result\<rparr>)\<rparr>"
    using r by blast
next
  assume a: "pubMagicMetadata file = Some envelope
        \<and> (case data envelope of
              Encrypted c \<Rightarrow> decryptMetadataJSON env (c, header envelope) (file_key file)
            | Decrypted obj \<Rightarrow> Inr obj) = Inr jsonValue
        \<and> (\<forall>v. map_of (withoutNullAndUndefinedValues jsonValue) ''editedTime'' = Some v
               \<longrightarrow> (\<exists>n. v = JNum n))"
  then have "PublicMagicMetadata_parse (withoutNullAndUndefinedValues jsonValue)
               = Inr (withoutNullAndUndefinedValues jsonValue)"
    by (auto simp: PublicMagicMetadata_parse_def split: option.splits js_value.splits)
  with a show "decryptPublicMagicMetadata env file
            = Inr (Some (withoutNullAndUndefinedValues jsonValue),
                   file\<lparr>pubMagicMetadata :=
                          Some (envelope\<lparr>data := Decrypted (withoutNullAndUndefinedValues jsonValue)\<rparr>)\<rparr>)"
    by (simp add: decryptPublicMagicMetadata_def)
qed

theorem decryptPublicMagicMetadata_no_nullish_witness:
  "decryptPublicMagicMetadata sample_metadata_env
      (sample_file\<lparr>pubMagicMetadata :=
              Some \<lparr>version = 3, count = 1,
                    data = Encrypted ([(''caption'', JStr ''x''), (''editedName'', JNull),
                                       (''w'', JUndefined)], ''key''),
                    header = ''header''\<rparr>\<rparr>)
     = Inr (Some [(''caption'', JStr ''x'')],
            sample_file\<lparr>pubMagicMetadata :=
              Some \<lparr>version = 3, count = 1, data = Decrypted [(''caption'', JStr ''x'')],
                    header = ''header''\<rparr>\<rparr>)
   \<and> map_of [(''caption'', JStr ''x'')] ''editedName'' \<noteq> Some JNull"
proof -
  let ?f = "sample_file\<lparr>pubMagicMetadata :=
              Some \<lparr>version = 3, count = 1,
                    data = Encrypted ([(''caption'', JStr ''x''), (''editedName'', JNull),
                                       (''w'', JUndefined)], ''key''),
                    header = ''header''\<rparr>\<rparr>"
  let ?f' = "sample_file\<lparr>pubMagicMetadata :=
              Some \<lparr>version = 3, count = 1, data = Decrypted [(''caption'', JStr ''x'')],
                    header = ''header''\<rparr>\<rparr>"
  have run: "decryptPublicMagicMetadata sample_metadata_env ?f
               = Inr (Some [(''caption'', JStr ''x'')], ?f')"
    by (simp add: decryptPublicMagicMetadata_def sample_metadata_env_def sample_file_def
          withoutNullAndUndefinedValues_def notNullish_def fromEntries_def
          PublicMagicMetadata_parse_def)
  from decryptPublicMagicMetadata_no_nullish
         [of sample_metadata_env ?f "[(''caption'', JStr ''x'')]" ?f'] run
  have "\<forall>k. map_of [(''caption'', JStr ''x'')] k \<noteq> Some JNull
           \<and> map_of [(''caption'', JStr ''x'')] k \<noteq> Some JUndefined"
    by blast
  then have "map_of [(''caption'', JStr ''x'')] ''editedName'' \<noteq> Some JNull" by blast
  with run show ?thesis by blast
qed

lemma decryptPublic_preserves:
  assumes "decryptPublicMagicMetadata env file = Inr (r, file')"
  shows "file_id file' = file_id file" and "file_key file' = file_key file"
    and "(case pubMagicMetadata file' of None \<Rightarrow> 1 | Some e \<Rightarrow> version e)
           = (case pubMagicMetadata file of None \<Rightarrow> 1 | Some e \<Rightarrow> version e)"
  using decryptPublic_cases [OF assms] by auto

lemma updateMagicMetadataRequest_eq:
  "updateMagicMetadataRequest env file (spread a b) pre =
     \<lparr>metadataList =
        [(file_id file,
          \<lparr>version = pre,
           count = length (filter notNullish (spread a b)),
           data = Encrypted (fst (encryptMetadataJSON env (filter notNullish (spread a b)) (file_key file))),
           header = snd (encryptMetadataJSON env (filter notNullish (spread a b)) (file_key file))\<rparr>)]\<rparr>"
  using payload_facts(2) [of a b]
  by (simp add: updateMagicMetadataRequest_def Let_def split: prod.splits)

lemma private_run:
  fixes updates :: js_object and env :: "'c MetadataEnv"
  assumes "filePrivateMagicMetadata file = Inr existing"
  defines "merged \<equiv> spread (case existing of None \<Rightarrow> [] | Some m \<Rightarrow> m) updates"
  defines "pre \<equiv> (case magicMetadata file of None \<Rightarrow> 1 | Some e \<Rightarrow> version e)"
  defines "request \<equiv> updateMagicMetadataRequest env file merged pre"
  shows "updateRemotePrivateMagicMetadata env file updates =
           ([request],
            case putFilesPrivateMagicMetadata env request of
              Inl e \<Rightarrow> Inl e
            | Inr u \<Rightarrow>
                Inr \<lparr>version = pre + 1,
                     count = length (filter notNullish merged),
                     data = Decrypted merged,
                     header = snd (encryptMetadataJSON env (filter notNullish merged) (file_key file))\<rparr>)"
  using assms(1) unfolding request_def merged_def pre_def
  by (simp add: updateRemotePrivateMagicMetadata_def Let_def updateMagicMetadataRequest_eq
           split: sum.splits)

lemma public_run:
  fixes updates :: js_object and env :: "'c MetadataEnv"
  assumes "decryptPublicMagicMetadata env file0 = Inr (existing, file)"
  defines "merged \<equiv> spread (case existing of None \<Rightarrow> [] | Some m \<Rightarrow> m) updates"
  defines "pre \<equiv> (case pubMagicMetadata file0 of None \<Rightarrow> 1 | Some e \<Rightarrow> version e)"
  defines "request \<equiv> updateMagicMetadataRequest env file0 merged pre"
  defines "ed \<equiv> encryptMetadataJSON env (filter notNullish merged) (file_key file0)"
  shows "updateRemotePublicMagicMetadata env file0 updates =
           ([request],
            case putFilesPublicMagicMetadata env request of
              Inl e \<Rightarrow> Inl e
            | Inr u \<Rightarrow>
                (case decryptPublicMagicMetadata env
                        (file\<lparr>pubMagicMetadata :=
                               Some \<lparr>version = pre + 1,
                                     count = length (filter notNullish merged),
                                     data = Encrypted (fst ed),
                                     header = snd ed\<rparr>\<rparr>) of
                   Inl e \<Rightarrow> Inl e
                 | Inr (reread, file2) \<Rightarrow> Inr (mergeMetadata1 env file2)))"
proof -
  have r: "updateMagicMetadataRequest env file merged
             (case pubMagicMetadata file of None \<Rightarrow> 1 | Some e \<Rightarrow> version e) = request"
    using decryptPublic_preserves [OF assms(1)]
    by (simp add: request_def pre_def merged_def updateMagicMetadataRequest_eq)
  show ?thesis
    using assms(1) decryptPublic_preserves [OF assms(1)] r
    unfolding updateRemotePublicMagicMetadata_def Let_def
    by (simp add: request_def merged_def pre_def ed_def updateMagicMetadataRequest_eq
             split: sum.splits prod.splits)
qed

lemma filter_notNullish_idem: "filter notNullish (filter notNullish m) = filter notNullish m"
  by simp

lemma withoutNull_payload:
  "withoutNullAndUndefinedValues (filter notNullish (spread a b)) = filter notNullish (spread a b)"
  using withoutNull_eq [of "filter notNullish (spread a b)"]
  by (simp add: distinct_filter_keys spread_distinct)

lemma public_success_shape:
  fixes env :: "'c MetadataEnv" and updates :: js_object
  assumes frame: "\<forall>f. pubMagicMetadata (mergeMetadata1 env f) = pubMagicMetadata f"
    and roundtrip: "\<forall>obj k. decryptMetadataJSON env (encryptMetadataJSON env obj k) k = Inr obj"
    and ok: "snd (updateRemotePublicMagicMetadata env file updates) = Inr file''"
  shows "\<exists>existing f1.
           decryptPublicMagicMetadata env file = Inr (existing, f1)
           \<and> PublicMagicMetadata_parse
                 (filter notNullish (spread (case existing of None \<Rightarrow> [] | Some m \<Rightarrow> m) updates))
               = Inr (filter notNullish (spread (case existing of None \<Rightarrow> [] | Some m \<Rightarrow> m) updates))
           \<and> pubMagicMetadata file'' =
               Some \<lparr>version = (case pubMagicMetadata file of None \<Rightarrow> 1 | Some e \<Rightarrow> version e) + 1,
                     count = length (filter notNullish
                               (spread (case existing of None \<Rightarrow> [] | Some m \<Rightarrow> m) updates)),
                     data = Decrypted (filter notNullish
                               (spread (case existing of None \<Rightarrow> [] | Some m \<Rightarrow> m) updates)),
                     header = snd (encryptMetadataJSON env
                                (filter notNullish
                                   (spread (case existing of None \<Rightarrow> [] | Some m \<Rightarrow> m) updates))
                                (file_key file))\<rparr>"
proof -
  obtain existing f1 where d: "decryptPublicMagicMetadata env file = Inr (existing, f1)"
    using ok by (auto simp: updateRemotePublicMagicMetadata_def split: sum.splits)
  let ?merged = "spread (case existing of None \<Rightarrow> [] | Some m \<Rightarrow> m) updates"
  let ?payload = "filter notNullish ?merged"
  let ?pre = "(case pubMagicMetadata file of None \<Rightarrow> 1 | Some e \<Rightarrow> version e)"
  let ?ed = "encryptMetadataJSON env ?payload (file_key file)"
  let ?pub1 = "\<lparr>version = ?pre + 1, count = length ?payload,
                 data = Encrypted (fst ?ed), header = snd ?ed\<rparr>"
  let ?file1 = "f1\<lparr>pubMagicMetadata := Some ?pub1\<rparr>"
  note run = public_run [OF d, of updates]
  from ok obtain reread file2 where
    d2: "decryptPublicMagicMetadata env ?file1 = Inr (reread, file2)"
    and res: "file'' = mergeMetadata1 env file2"
    unfolding run by (auto split: sum.splits)
  have key: "file_key ?file1 = file_key file"
    using decryptPublic_preserves(2) [OF d] by simp
  have dec: "decryptMetadataJSON env (fst ?ed, snd ?ed) (file_key ?file1) = Inr ?payload"
    using roundtrip key by simp
  from decryptPublic_cases [OF d2] dec
  have p: "PublicMagicMetadata_parse ?payload = Inr ?payload"
    and f2: "file2 = ?file1\<lparr>pubMagicMetadata := Some (?pub1\<lparr>data := Decrypted ?payload\<rparr>)\<rparr>"
    by (auto simp: withoutNull_payload)
  have "pubMagicMetadata file'' = Some (?pub1\<lparr>data := Decrypted ?payload\<rparr>)"
    using res f2 frame by simp
  with d p show ?thesis by auto
qed

text \<open>
  Claim C2. An interactive update of the private tier (whose known value is read by
  \<^verbatim>\<open>filePrivateMagicMetadata\<close>) or of the public tier (read by
  \<^verbatim>\<open>decryptPublicMagicMetadata\<close>) sends exactly one request, with one envelope.
  The envelope carries the version that is on the file's envelope before the update,
  or 1 when the file has none; its count is the number of entries of the merged
  object whose value is neither \<^verbatim>\<open>null\<close> nor \<^verbatim>\<open>undefined\<close>; and its data is the
  encryption of exactly those entries. The third part says what those entries are:
  none has a nullish value, their number is the number of keys of the merged object
  with a value that is not nullish, and a key maps to its merged value when that is
  not nullish and is absent otherwise.
\<close>

theorem transmitted_envelope:
  "(filePrivateMagicMetadata file = Inr existing \<longrightarrow>
      fst (updateRemotePrivateMagicMetadata env file updates)
        = [\<lparr>metadataList =
               [(file_id file,
                 \<lparr>version = (case magicMetadata file of None \<Rightarrow> 1 | Some e \<Rightarrow> version e),
                  count = length (filter notNullish (spread (case existing of None \<Rightarrow> [] | Some m \<Rightarrow> m) updates)),
                  data = Encrypted (fst (encryptMetadataJSON env
                           (filter notNullish (spread (case existing of None \<Rightarrow> [] | Some m \<Rightarrow> m) updates)) (file_key file))),
                  header = snd (encryptMetadataJSON env
                           (filter notNullish (spread (case existing of None \<Rightarrow> [] | Some m \<Rightarrow> m) updates)) (file_key file))\<rparr>)]\<rparr>])
   \<and> (decryptPublicMagicMetadata env file = Inr (existing, file') \<longrightarrow>
      fst (updateRemotePublicMagicMetadata env file updates)
        = [\<lparr>metadataList =
               [(file_id file,
                 \<lparr>version = (case pubMagicMetadata file of None \<Rightarrow> 1 | Some e \<Rightarrow> version e),
                  count = length (filter notNullish (spread (case existing of None \<Rightarrow> [] | Some m \<Rightarrow> m) updates)),
                  data = Encrypted (fst (encryptMetadataJSON env
                           (filter notNullish (spread (case existing of None \<Rightarrow> [] | Some m \<Rightarrow> m) updates)) (file_key file))),
                  header = snd (encryptMetadataJSON env
                           (filter notNullish (spread (case existing of None \<Rightarrow> [] | Some m \<Rightarrow> m) updates)) (file_key file))\<rparr>)]\<rparr>])
   \<and> (\<forall>a b.
         (\<forall>k v. (k, v) \<in> set (filter notNullish (spread a b)) \<longrightarrow> v \<noteq> JNull \<and> v \<noteq> JUndefined)
       \<and> length (filter notNullish (spread a b))
           = card {k. \<exists>v. map_of (spread a b) k = Some v \<and> v \<noteq> JNull \<and> v \<noteq> JUndefined}
       \<and> (\<forall>k. map_of (filter notNullish (spread a b)) k =
              (case map_of (spread a b) k of
                 None \<Rightarrow> None
               | Some v \<Rightarrow> if v = JNull \<or> v = JUndefined then None else Some v)))"
proof (intro conjI impI allI)
  assume a: "filePrivateMagicMetadata file = Inr existing"
  show "fst (updateRemotePrivateMagicMetadata env file updates)
        = [\<lparr>metadataList =
               [(file_id file,
                 \<lparr>version = (case magicMetadata file of None \<Rightarrow> 1 | Some e \<Rightarrow> version e),
                  count = length (filter notNullish (spread (case existing of None \<Rightarrow> [] | Some m \<Rightarrow> m) updates)),
                  data = Encrypted (fst (encryptMetadataJSON env
                           (filter notNullish (spread (case existing of None \<Rightarrow> [] | Some m \<Rightarrow> m) updates)) (file_key file))),
                  header = snd (encryptMetadataJSON env
                           (filter notNullish (spread (case existing of None \<Rightarrow> [] | Some m \<Rightarrow> m) updates)) (file_key file))\<rparr>)]\<rparr>]"
    unfolding private_run [OF a] by (simp add: updateMagicMetadataRequest_eq)
next
  assume a: "decryptPublicMagicMetadata env file = Inr (existing, file')"
  show "fst (updateRemotePublicMagicMetadata env file updates)
        = [\<lparr>metadataList =
               [(file_id file,
                 \<lparr>version = (case pubMagicMetadata file of None \<Rightarrow> 1 | Some e \<Rightarrow> version e),
                  count = length (filter notNullish (spread (case existing of None \<Rightarrow> [] | Some m \<Rightarrow> m) updates)),
                  data = Encrypted (fst (encryptMetadataJSON env
                           (filter notNullish (spread (case existing of None \<Rightarrow> [] | Some m \<Rightarrow> m) updates)) (file_key file))),
                  header = snd (encryptMetadataJSON env
                           (filter notNullish (spread (case existing of None \<Rightarrow> [] | Some m \<Rightarrow> m) updates)) (file_key file))\<rparr>)]\<rparr>]"
    unfolding public_run [OF a] by (simp add: updateMagicMetadataRequest_eq)
next
  fix a b k v
  assume "(k, v) \<in> set (filter notNullish (spread a b))"
  then show "v \<noteq> JNull" "v \<noteq> JUndefined" using payload_facts(1) [of a b] by blast+
next
  fix a b
  show "length (filter notNullish (spread a b))
             = card {k. \<exists>v. map_of (spread a b) k = Some v \<and> v \<noteq> JNull \<and> v \<noteq> JUndefined}"
    by (rule payload_facts(3))
next
  fix a b k
  show "map_of (filter notNullish (spread a b)) k =
                (case map_of (spread a b) k of
                   None \<Rightarrow> None
                 | Some v \<Rightarrow> if v = JNull \<or> v = JUndefined then None else Some v)"
    using payload_facts(4) [of a b] by blast
qed

lemmas metadata_eval =
  sample_metadata_env_def sample_file_def spread_def fromEntries_def notNullish_def

theorem transmitted_envelope_witness:
  "filePrivateMagicMetadata
      (sample_file\<lparr>magicMetadata :=
         Some \<lparr>version = 4, count = 1, data = Decrypted [(''visibility'', JNum 1)],
               header = ''header''\<rparr>\<rparr>)
     = Inr (Some [(''visibility'', JNum 1)])
   \<and> fst (updateRemotePrivateMagicMetadata sample_metadata_env
            (sample_file\<lparr>magicMetadata :=
               Some \<lparr>version = 4, count = 1, data = Decrypted [(''visibility'', JNum 1)],
                     header = ''header''\<rparr>\<rparr>)
            [(''visibility'', JNum 2), (''note'', JNull)])
       = [\<lparr>metadataList =
            [(7, \<lparr>version = 4, count = 1,
                  data = Encrypted ([(''visibility'', JNum 2)], ''key''),
                  header = ''header''\<rparr>)]\<rparr>]
   \<and> decryptPublicMagicMetadata sample_metadata_env sample_file = Inr (None, sample_file)
   \<and> fst (updateRemotePublicMagicMetadata sample_metadata_env sample_file
            [(''caption'', JStr ''x''), (''editedName'', JUndefined)])
       = [\<lparr>metadataList =
            [(7, \<lparr>version = 1, count = 1,
                  data = Encrypted ([(''caption'', JStr ''x'')], ''key''),
                  header = ''header''\<rparr>)]\<rparr>]"
proof -
  let ?f = "sample_file\<lparr>magicMetadata :=
         Some \<lparr>version = 4, count = 1, data = Decrypted [(''visibility'', JNum 1)],
               header = ''header''\<rparr>\<rparr>"
  have p: "filePrivateMagicMetadata ?f = Inr (Some [(''visibility'', JNum 1)])"
    by (simp add: filePrivateMagicMetadata_def sample_file_def)
  have d: "decryptPublicMagicMetadata sample_metadata_env sample_file = Inr (None, sample_file)"
    by (simp add: decryptPublicMagicMetadata_def sample_file_def)
  note t1 = transmitted_envelope [of ?f "Some [(''visibility'', JNum 1)]" sample_metadata_env
              "[(''visibility'', JNum 2), (''note'', JNull)]"]
  note t2 = transmitted_envelope [of sample_file None sample_metadata_env
              "[(''caption'', JStr ''x''), (''editedName'', JUndefined)]" sample_file]
  have 1: "fst (updateRemotePrivateMagicMetadata sample_metadata_env ?f
            [(''visibility'', JNum 2), (''note'', JNull)])
       = [\<lparr>metadataList =
            [(7, \<lparr>version = 4, count = 1,
                  data = Encrypted ([(''visibility'', JNum 2)], ''key''),
                  header = ''header''\<rparr>)]\<rparr>]"
    using t1 p by (simp add: metadata_eval)
  have 2: "fst (updateRemotePublicMagicMetadata sample_metadata_env sample_file
            [(''caption'', JStr ''x''), (''editedName'', JUndefined)])
       = [\<lparr>metadataList =
            [(7, \<lparr>version = 1, count = 1,
                  data = Encrypted ([(''caption'', JStr ''x'')], ''key''),
                  header = ''header''\<rparr>)]\<rparr>]"
    using t2 d by (simp add: metadata_eval)
  from p d 1 2 show ?thesis by blast
qed

lemma putPrivate_ok:
  "\<forall>req. \<exists>status. fetch env ''/files/magic-metadata'' req = Inr status
              \<and> 200 \<le> status \<and> status < 300
   \<Longrightarrow> putFilesPrivateMagicMetadata env request = Inr ()"
  by (auto simp: putFilesPrivateMagicMetadata_def ensureOk_def split: sum.splits) 
     (metis Inl_Inr_False sum.inject(2))+

text \<open>
  Claim C3, as amended. After a successful interactive update the synthesized tier
  has the pre-update version plus one. The content of the private tier is the
  shallow merge of the previously known value with the updates, keys with a nullish
  value included. The content of the public tier, which is read back from the
  envelope that was sent, is that shallow merge without the keys whose value is
  \<^verbatim>\<open>null\<close> or \<^verbatim>\<open>undefined\<close> (here for collaborators such that an envelope
  decrypts to what was encrypted and \<^verbatim>\<open>mergeMetadata1\<close> leaves the public envelope
  alone). In the merge the updates win: on objects, which have distinct keys, it
  maps a key as the updates do and otherwise as the known value does. A second
  update, made on the file that carries the synthesized tier, sends that tier's
  version. A private update succeeds whenever the known value can be read and remote
  answers 2xx.
\<close>

theorem interactive_update_tier:
  "(snd (updateRemotePrivateMagicMetadata env file updates) = Inr tier \<longrightarrow>
      (\<exists>existing.
          filePrivateMagicMetadata file = Inr existing
        \<and> version tier = (case magicMetadata file of None \<Rightarrow> 1 | Some e \<Rightarrow> version e) + 1
        \<and> data tier = Decrypted (spread (case existing of None \<Rightarrow> [] | Some m \<Rightarrow> m) updates))
      \<and> (\<forall>updates2. \<exists>envelope2.
            fst (updateRemotePrivateMagicMetadata env (file\<lparr>magicMetadata := Some tier\<rparr>) updates2)
              = [\<lparr>metadataList = [(file_id file, envelope2)]\<rparr>]
            \<and> version envelope2 = version tier))
   \<and> ((\<forall>f. pubMagicMetadata (mergeMetadata1 env f) = pubMagicMetadata f)
       \<and> (\<forall>obj k. decryptMetadataJSON env (encryptMetadataJSON env obj k) k = Inr obj)
       \<and> snd (updateRemotePublicMagicMetadata env file updates) = Inr file'' \<longrightarrow>
      (\<exists>existing f1 tier'.
          decryptPublicMagicMetadata env file = Inr (existing, f1)
        \<and> pubMagicMetadata file'' = Some tier'
        \<and> version tier' = (case pubMagicMetadata file of None \<Rightarrow> 1 | Some e \<Rightarrow> version e) + 1
        \<and> data tier' = Decrypted (filter notNullish
                           (spread (case existing of None \<Rightarrow> [] | Some m \<Rightarrow> m) updates))
        \<and> (\<forall>updates2. \<exists>envelope2.
              fst (updateRemotePublicMagicMetadata env file'' updates2)
                = [\<lparr>metadataList = [(file_id file'', envelope2)]\<rparr>]
              \<and> version envelope2 = version tier')))
   \<and> (distinct (map fst a) \<and> distinct (map fst b) \<longrightarrow>
        map_of (spread a b) = map_of a ++ map_of b
      \<and> (\<forall>k. map_of (filter notNullish (spread a b)) k =
             (case (map_of a ++ map_of b) k of
                None \<Rightarrow> None
              | Some v \<Rightarrow> if v = JNull \<or> v = JUndefined then None else Some v)))
   \<and> (filePrivateMagicMetadata file = Inr existing0
       \<and> (\<forall>req. \<exists>status. fetch env ''/files/magic-metadata'' req = Inr status
                    \<and> 200 \<le> status \<and> status < 300) \<longrightarrow>
      (\<exists>t. snd (updateRemotePrivateMagicMetadata env file updates) = Inr t))"
proof (intro conjI impI)
  assume ok: "snd (updateRemotePrivateMagicMetadata env file updates) = Inr tier"
  obtain existing where e: "filePrivateMagicMetadata file = Inr existing"
    using ok by (auto simp: updateRemotePrivateMagicMetadata_def split: sum.splits)
  let ?merged = "spread (case existing of None \<Rightarrow> [] | Some m \<Rightarrow> m) updates"
  let ?pre = "(case magicMetadata file of None \<Rightarrow> 1 | Some e \<Rightarrow> version e)"
  from ok have t: "tier = \<lparr>version = ?pre + 1, count = length (filter notNullish ?merged),
                           data = Decrypted ?merged,
                           header = snd (encryptMetadataJSON env (filter notNullish ?merged)
                                           (file_key file))\<rparr>"
    unfolding private_run [OF e] by (auto split: sum.splits)
  show "\<exists>existing.
          filePrivateMagicMetadata file = Inr existing
        \<and> version tier = (case magicMetadata file of None \<Rightarrow> 1 | Some e \<Rightarrow> version e) + 1
        \<and> data tier = Decrypted (spread (case existing of None \<Rightarrow> [] | Some m \<Rightarrow> m) updates)"
    using e t by auto
  show "\<forall>updates2. \<exists>envelope2.
            fst (updateRemotePrivateMagicMetadata env (file\<lparr>magicMetadata := Some tier\<rparr>) updates2)
              = [\<lparr>metadataList = [(file_id file, envelope2)]\<rparr>]
            \<and> version envelope2 = version tier"
  proof
    fix updates2
    have e2: "filePrivateMagicMetadata (file\<lparr>magicMetadata := Some tier\<rparr>) = Inr (Some ?merged)"
      using t by (simp add: filePrivateMagicMetadata_def)
    show "\<exists>envelope2.
            fst (updateRemotePrivateMagicMetadata env (file\<lparr>magicMetadata := Some tier\<rparr>) updates2)
              = [\<lparr>metadataList = [(file_id file, envelope2)]\<rparr>]
            \<and> version envelope2 = version tier"
      unfolding private_run [OF e2] by (simp add: updateMagicMetadataRequest_eq)
  qed
next
  assume a: "(\<forall>f. pubMagicMetadata (mergeMetadata1 env f) = pubMagicMetadata f)
       \<and> (\<forall>obj k. decryptMetadataJSON env (encryptMetadataJSON env obj k) k = Inr obj)
       \<and> snd (updateRemotePublicMagicMetadata env file updates) = Inr file''"
  then obtain existing f1 where s:
    "decryptPublicMagicMetadata env file = Inr (existing, f1)"
    "PublicMagicMetadata_parse
        (filter notNullish (spread (case existing of None \<Rightarrow> [] | Some m \<Rightarrow> m) updates))
      = Inr (filter notNullish (spread (case existing of None \<Rightarrow> [] | Some m \<Rightarrow> m) updates))"
    "pubMagicMetadata file'' =
               Some \<lparr>version = (case pubMagicMetadata file of None \<Rightarrow> 1 | Some e \<Rightarrow> version e) + 1,
                     count = length (filter notNullish
                               (spread (case existing of None \<Rightarrow> [] | Some m \<Rightarrow> m) updates)),
                     data = Decrypted (filter notNullish
                               (spread (case existing of None \<Rightarrow> [] | Some m \<Rightarrow> m) updates)),
                     header = snd (encryptMetadataJSON env
                                (filter notNullish
                                   (spread (case existing of None \<Rightarrow> [] | Some m \<Rightarrow> m) updates))
                                (file_key file))\<rparr>"
    using public_success_shape [of env "file" updates file''] by blast
  let ?payload = "filter notNullish (spread (case existing of None \<Rightarrow> [] | Some m \<Rightarrow> m) updates)"
  let ?tier = "\<lparr>version = (case pubMagicMetadata file of None \<Rightarrow> 1 | Some e \<Rightarrow> version e) + 1,
                count = length ?payload, data = Decrypted ?payload,
                header = snd (encryptMetadataJSON env ?payload (file_key file))\<rparr>"
  have d2: "decryptPublicMagicMetadata env file''
              = Inr (Some ?payload, file''\<lparr>pubMagicMetadata := Some (?tier\<lparr>data := Decrypted ?payload\<rparr>)\<rparr>)"
    using s(2) s(3) by (simp add: decryptPublicMagicMetadata_def withoutNull_payload)
  have second: "\<forall>updates2. \<exists>envelope2.
              fst (updateRemotePublicMagicMetadata env file'' updates2)
                = [\<lparr>metadataList = [(file_id file'', envelope2)]\<rparr>]
              \<and> version envelope2 = version ?tier"
  proof
    fix updates2
    show "\<exists>envelope2.
              fst (updateRemotePublicMagicMetadata env file'' updates2)
                = [\<lparr>metadataList = [(file_id file'', envelope2)]\<rparr>]
              \<and> version envelope2 = version ?tier"
      unfolding public_run [OF d2] using s(3) by (simp add: updateMagicMetadataRequest_eq)
  qed
  show "\<exists>existing f1 tier'.
          decryptPublicMagicMetadata env file = Inr (existing, f1)
        \<and> pubMagicMetadata file'' = Some tier'
        \<and> version tier' = (case pubMagicMetadata file of None \<Rightarrow> 1 | Some e \<Rightarrow> version e) + 1
        \<and> data tier' = Decrypted (filter notNullish
                           (spread (case existing of None \<Rightarrow> [] | Some m \<Rightarrow> m) updates))
        \<and> (\<forall>updates2. \<exists>envelope2.
              fst (updateRemotePublicMagicMetadata env file'' updates2)
                = [\<lparr>metadataList = [(file_id file'', envelope2)]\<rparr>]
              \<and> version envelope2 = version tier')"
    apply (rule exI [of _ existing], rule exI [of _ f1], rule exI [of _ ?tier])
    using s(1) s(3) second by simp
next
  assume d: "distinct (map fst a) \<and> distinct (map fst b)"
  then show m: "map_of (spread a b) = map_of a ++ map_of b"
    by (simp add: map_of_spread)
  show "\<forall>k. map_of (filter notNullish (spread a b)) k =
             (case (map_of a ++ map_of b) k of
                None \<Rightarrow> None
              | Some v \<Rightarrow> if v = JNull \<or> v = JUndefined then None else Some v)"
    using payload_facts(4) [of a b] m by simp
next
  assume a: "filePrivateMagicMetadata file = Inr existing0
       \<and> (\<forall>req. \<exists>status. fetch env ''/files/magic-metadata'' req = Inr status
                    \<and> 200 \<le> status \<and> status < 300)"
  then have e: "filePrivateMagicMetadata file = Inr existing0" by simp
  show "\<exists>t. snd (updateRemotePrivateMagicMetadata env file updates) = Inr t"
    unfolding private_run [OF e] using a by (simp add: putPrivate_ok)
qed

lemmas update_eval =
  updateRemotePublicMagicMetadata_def updateRemotePrivateMagicMetadata_def
  decryptPublicMagicMetadata_def filePrivateMagicMetadata_def updateMagicMetadataRequest_def
  putFilesPublicMagicMetadata_def putFilesPrivateMagicMetadata_def ensureOk_def
  withoutNullAndUndefinedValues_def PublicMagicMetadata_parse_def Let_def metadata_eval

theorem interactive_update_tier_witness:
  "snd (updateRemotePublicMagicMetadata sample_metadata_env sample_file [(''caption'', JStr ''x'')])
     = Inr (sample_file\<lparr>pubMagicMetadata :=
              Some \<lparr>version = 2, count = 1, data = Decrypted [(''caption'', JStr ''x'')],
                    header = ''header''\<rparr>\<rparr>)
   \<and> updateRemotePublicMagicMetadata sample_metadata_env
         (sample_file\<lparr>pubMagicMetadata :=
              Some \<lparr>version = 2, count = 1, data = Decrypted [(''caption'', JStr ''x'')],
                    header = ''header''\<rparr>\<rparr>)
         [(''editedName'', JStr ''y'')]
     = ([\<lparr>metadataList =
           [(7, \<lparr>version = 2, count = 2,
                 data = Encrypted ([(''caption'', JStr ''x''), (''editedName'', JStr ''y'')], ''key''),
                 header = ''header''\<rparr>)]\<rparr>],
        Inr (sample_file\<lparr>pubMagicMetadata :=
              Some \<lparr>version = 3, count = 2,
                    data = Decrypted [(''caption'', JStr ''x''), (''editedName'', JStr ''y'')],
                    header = ''header''\<rparr>\<rparr>))
   \<and> snd (updateRemotePrivateMagicMetadata sample_metadata_env sample_file
            [(''visibility'', JNum 1)])
     = Inr \<lparr>version = 2, count = 1, data = Decrypted [(''visibility'', JNum 1)],
            header = ''header''\<rparr>
   \<and> (\<exists>tier'. pubMagicMetadata
          (sample_file\<lparr>pubMagicMetadata :=
              Some \<lparr>version = 2, count = 1, data = Decrypted [(''caption'', JStr ''x'')],
                    header = ''header''\<rparr>\<rparr>) = Some tier'
        \<and> version tier' = 1 + 1)"
proof -
  let ?f1 = "sample_file\<lparr>pubMagicMetadata :=
              Some \<lparr>version = 2, count = 1, data = Decrypted [(''caption'', JStr ''x'')],
                    header = ''header''\<rparr>\<rparr>"
  have 1: "snd (updateRemotePublicMagicMetadata sample_metadata_env sample_file
                  [(''caption'', JStr ''x'')]) = Inr ?f1"
    by (simp add: update_eval)
  have 2: "updateRemotePublicMagicMetadata sample_metadata_env ?f1 [(''editedName'', JStr ''y'')]
     = ([\<lparr>metadataList =
           [(7, \<lparr>version = 2, count = 2,
                 data = Encrypted ([(''caption'', JStr ''x''), (''editedName'', JStr ''y'')], ''key''),
                 header = ''header''\<rparr>)]\<rparr>],
        Inr (sample_file\<lparr>pubMagicMetadata :=
              Some \<lparr>version = 3, count = 2,
                    data = Decrypted [(''caption'', JStr ''x''), (''editedName'', JStr ''y'')],
                    header = ''header''\<rparr>\<rparr>))"
    by (simp add: update_eval)
  have 3: "snd (updateRemotePrivateMagicMetadata sample_metadata_env sample_file
            [(''visibility'', JNum 1)])
     = Inr \<lparr>version = 2, count = 1, data = Decrypted [(''visibility'', JNum 1)],
            header = ''header''\<rparr>"
    by (simp add: update_eval)
  have frame: "\<forall>f. pubMagicMetadata (mergeMetadata1 sample_metadata_env f) = pubMagicMetadata f"
    by (simp add: sample_metadata_env_def)
  have roundtrip: "\<forall>obj k. decryptMetadataJSON sample_metadata_env
                      (encryptMetadataJSON sample_metadata_env obj k) k = Inr obj"
    by (simp add: sample_metadata_env_def)
  have pre: "(case pubMagicMetadata sample_file of None \<Rightarrow> 1 | Some e \<Rightarrow> version e) = (1::int)"
    by (simp add: sample_file_def)
  from interactive_update_tier
         [of sample_metadata_env sample_file "[(''caption'', JStr ''x'')]" _ ?f1]
       frame roundtrip 1
  have 4: "\<exists>tier'. pubMagicMetadata ?f1 = Some tier' \<and> version tier' = 1 + 1"
    unfolding pre by blast
  from 1 2 3 4 show ?thesis by blast
qed

text \<open>
  Claim C3 as stated fails for the public tier on an update with a nullish value:
  the shallow merge has the key, the synthesized content does not.
\<close>

theorem interactive_update_content_counterexample:
  "snd (updateRemotePublicMagicMetadata sample_metadata_env
          (sample_file\<lparr>pubMagicMetadata :=
              Some \<lparr>version = 2, count = 1, data = Decrypted [(''caption'', JStr ''x'')],
                    header = ''header''\<rparr>\<rparr>)
          [(''caption'', JUndefined)])
     = Inr (sample_file\<lparr>pubMagicMetadata :=
              Some \<lparr>version = 3, count = 0, data = Decrypted [], header = ''header''\<rparr>\<rparr>)
   \<and> spread [(''caption'', JStr ''x'')] [(''caption'', JUndefined)] = [(''caption'', JUndefined)]
   \<and> snd (updateRemotePublicMagicMetadata sample_metadata_env sample_file
            [(''caption'', JNull)])
     = Inr (sample_file\<lparr>pubMagicMetadata :=
              Some \<lparr>version = 2, count = 0, data = Decrypted [], header = ''header''\<rparr>\<rparr>)
   \<and> spread [] [(''caption'', JNull)] = [(''caption'', JNull)]"
  by (simp add: update_eval)

section \<open>Properties of the upload to the bucket\<close>

lemma nextMultipartUploadPart_loop_eq:
  "nextMultipartUploadPart_loop n streamReader chunks
     = (chunks @ take n streamReader, drop n streamReader)"
proof (induction n arbitrary: streamReader chunks)
  case 0
  then show ?case by simp
next
  case (Suc n)
  then show ?case by (cases streamReader) simp_all
qed

lemma nextMultipartUploadPart_eq:
  "nextMultipartUploadPart streamReader = (concat (take 5 streamReader), drop 5 streamReader)"
  by (simp add: nextMultipartUploadPart_def nextMultipartUploadPart_loop_eq multipartChunksPerPart_def)

lemma attempt_ok:
  assumes "\<not> isCancelled net (world st)"
    and "send net request (world st) = (Inr r, w')"
    and "200 \<le> resp_status r" and "resp_status r < 300"
  shows "attempt net request st = (Inr r, st\<lparr>world := w', sent := sent st @ [request]\<rparr>)"
  using assms by (simp add: attempt_def abortIfCancelled_def ensureOk_def Let_def)

lemma retrier_ok:
  assumes "\<not> isCancelled net (world st)"
    and "send net request (world st) = (Inr r, w')"
    and "200 \<le> resp_status r" and "resp_status r < 300"
  shows "createAbortableRetryEnsuringHTTPOk net request st
           = (Inr r, st\<lparr>world := w', sent := sent st @ [request]\<rparr>)"
  using attempt_ok [OF assms]
  by (cases "retries net") (simp_all add: createAbortableRetryEnsuringHTTPOk_def)

lemma attempt_cancelled:
  "isCancelled net (world st) \<Longrightarrow> attempt net request st = (Inl UPLOAD_CANCELLED, st)"
  by (simp add: attempt_def abortIfCancelled_def)

lemma retrier_cancelled:
  "isCancelled net (world st) \<Longrightarrow>
     createAbortableRetryEnsuringHTTPOk net request st = (Inl UPLOAD_CANCELLED, st)"
  using attempt_cancelled [of net st request]
  by (cases "retries net") (simp_all add: createAbortableRetryEnsuringHTTPOk_def)



lemma partCount_eq: "nat \<lceil>real c / real multipartChunksPerPart\<rceil> = (c + 4) div 5"
  using ceil_div_nat [of 5 c] by (simp add: multipartChunksPerPart_def)









lemma upt3: "[0 ..< 3] = [0, 1, 2]" "[1 ..< 4] = [1, 2, 3]" "[1 ..< 1 + 3] = [1, 2, 3]"
  by (simp_all add: upt_rec)

lemmas network_eval = sample_network_def sample_state_def sample_pieces_def twelve_chunks_def





section \<open>Properties of cancellation\<close>

lemma loop_append:
  "uploadStreamUsingMultipart_loop net rt d fid ppp (es1 @ es2) acc st
     = (case uploadStreamUsingMultipart_loop net rt d fid ppp es1 acc st of
          (Inl e, st') \<Rightarrow> (Inl e, st')
        | (Inr acc', st') \<Rightarrow> uploadStreamUsingMultipart_loop net rt d fid ppp es2 acc' st')"
proof (induction net rt d fid ppp es1 acc st rule: uploadStreamUsingMultipart_loop.induct)
  case (1 net rt d fid ppp acc st)
  then show ?case by simp
next
  case (2 net rt d fid ppp index partUploadURL entries acc st)
  then show ?case
    by (auto simp: Let_def split: prod.splits sum.splits option.splits)
qed

lemma loop_cancelled:
  "es \<noteq> [] \<Longrightarrow> isCancelled net (world st) \<Longrightarrow>
     uploadStreamUsingMultipart_loop net rt d fid ppp es acc st = (Inl UPLOAD_CANCELLED, st)"
  by (cases es; cases acc) (auto simp: abortIfCancelled_def)

lemma attempt_sent:
  "attempt net request st = (r, st') \<Longrightarrow> set (sent st') \<subseteq> set (sent st) \<union> {request}"
  by (auto simp: attempt_def Let_def split: sum.splits prod.splits)

lemma retry_sent:
  "retryAsyncOperation n (attempt net request) abortIfNeeded st = (r, st')
     \<Longrightarrow> set (sent st') \<subseteq> set (sent st) \<union> {request}"
proof (induction n arbitrary: st)
  case 0
  then show ?case
    using attempt_sent [of net request st]
    by (auto split: prod.splits sum.splits option.splits)
next
  case (Suc n)
  obtain r1 st1 where a: "attempt net request st = (r1, st1)"
    by (cases "attempt net request st")
  note s1 = attempt_sent [OF a]
  show ?case
  proof (cases r1)
    case (Inr x)
    then show ?thesis using Suc.prems a s1 by auto
  next
    case (Inl e)
    show ?thesis
    proof (cases "abortIfNeeded e")
      case None
      then have "retryAsyncOperation n (attempt net request) abortIfNeeded st1 = (r, st')"
        using Suc.prems a Inl by simp
      from Suc.IH [OF this] s1 show ?thesis by auto
    next
      case (Some thrown)
      then show ?thesis using Suc.prems a Inl s1 by auto
    qed
  qed
qed

lemma retrier_sent:
  "createAbortableRetryEnsuringHTTPOk net request st = (r, st')
     \<Longrightarrow> set (sent st') \<subseteq> set (sent st) \<union> {request}"
  using retry_sent [of "retries net" net request _ st]
  by (simp add: createAbortableRetryEnsuringHTTPOk_def)

lemma putFilePart_sent:
  assumes "\<forall>request s r s'. rt request s = (r, s') \<longrightarrow> set (sent s') \<subseteq> set (sent s) \<union> {request}"
  shows "putFilePart rt v u b st = (r, st')
     \<Longrightarrow> set (sent st') \<subseteq> set (sent st) \<union> {PutFilePart v u b}"
proof -
  assume p: "putFilePart rt v u b st = (r, st')"
  obtain r0 where "rt (PutFilePart v u b) st = (r0, st')"
    using p by (auto simp: putFilePart_def split: prod.splits sum.splits)
  then show ?thesis using assms by blast
qed

lemma loop_sent_any:
  "(\<forall>request s r s'. rt request s = (r, s') \<longrightarrow> set (sent s') \<subseteq> set (sent s) \<union> {request})
     \<Longrightarrow> uploadStreamUsingMultipart_loop net rt d fid ppp es acc st = (r, st')
     \<Longrightarrow> \<forall>x\<in>set (sent st'). x \<in> set (sent st) \<or> (\<exists>v u b. x = PutFilePart v u b)"
proof (induction net rt d fid ppp es acc st rule: uploadStreamUsingMultipart_loop.induct)
  case (1 net rt d fid ppp acc st)
  then show ?case by simp
next
  case (2 net rt d fid ppp index partUploadURL entries acc st)
  note rt = "2.prems"(1)
  obtain streamReader fileSize' completedParts where acc: "acc = (streamReader, fileSize', completedParts)"
    by (cases acc)
  show ?case
  proof (cases "isCancelled net (world st)")
    case True
    then show ?thesis using "2.prems" acc by (simp add: abortIfCancelled_def)
  next
    case False
    obtain partData streamReader' where np:
      "nextMultipartUploadPart streamReader = (partData, streamReader')"
      by (cases "nextMultipartUploadPart streamReader")
    obtain r1 st1 where p:
      "putFilePart rt (\<not> d) partUploadURL partData st = (r1, st1)"
      by (cases "putFilePart rt (\<not> d) partUploadURL partData st")
    note s1 = putFilePart_sent [OF rt p]
    show ?thesis
    proof (cases r1)
      case (Inl e)
      then show ?thesis using "2.prems" acc False np p s1
        by (auto simp: abortIfCancelled_def Let_def)
    next
      case (Inr eTag)
      show ?thesis
      proof (cases eTag)
        case None
        then show ?thesis using "2.prems" acc False np p s1 Inr
          by (auto simp: abortIfCancelled_def Let_def)
      next
        case (Some tag)
        show ?thesis
        proof (cases "tag = []")
          case True
          then show ?thesis using "2.prems" acc False np p s1 Inr Some
            by (auto simp: abortIfCancelled_def Let_def)
        next
          case nonempty: False
          let ?st2 = "st1\<lparr>progress := progress st1 @ [(fid, ppp * real (index + 1))]\<rparr>"
          have ab: "abortIfCancelled net st = Inr ()"
            using False by (simp add: abortIfCancelled_def)
          have rec: "uploadStreamUsingMultipart_loop net rt d fid ppp entries
                  (streamReader', fileSize' + length partData,
                   completedParts @ [(index + 1, tag)]) ?st2 = (r, st')"
            using "2.prems" acc False np p Inr Some nonempty
            by (simp add: abortIfCancelled_def Let_def)
          have ih: "\<forall>x\<in>set (sent st'). x \<in> set (sent ?st2) \<or> (\<exists>v u b. x = PutFilePart v u b)"
            using "2.IH" [OF acc [symmetric] refl ab refl np [symmetric] p [symmetric]
                            Inr Some nonempty "2.prems"(1) rec] .
          then show ?thesis using s1 by auto
        qed
      qed
    qed
  qed
qed

lemma loop_sent:
  "uploadStreamUsingMultipart_loop net (createAbortableRetryEnsuringHTTPOk net) d fid ppp es acc st
      = (r, st')
     \<Longrightarrow> \<forall>x\<in>set (sent st'). x \<in> set (sent st) \<or> (\<exists>v u b. x = PutFilePart v u b)"
  using loop_sent_any [of "createAbortableRetryEnsuringHTTPOk net" net d fid ppp es acc st r st']
        retrier_sent [of net]
  by blast

lemma upload_catch_never_cancelled: "upload_catch h e \<noteq> Inr cancelled"
  by (auto simp: upload_catch_def split: sum.splits error.splits)

lemma retrier_cancelled_after_failure:
  assumes "attempt net req s = (Inl e, s1)" and "e \<noteq> UPLOAD_CANCELLED"
    and "isCancelled net (world s1)" and "0 < retries net"
  shows "createAbortableRetryEnsuringHTTPOk net req s = (Inl UPLOAD_CANCELLED, s1)"
proof -
  obtain n where n: "retries net = Suc n" using assms(4) by (cases "retries net") auto
  have "retryAsyncOperation n (attempt net req)
          (\<lambda>e. if e = UPLOAD_CANCELLED then Some e else None) s1 = (Inl UPLOAD_CANCELLED, s1)"
    using attempt_cancelled [OF assms(3), of req] by (cases n) simp_all
  then show ?thesis
    using assms(1) assms(2) n by (simp add: createAbortableRetryEnsuringHTTPOk_def)
qed

lemma cancel_core:
  assumes fetch: "fetchMultipartUploadURLs net
                    (nat \<lceil>real (enc_chunkCount es) / real multipartChunksPerPart\<rceil>) (world st)
                  = (Inr urls, w1)"
    and split: "zip [0 ..< length (partURLs urls)] (partURLs urls) = done_parts @ more_parts"
    and before: "uploadStreamUsingMultipart_loop net (createAbortableRetryEnsuringHTTPOk net) d fid
                    (maxPercent / real (nat \<lceil>real (enc_chunkCount es) / real multipartChunksPerPart\<rceil>))
                    done_parts (enc_stream es, 0, []) (st\<lparr>world := w1\<rparr>)
                  = (Inr acc, st')"
    and more: "more_parts \<noteq> []"
    and raised: "isCancelled net (world st')"
  shows "uploadStreamUsingMultipart net (createAbortableRetryEnsuringHTTPOk net) d fid es maxPercent st = (Inl UPLOAD_CANCELLED, st')"
    and "\<forall>x\<in>set (sent st'). x \<in> set (sent st) \<or> (\<exists>v u b. x = PutFilePart v u b)"
    and "fst (piece_file pieces) = Stream es \<and> multipartChunksPerPart \<le> enc_chunkCount es
           \<and> piece_localID pieces = fid \<and> maxPercent = real_of_int \<lfloor>95 + 5 * random\<rfloor>
         \<longrightarrow> uploadToBucket net d random pieces st = (Inl UPLOAD_CANCELLED, st')
             \<and> upload_fromBucket net h postFile d random pieces t st
                 = (upload_catch h UPLOAD_CANCELLED, st')"
proof -
  let ?ppp = "maxPercent / real (nat \<lceil>real (enc_chunkCount es) / real multipartChunksPerPart\<rceil>)"
  have l: "uploadStreamUsingMultipart_loop net (createAbortableRetryEnsuringHTTPOk net) d fid ?ppp (done_parts @ more_parts)
             (enc_stream es, 0, []) (st\<lparr>world := w1\<rparr>) = (Inl UPLOAD_CANCELLED, st')"
    unfolding loop_append before using loop_cancelled [OF more raised] by simp
  show m: "uploadStreamUsingMultipart net (createAbortableRetryEnsuringHTTPOk net) d fid es maxPercent st = (Inl UPLOAD_CANCELLED, st')"
    unfolding uploadStreamUsingMultipart_def Let_def using fetch split l by simp
  show "\<forall>x\<in>set (sent st'). x \<in> set (sent st) \<or> (\<exists>v u b. x = PutFilePart v u b)"
    using loop_sent [OF before] by simp
  show "fst (piece_file pieces) = Stream es \<and> multipartChunksPerPart \<le> enc_chunkCount es
           \<and> piece_localID pieces = fid \<and> maxPercent = real_of_int \<lfloor>95 + 5 * random\<rfloor>
         \<longrightarrow> uploadToBucket net d random pieces st = (Inl UPLOAD_CANCELLED, st')
             \<and> upload_fromBucket net h postFile d random pieces t st
                 = (upload_catch h UPLOAD_CANCELLED, st')"
  proof
    assume a: "fst (piece_file pieces) = Stream es \<and> multipartChunksPerPart \<le> enc_chunkCount es
           \<and> piece_localID pieces = fid \<and> maxPercent = real_of_int \<lfloor>95 + 5 * random\<rfloor>"
    have u: "uploadToBucket net d random pieces st = (Inl UPLOAD_CANCELLED, st')"
      unfolding uploadToBucket_def Let_def using a m by auto
    then show "uploadToBucket net d random pieces st = (Inl UPLOAD_CANCELLED, st')
             \<and> upload_fromBucket net h postFile d random pieces t st
                 = (upload_catch h UPLOAD_CANCELLED, st')"
      by (simp add: upload_fromBucket_def)
  qed
qed

lemma retrier_rethrows:
  assumes "attempt net req s = (Inl UPLOAD_CANCELLED, s1)"
  shows "createAbortableRetryEnsuringHTTPOk net req s = (Inl UPLOAD_CANCELLED, s1)"
  using assms by (cases "retries net") (simp_all add: createAbortableRetryEnsuringHTTPOk_def)

lemma loop_sent_no_completion:
  assumes "\<forall>x\<in>set (sent st'). x \<in> set (sent st) \<or> (\<exists>v u b. x = PutFilePart v u b)"
  shows "CompleteMultipartUpload v u ps \<in> set (sent st')
           \<longrightarrow> CompleteMultipartUpload v u ps \<in> set (sent st)"
  using assms by auto

text \<open>
  Claim C9, as amended. First: let the first parts of a multipart upload have been
  sent (\<open>done_parts\<close>, the loop returning normally on them) and let the
  cancellation flag be raised when the loop reaches the next part (\<open>more_parts\<close>
  is not empty). Then the check at the part boundary throws the cancellation signal:
  the loop over the remaining parts ends with the error \<open>UPLOAD_CANCELLED\<close> in the
  state the first parts left, whatever the retrier it was given and whatever it has
  accumulated, so that the signal comes from the check and not from the retrier, and
  nothing is sent. \<^verbatim>\<open>uploadStreamUsingMultipart\<close> as a whole ends with that error in
  that state; every request sent since the start is the upload of a part, and no
  completion call has been made. The signal propagates out of \<^verbatim>\<open>uploadToBucket\<close>
  into the \<^verbatim>\<open>catch\<close> block of \<^verbatim>\<open>upload\<close>. Second: the result of that block is
  never \<open>cancelled\<close>: it is \<open>failed\<close> when \<^verbatim>\<open>handleUploadError\<close> returns the
  signal, and the error leaves \<^verbatim>\<open>upload\<close> when \<^verbatim>\<open>handleUploadError\<close> throws.
  Third: when an attempt of the retrier ends with the cancellation signal, be it
  thrown by the check of the flag or by the request, the retrier rethrows it in the
  state that this one attempt left: no other attempt is made. In particular it sends
  nothing when the flag is raised before the first attempt, and makes no further
  attempt when the flag is raised after a failed one.
\<close>

theorem cancellation_between_parts:
  "(fetchMultipartUploadURLs net
        (nat \<lceil>real (enc_chunkCount es) / real multipartChunksPerPart\<rceil>) (world st)
      = (Inr urls, w1)
    \<and> zip [0 ..< length (partURLs urls)] (partURLs urls) = done_parts @ more_parts
    \<and> uploadStreamUsingMultipart_loop net (createAbortableRetryEnsuringHTTPOk net) d fid
         (maxPercent / real (nat \<lceil>real (enc_chunkCount es) / real multipartChunksPerPart\<rceil>))
         done_parts (enc_stream es, 0, []) (st\<lparr>world := w1\<rparr>)
      = (Inr acc, st')
    \<and> more_parts \<noteq> []
    \<and> isCancelled net (world st')
    \<longrightarrow>
      abortIfCancelled net st' = Inl UPLOAD_CANCELLED
    \<and> (\<forall>requestRetrier percentPerPart a.
          uploadStreamUsingMultipart_loop net requestRetrier d fid percentPerPart more_parts a st'
            = (Inl UPLOAD_CANCELLED, st'))
    \<and> uploadStreamUsingMultipart net (createAbortableRetryEnsuringHTTPOk net) d fid es maxPercent st
        = (Inl UPLOAD_CANCELLED, st')
    \<and> (\<forall>x\<in>set (sent st'). x \<in> set (sent st) \<or> (\<exists>v u b. x = PutFilePart v u b))
    \<and> (\<forall>v u ps. CompleteMultipartUpload v u ps \<in> set (sent st')
                   \<longrightarrow> CompleteMultipartUpload v u ps \<in> set (sent st))
    \<and> (fst (piece_file pieces) = Stream es \<and> multipartChunksPerPart \<le> enc_chunkCount es
           \<and> piece_localID pieces = fid \<and> maxPercent = real_of_int \<lfloor>95 + 5 * random\<rfloor>
         \<longrightarrow> uploadToBucket net d random pieces st = (Inl UPLOAD_CANCELLED, st')
             \<and> upload_fromBucket net h postFile d random pieces t st
                 = (upload_catch h UPLOAD_CANCELLED, st')))
   \<and> upload_catch h UPLOAD_CANCELLED \<noteq> Inr cancelled
   \<and> (h UPLOAD_CANCELLED = Inr UPLOAD_CANCELLED \<longrightarrow> upload_catch h UPLOAD_CANCELLED = Inr failed)
   \<and> (\<forall>thrown. h UPLOAD_CANCELLED = Inl thrown \<longrightarrow> upload_catch h UPLOAD_CANCELLED = Inl thrown)
   \<and> (\<forall>req s s1. attempt net req s = (Inl UPLOAD_CANCELLED, s1)
             \<longrightarrow> createAbortableRetryEnsuringHTTPOk net req s = (Inl UPLOAD_CANCELLED, s1))
   \<and> (\<forall>req s. isCancelled net (world s)
             \<longrightarrow> attempt net req s = (Inl UPLOAD_CANCELLED, s)
               \<and> createAbortableRetryEnsuringHTTPOk net req s = (Inl UPLOAD_CANCELLED, s))
   \<and> (\<forall>req s e s1. attempt net req s = (Inl e, s1) \<and> e \<noteq> UPLOAD_CANCELLED
                        \<and> isCancelled net (world s1) \<and> 0 < retries net
             \<longrightarrow> createAbortableRetryEnsuringHTTPOk net req s = (Inl UPLOAD_CANCELLED, s1))"
proof (intro conjI)
  show "fetchMultipartUploadURLs net
        (nat \<lceil>real (enc_chunkCount es) / real multipartChunksPerPart\<rceil>) (world st)
      = (Inr urls, w1)
    \<and> zip [0 ..< length (partURLs urls)] (partURLs urls) = done_parts @ more_parts
    \<and> uploadStreamUsingMultipart_loop net (createAbortableRetryEnsuringHTTPOk net) d fid
         (maxPercent / real (nat \<lceil>real (enc_chunkCount es) / real multipartChunksPerPart\<rceil>))
         done_parts (enc_stream es, 0, []) (st\<lparr>world := w1\<rparr>)
      = (Inr acc, st')
    \<and> more_parts \<noteq> []
    \<and> isCancelled net (world st')
    \<longrightarrow>
      abortIfCancelled net st' = Inl UPLOAD_CANCELLED
    \<and> (\<forall>requestRetrier percentPerPart a.
          uploadStreamUsingMultipart_loop net requestRetrier d fid percentPerPart more_parts a st'
            = (Inl UPLOAD_CANCELLED, st'))
    \<and> uploadStreamUsingMultipart net (createAbortableRetryEnsuringHTTPOk net) d fid es maxPercent st
        = (Inl UPLOAD_CANCELLED, st')
    \<and> (\<forall>x\<in>set (sent st'). x \<in> set (sent st) \<or> (\<exists>v u b. x = PutFilePart v u b))
    \<and> (\<forall>v u ps. CompleteMultipartUpload v u ps \<in> set (sent st')
                   \<longrightarrow> CompleteMultipartUpload v u ps \<in> set (sent st))
    \<and> (fst (piece_file pieces) = Stream es \<and> multipartChunksPerPart \<le> enc_chunkCount es
           \<and> piece_localID pieces = fid \<and> maxPercent = real_of_int \<lfloor>95 + 5 * random\<rfloor>
         \<longrightarrow> uploadToBucket net d random pieces st = (Inl UPLOAD_CANCELLED, st')
             \<and> upload_fromBucket net h postFile d random pieces t st
                 = (upload_catch h UPLOAD_CANCELLED, st'))"
  proof (intro impI)
    assume a: "fetchMultipartUploadURLs net
        (nat \<lceil>real (enc_chunkCount es) / real multipartChunksPerPart\<rceil>) (world st)
      = (Inr urls, w1)
    \<and> zip [0 ..< length (partURLs urls)] (partURLs urls) = done_parts @ more_parts
    \<and> uploadStreamUsingMultipart_loop net (createAbortableRetryEnsuringHTTPOk net) d fid
         (maxPercent / real (nat \<lceil>real (enc_chunkCount es) / real multipartChunksPerPart\<rceil>))
         done_parts (enc_stream es, 0, []) (st\<lparr>world := w1\<rparr>)
      = (Inr acc, st')
    \<and> more_parts \<noteq> []
    \<and> isCancelled net (world st')"
    then have fetch: "fetchMultipartUploadURLs net
                    (nat \<lceil>real (enc_chunkCount es) / real multipartChunksPerPart\<rceil>) (world st)
                  = (Inr urls, w1)"
      and split: "zip [0 ..< length (partURLs urls)] (partURLs urls) = done_parts @ more_parts"
      and before: "uploadStreamUsingMultipart_loop net (createAbortableRetryEnsuringHTTPOk net) d fid
                    (maxPercent / real (nat \<lceil>real (enc_chunkCount es) / real multipartChunksPerPart\<rceil>))
                    done_parts (enc_stream es, 0, []) (st\<lparr>world := w1\<rparr>)
                  = (Inr acc, st')"
      and more: "more_parts \<noteq> []"
      and raised: "isCancelled net (world st')"
      by simp_all
    note core = cancel_core [OF fetch split before more raised]
    show "abortIfCancelled net st' = Inl UPLOAD_CANCELLED
    \<and> (\<forall>requestRetrier percentPerPart a.
          uploadStreamUsingMultipart_loop net requestRetrier d fid percentPerPart more_parts a st'
            = (Inl UPLOAD_CANCELLED, st'))
    \<and> uploadStreamUsingMultipart net (createAbortableRetryEnsuringHTTPOk net) d fid es maxPercent st
        = (Inl UPLOAD_CANCELLED, st')
    \<and> (\<forall>x\<in>set (sent st'). x \<in> set (sent st) \<or> (\<exists>v u b. x = PutFilePart v u b))
    \<and> (\<forall>v u ps. CompleteMultipartUpload v u ps \<in> set (sent st')
                   \<longrightarrow> CompleteMultipartUpload v u ps \<in> set (sent st))
    \<and> (fst (piece_file pieces) = Stream es \<and> multipartChunksPerPart \<le> enc_chunkCount es
           \<and> piece_localID pieces = fid \<and> maxPercent = real_of_int \<lfloor>95 + 5 * random\<rfloor>
         \<longrightarrow> uploadToBucket net d random pieces st = (Inl UPLOAD_CANCELLED, st')
             \<and> upload_fromBucket net h postFile d random pieces t st
                 = (upload_catch h UPLOAD_CANCELLED, st'))"
      apply (intro conjI allI)
      subgoal using raised by (simp add: abortIfCancelled_def)
      subgoal by (rule loop_cancelled [OF more raised])
      subgoal by (rule core(1))
      subgoal by (rule core(2))
      subgoal by (rule loop_sent_no_completion [OF core(2)])
      subgoal by (rule core(3))
      done
  qed
  show "upload_catch h UPLOAD_CANCELLED \<noteq> Inr cancelled"
    by (rule upload_catch_never_cancelled)
  show "h UPLOAD_CANCELLED = Inr UPLOAD_CANCELLED \<longrightarrow> upload_catch h UPLOAD_CANCELLED = Inr failed"
    by (simp add: upload_catch_def)
  show "\<forall>thrown. h UPLOAD_CANCELLED = Inl thrown \<longrightarrow> upload_catch h UPLOAD_CANCELLED = Inl thrown"
    by (simp add: upload_catch_def)
  show "\<forall>req s s1. attempt net req s = (Inl UPLOAD_CANCELLED, s1)
             \<longrightarrow> createAbortableRetryEnsuringHTTPOk net req s = (Inl UPLOAD_CANCELLED, s1)"
    using retrier_rethrows by blast
  show "\<forall>req s. isCancelled net (world s)
             \<longrightarrow> attempt net req s = (Inl UPLOAD_CANCELLED, s)
               \<and> createAbortableRetryEnsuringHTTPOk net req s = (Inl UPLOAD_CANCELLED, s)"
    by (simp add: retrier_cancelled attempt_cancelled)
  show "\<forall>req s e s1. attempt net req s = (Inl e, s1) \<and> e \<noteq> UPLOAD_CANCELLED
                        \<and> isCancelled net (world s1) \<and> 0 < retries net
             \<longrightarrow> createAbortableRetryEnsuringHTTPOk net req s = (Inl UPLOAD_CANCELLED, s1)"
    using retrier_cancelled_after_failure by blast
qed

lemma sample_first_part:
  "\<exists>acc st'.
     uploadStreamUsingMultipart_loop (sample_network (Some 1)) (createAbortableRetryEnsuringHTTPOk (sample_network (Some 1))) False 1 ppp [(0, ''p'')]
        (enc_stream twelve_chunks, 0, []) (sample_state\<lparr>world := 0\<rparr>) = (Inr acc, st')
     \<and> world st' = 1
     \<and> sent st' = [PutFilePart True ''p'' [1, 2, 3, 4, 5]]"
proof -
  have put: "putFilePart (createAbortableRetryEnsuringHTTPOk (sample_network (Some 1))) True ''p'' [1, 2, 3, 4, 5] sample_state
               = (Inr (Some ''t''),
                  sample_state\<lparr>world := 1, sent := [PutFilePart True ''p'' [1, 2, 3, 4, 5]]\<rparr>)"
    using retrier_ok [of "sample_network (Some 1)" sample_state
                         "PutFilePart True ''p'' [1, 2, 3, 4, 5]"
                         "\<lparr>resp_status = 200, resp_etag = Some ''t''\<rparr>" 1]
    by (simp add: putFilePart_def network_eval)
  have s0: "sample_state\<lparr>world := 0\<rparr> = sample_state" by (simp add: sample_state_def)
  show ?thesis
    unfolding s0
    using put
    by (simp add: abortIfCancelled_def nextMultipartUploadPart_eq Let_def)
       (simp add: network_eval)
qed

lemma sample_split:
  "fetchMultipartUploadURLs (sample_network c)
      (nat \<lceil>real (enc_chunkCount twelve_chunks) / real multipartChunksPerPart\<rceil>)
      (world sample_state)
     = (Inr \<lparr>mp_objectKey = ''object'', partURLs = [''p'', ''pp'', ''ppp''],
             completeURL = ''complete-url''\<rparr>, 0)"
  "zip [0 ..< length (partURLs \<lparr>mp_objectKey = ''object'', partURLs = [''p'', ''pp'', ''ppp''],
             completeURL = ''complete-url''\<rparr>)]
       (partURLs \<lparr>mp_objectKey = ''object'', partURLs = [''p'', ''pp'', ''ppp''],
             completeURL = ''complete-url''\<rparr>)
     = [(0, ''p'')] @ [(1, ''pp''), (2, ''ppp'')]"
  unfolding partCount_eq
  by (simp_all add: network_eval upt3 numeral_2_eq_2 numeral_3_eq_3)

text \<open>
  On the sample network that raises the flag once one request has been answered, the
  upload of twelve chunks sends the first part of five chunks and stops; the loop
  over the two parts left stops in the same way when it is given the retrier that
  does not look at the flag. On the network whose first request is interrupted, the
  retrier makes that one attempt and no other, although a second attempt would be
  answered.
\<close>

theorem cancellation_between_parts_witness:
  "(\<exists>acc st'.
     uploadStreamUsingMultipart_loop (sample_network (Some 1))
         (createAbortableRetryEnsuringHTTPOk (sample_network (Some 1))) False 1
         (95 / real (nat \<lceil>real (enc_chunkCount twelve_chunks) / real multipartChunksPerPart\<rceil>))
         [(0, ''p'')] (enc_stream twelve_chunks, 0, []) (sample_state\<lparr>world := 0\<rparr>)
        = (Inr acc, st')
     \<and> isCancelled (sample_network (Some 1)) (world st')
     \<and> sent st' = [PutFilePart True ''p'' [1, 2, 3, 4, 5]]
     \<and> uploadStreamUsingMultipart_loop (sample_network (Some 1)) heedless_retrier False 1 0
         [(1, ''pp''), (2, ''ppp'')] acc st'
        = (Inl UPLOAD_CANCELLED, st')
     \<and> uploadStreamUsingMultipart (sample_network (Some 1))
         (createAbortableRetryEnsuringHTTPOk (sample_network (Some 1))) False 1 twelve_chunks 95
         sample_state
        = (Inl UPLOAD_CANCELLED, st')
     \<and> createAbortableRetryEnsuringHTTPOk (sample_network (Some 1))
          (PutFilePart True ''pp'' [6, 7, 8, 9, 10]) st' = (Inl UPLOAD_CANCELLED, st'))
   \<and> createAbortableRetryEnsuringHTTPOk interrupted_network (PutFile True ''upload-url'' [1])
        sample_state
      = (Inl UPLOAD_CANCELLED,
         sample_state\<lparr>world := 1, sent := [PutFile True ''upload-url'' [1]]\<rparr>)
   \<and> fst (attempt interrupted_network (PutFile True ''upload-url'' [1])
             (sample_state\<lparr>world := 1, sent := [PutFile True ''upload-url'' [1]]\<rparr>))
      = Inr \<lparr>resp_status = 200, resp_etag = Some ''tt''\<rparr>
   \<and> retries interrupted_network = 3"
proof -
  let ?net = "sample_network (Some 1)"
  let ?ppp = "95 / real (nat \<lceil>real (enc_chunkCount twelve_chunks) / real multipartChunksPerPart\<rceil>)"
  obtain acc st' where b:
    "uploadStreamUsingMultipart_loop ?net (createAbortableRetryEnsuringHTTPOk ?net) False 1 ?ppp
        [(0, ''p'')] (enc_stream twelve_chunks, 0, []) (sample_state\<lparr>world := 0\<rparr>)
      = (Inr acc, st')"
    "world st' = 1" "sent st' = [PutFilePart True ''p'' [1, 2, 3, 4, 5]]"
    using sample_first_part [of ?ppp] by blast
  have raised: "isCancelled ?net (world st')" using b(2) by (simp add: sample_network_def)
  have more: "[(1::nat, ''pp''), (2, ''ppp'')] \<noteq> []" by simp
  have h: "fetchMultipartUploadURLs ?net
        (nat \<lceil>real (enc_chunkCount twelve_chunks) / real multipartChunksPerPart\<rceil>)
        (world sample_state)
      = (Inr \<lparr>mp_objectKey = ''object'', partURLs = [''p'', ''pp'', ''ppp''],
              completeURL = ''complete-url''\<rparr>, 0)
    \<and> zip [0 ..< length (partURLs \<lparr>mp_objectKey = ''object'', partURLs = [''p'', ''pp'', ''ppp''],
              completeURL = ''complete-url''\<rparr>)]
          (partURLs \<lparr>mp_objectKey = ''object'', partURLs = [''p'', ''pp'', ''ppp''],
              completeURL = ''complete-url''\<rparr>)
        = [(0, ''p'')] @ [(1, ''pp''), (2, ''ppp'')]
    \<and> uploadStreamUsingMultipart_loop ?net (createAbortableRetryEnsuringHTTPOk ?net) False 1 ?ppp
         [(0, ''p'')] (enc_stream twelve_chunks, 0, []) (sample_state\<lparr>world := 0\<rparr>)
      = (Inr acc, st')
    \<and> [(1::nat, ''pp''), (2, ''ppp'')] \<noteq> []
    \<and> isCancelled ?net (world st')"
    using sample_split(1) [of "Some 1"] sample_split(2) b(1) raised by blast
  note t = cancellation_between_parts [where net = ?net and es = twelve_chunks and st = sample_state
             and d = False and fid = 1 and maxPercent = 95 and acc = acc and st' = st'
             and done_parts = "[(0, ''p'')]" and more_parts = "[(1, ''pp''), (2, ''ppp'')]"
             and ?w1.0 = 0
             and urls = "\<lparr>mp_objectKey = ''object'', partURLs = [''p'', ''pp'', ''ppp''],
                           completeURL = ''complete-url''\<rparr>"]
  note first = t [THEN conjunct1, rule_format, OF h]
  have 1: "uploadStreamUsingMultipart_loop ?net heedless_retrier False 1 0
             [(1, ''pp''), (2, ''ppp'')] acc st' = (Inl UPLOAD_CANCELLED, st')"
    using first by blast
  have 2: "uploadStreamUsingMultipart ?net (createAbortableRetryEnsuringHTTPOk ?net) False 1
             twelve_chunks 95 sample_state = (Inl UPLOAD_CANCELLED, st')"
    using first by blast
  have 3: "createAbortableRetryEnsuringHTTPOk ?net
          (PutFilePart True ''pp'' [6, 7, 8, 9, 10]) st' = (Inl UPLOAD_CANCELLED, st')"
    using t raised by blast
  have scenario: "\<exists>acc st'.
     uploadStreamUsingMultipart_loop ?net (createAbortableRetryEnsuringHTTPOk ?net) False 1 ?ppp
         [(0, ''p'')] (enc_stream twelve_chunks, 0, []) (sample_state\<lparr>world := 0\<rparr>)
        = (Inr acc, st')
     \<and> isCancelled ?net (world st')
     \<and> sent st' = [PutFilePart True ''p'' [1, 2, 3, 4, 5]]
     \<and> uploadStreamUsingMultipart_loop ?net heedless_retrier False 1 0
         [(1, ''pp''), (2, ''ppp'')] acc st'
        = (Inl UPLOAD_CANCELLED, st')
     \<and> uploadStreamUsingMultipart ?net (createAbortableRetryEnsuringHTTPOk ?net) False 1
         twelve_chunks 95 sample_state
        = (Inl UPLOAD_CANCELLED, st')
     \<and> createAbortableRetryEnsuringHTTPOk ?net
          (PutFilePart True ''pp'' [6, 7, 8, 9, 10]) st' = (Inl UPLOAD_CANCELLED, st')"
    using b(1) raised b(3) 1 2 3 by blast
  let ?req = "PutFile True ''upload-url'' [1]"
  let ?s1 = "sample_state\<lparr>world := 1, sent := [?req]\<rparr>"
  have a1: "attempt interrupted_network ?req sample_state = (Inl UPLOAD_CANCELLED, ?s1)"
    by (simp add: attempt_def abortIfCancelled_def interrupted_network_def network_eval)
  have 4: "createAbortableRetryEnsuringHTTPOk interrupted_network ?req sample_state
             = (Inl UPLOAD_CANCELLED, ?s1)"
    by (rule cancellation_between_parts [where net = interrupted_network,
               THEN conjunct2, THEN conjunct2, THEN conjunct2, THEN conjunct2, THEN conjunct1,
               rule_format, OF a1])
  have 5: "fst (attempt interrupted_network ?req ?s1)
             = Inr \<lparr>resp_status = 200, resp_etag = Some ''tt''\<rparr>"
    by (simp add: attempt_def abortIfCancelled_def ensureOk_def interrupted_network_def
                  network_eval numeral_2_eq_2)
  have 6: "retries interrupted_network = 3"
    by (simp add: interrupted_network_def network_eval)
  from scenario 4 5 6 show ?thesis by blast
qed

text \<open>
  Claim C9 as stated fails: with the flag raised after the first part, the result of
  \<^verbatim>\<open>upload\<close> is \<open>failed\<close> when \<^verbatim>\<open>handleUploadError\<close> returns its argument, and the
  cancellation signal itself leaves \<^verbatim>\<open>upload\<close> when \<^verbatim>\<open>handleUploadError\<close> throws it;
  in neither case is the result \<open>cancelled\<close>.
\<close>

theorem cancellation_result_counterexample:
  "fst (upload_fromBucket (sample_network (Some 1)) Inr sample_postFile False 0
          (sample_pieces (Stream twelve_chunks)) False sample_state) = Inr failed
   \<and> fst (upload_fromBucket (sample_network (Some 1)) Inl sample_postFile False 0
          (sample_pieces (Stream twelve_chunks)) False sample_state) = Inl UPLOAD_CANCELLED
   \<and> sent (snd (upload_fromBucket (sample_network (Some 1)) Inr sample_postFile False 0
          (sample_pieces (Stream twelve_chunks)) False sample_state))
       = [PutFilePart True ''p'' [1, 2, 3, 4, 5]]"
proof -
  let ?net = "sample_network (Some 1)"
  let ?ppp = "real_of_int \<lfloor>95 + 5 * (0::real)\<rfloor>
                / real (nat \<lceil>real (enc_chunkCount twelve_chunks) / real multipartChunksPerPart\<rceil>)"
  obtain acc st' where b:
    "uploadStreamUsingMultipart_loop ?net (createAbortableRetryEnsuringHTTPOk ?net) False 1 ?ppp [(0, ''p'')]
        (enc_stream twelve_chunks, 0, []) (sample_state\<lparr>world := 0\<rparr>) = (Inr acc, st')"
    "world st' = 1" "sent st' = [PutFilePart True ''p'' [1, 2, 3, 4, 5]]"
    using sample_first_part [of ?ppp] by blast
  have raised: "isCancelled ?net (world st')" using b(2) by (simp add: sample_network_def)
  have more: "[(1::nat, ''pp''), (2, ''ppp'')] \<noteq> []" by simp
  have h: "fst (piece_file (sample_pieces (Stream twelve_chunks))) = Stream twelve_chunks
           \<and> multipartChunksPerPart \<le> enc_chunkCount twelve_chunks
           \<and> piece_localID (sample_pieces (Stream twelve_chunks)) = 1
           \<and> real_of_int \<lfloor>95 + 5 * (0::real)\<rfloor> = real_of_int \<lfloor>95 + 5 * (0::real)\<rfloor>"
    by (simp add: sample_pieces_def twelve_chunks_def multipartChunksPerPart_def)
  note c = cancel_core(3) [OF sample_split(1) sample_split(2) b(1) more raised, rule_format, OF h]
  have 1: "upload_fromBucket ?net Inr sample_postFile False 0
             (sample_pieces (Stream twelve_chunks)) False sample_state
           = (upload_catch Inr UPLOAD_CANCELLED, st')"
    using c by blast
  have 2: "upload_fromBucket ?net Inl sample_postFile False 0
             (sample_pieces (Stream twelve_chunks)) False sample_state
           = (upload_catch Inl UPLOAD_CANCELLED, st')"
    using c by blast
  show ?thesis
    unfolding 1 2 using b(3) by (simp add: upload_catch_def)
qed

section \<open>Properties of a chunk count that does not match the stream\<close>

lemma computeHash_loop_eq:
  "computeHash_loop worker n xs h =
     (if length xs < n then Inl LessChunksThanExpected
      else Inr (fold (\<lambda>chunk hs. chunkHashUpdate worker hs chunk) (take n xs) h, drop n xs))"
proof (induction n arbitrary: xs h)
  case 0
  then show ?case by simp
next
  case (Suc n)
  then show ?case by (cases xs) simp_all
qed

lemma computeHash_cases:
  assumes "readUploadItem env uploadItem = Inr fs"
  shows "computeHash env worker uploadItem =
           (if length (stream fs) < chunkCount fs then Inl LessChunksThanExpected
            else if chunkCount fs < length (stream fs) then Inl MoreChunksThanExpected
            else Inr (chunkHashFinal worker
                        (fold (\<lambda>chunk hs. chunkHashUpdate worker hs chunk) (stream fs)
                           (chunkHashInit worker))))"
proof (cases "drop (chunkCount fs) (stream fs)")
  case Nil
  then show ?thesis
    using assms by (auto simp: computeHash_def computeHash_loop_eq)
next
  case (Cons c rest)
  then have "chunkCount fs < length (stream fs)"
    by (metis drop_eq_Nil list.distinct(1) not_le)
  then show ?thesis
    using assms Cons by (simp add: computeHash_def computeHash_loop_eq)
qed

lemma pull_present:
  assumes "encryptStreamChunk worker (Some c) (es_pushState s) (es_pullCount s = es_chunkCount s)
             = Inr (e, ps')"
    and "es_reader s = c # rest"
  shows "pull worker s =
           Inr (s\<lparr>es_reader := rest, es_pushState := ps',
                  es_enqueued := es_enqueued s @ [e],
                  es_closed := (es_pullCount s = es_chunkCount s),
                  es_pullCount := es_pullCount s + 1\<rparr>)"
  using assms by (simp add: pull_def)

lemma pullUntilClosed_surplus:
  assumes enc: "\<forall>c ps b. \<exists>e ps'. encryptStreamChunk worker (Some c) ps b = Inr (e, ps')"
  shows "\<not> es_closed s \<Longrightarrow> es_pullCount s + m = es_chunkCount s
         \<Longrightarrow> m < length (es_reader s) \<Longrightarrow> m < n
         \<Longrightarrow> \<exists>s'. pullUntilClosed n worker s = Some (Inr s') \<and> es_closed s'
                  \<and> es_reader s' = drop (Suc m) (es_reader s)
                  \<and> length (es_enqueued s') = length (es_enqueued s) + Suc m
                  \<and> es_pullCount s' = es_chunkCount s + 1"
proof (induction m arbitrary: s n)
  case 0
  then obtain c rest where r: "es_reader s = c # rest" by (cases "es_reader s") auto
  obtain n' where n: "n = Suc n'" using 0 by (cases n) auto
  obtain e ps' where e: "encryptStreamChunk worker (Some c) (es_pushState s)
                           (es_pullCount s = es_chunkCount s) = Inr (e, ps')"
    using enc by blast
  show ?case
    using 0 r n pull_present [OF e r] by (cases n') simp_all
next
  case (Suc m)
  then obtain c rest where r: "es_reader s = c # rest" by (cases "es_reader s") auto
  obtain n' where n: "n = Suc n'" using Suc.prems by (cases n) auto
  obtain e ps' where e: "encryptStreamChunk worker (Some c) (es_pushState s)
                           (es_pullCount s = es_chunkCount s) = Inr (e, ps')"
    using enc by blast
  let ?s = "s\<lparr>es_reader := rest, es_pushState := ps',
                  es_enqueued := es_enqueued s @ [e],
                  es_closed := (es_pullCount s = es_chunkCount s),
                  es_pullCount := es_pullCount s + 1\<rparr>"
  have "\<exists>s'. pullUntilClosed n' worker ?s = Some (Inr s') \<and> es_closed s'
                  \<and> es_reader s' = drop (Suc m) (es_reader ?s)
                  \<and> length (es_enqueued s') = length (es_enqueued ?s) + Suc m
                  \<and> es_pullCount s' = es_chunkCount ?s + 1"
    using Suc.prems r n by (intro Suc.IH) auto
  then show ?case
    using Suc.prems r n pull_present [OF e r] by auto
qed

lemma pullUntilClosed_short:
  assumes rej: "\<forall>ps b. \<exists>e. encryptStreamChunk worker None ps b = Inl e"
  shows "\<not> es_closed s \<Longrightarrow> es_pullCount s + length (es_reader s) \<le> es_chunkCount s
         \<Longrightarrow> length (es_reader s) < n
         \<Longrightarrow> \<exists>e. pullUntilClosed n worker s = Some (Inl e)"
proof (induction "es_reader s" arbitrary: s n)
  case Nil
  obtain n' where n: "n = Suc n'" using Nil by (cases n) auto
  obtain e where "encryptStreamChunk worker None (es_pushState s)
                    (es_pullCount s = es_chunkCount s) = Inl e"
    using rej by blast
  then show ?case
    using Nil n by (simp add: pull_def Nil.hyps [symmetric])
next
  case (Cons c rest)
  obtain n' where n: "n = Suc n'" using Cons.prems by (cases n) auto
  have r: "es_reader s = c # rest" using Cons.hyps(2) by simp
  show ?case
  proof (cases "encryptStreamChunk worker (Some c) (es_pushState s)
                  (es_pullCount s = es_chunkCount s)")
    case (Inl e)
    then show ?thesis using Cons.prems n r by (simp add: pull_def)
  next
    case (Inr p)
    obtain e ps' where p: "p = (e, ps')" by (cases p)
    let ?s = "s\<lparr>es_reader := rest, es_pushState := ps',
                  es_enqueued := es_enqueued s @ [e],
                  es_closed := (es_pullCount s = es_chunkCount s),
                  es_pullCount := es_pullCount s + 1\<rparr>"
    have "\<exists>e. pullUntilClosed n' worker ?s = Some (Inl e)"
      using Cons.prems r n by (intro Cons.hyps(1)) auto
    then show ?thesis
      using Cons.prems r n pull_present [OF Inr [unfolded p] r] by auto
  qed
qed

text \<open>
  Claim C7, as the code has it. Let \<^verbatim>\<open>readUploadItem\<close> return a stream and a chunk
  count. \<^verbatim>\<open>computeHash\<close> throws when the stream has fewer chunks than the count and
  when it has more, and returns a hash when it has as many. The stream of
  \<^verbatim>\<open>encryptFileStream\<close>, read to its end, fails on a stream with fewer chunks than
  the count whenever the worker rejects a missing chunk. On a stream with more
  chunks than a positive count, and a worker that encrypts every chunk it is given,
  it does not fail: it closes after as many encrypted chunks as the count says, and
  the plaintext chunks beyond the count are left in the reader, unread and
  unreported.
\<close>

theorem chunk_count_mismatch:
  fixes worker :: "('hs, 'ps) CryptoWorker"
  assumes read: "readUploadItem env uploadItem = Inr fs"
  shows "(length (stream fs) < chunkCount fs
            \<longrightarrow> computeHash env worker uploadItem = Inl LessChunksThanExpected)
       \<and> (chunkCount fs < length (stream fs)
            \<longrightarrow> computeHash env worker uploadItem = Inl MoreChunksThanExpected)
       \<and> (length (stream fs) = chunkCount fs
            \<longrightarrow> (\<exists>h. computeHash env worker uploadItem = Inr h))
       \<and> (length (stream fs) < chunkCount fs \<and> length (stream fs) < n
            \<and> (\<forall>ps b. \<exists>e. encryptStreamChunk worker None ps b = Inl e)
            \<longrightarrow> (\<exists>e. pullUntilClosed n worker (fst (snd (encryptFileStream worker fs fileKey)))
                        = Some (Inl e)))
       \<and> (0 < chunkCount fs \<and> chunkCount fs < length (stream fs) \<and> chunkCount fs \<le> n
            \<and> (\<forall>c ps b. \<exists>e ps'. encryptStreamChunk worker (Some c) ps b = Inr (e, ps'))
            \<longrightarrow> (\<exists>s'. pullUntilClosed n worker (fst (snd (encryptFileStream worker fs fileKey)))
                         = Some (Inr s')
                      \<and> es_closed s'
                      \<and> length (es_enqueued s') = chunkCount fs
                      \<and> snd (snd (encryptFileStream worker fs fileKey)) = chunkCount fs
                      \<and> es_reader s' = drop (chunkCount fs) (stream fs)
                      \<and> es_reader s' \<noteq> []))"
proof (intro conjI impI)
  show "computeHash env worker uploadItem = Inl LessChunksThanExpected"
    if "length (stream fs) < chunkCount fs"
    using that by (simp add: computeHash_cases [OF read])
  show "computeHash env worker uploadItem = Inl MoreChunksThanExpected"
    if "chunkCount fs < length (stream fs)"
    using that by (simp add: computeHash_cases [OF read])
  show "\<exists>h. computeHash env worker uploadItem = Inr h"
    if "length (stream fs) = chunkCount fs"
    using that by (simp add: computeHash_cases [OF read])
  let ?s = "fst (snd (encryptFileStream worker fs fileKey))"
  have s: "es_reader ?s = stream fs" "es_pullCount ?s = 1" "es_chunkCount ?s = chunkCount fs"
          "es_enqueued ?s = []" "\<not> es_closed ?s"
          "snd (snd (encryptFileStream worker fs fileKey)) = chunkCount fs"
    by (simp_all add: encryptFileStream_def split: prod.splits)
  show "\<exists>e. pullUntilClosed n worker ?s = Some (Inl e)"
    if h: "length (stream fs) < chunkCount fs \<and> length (stream fs) < n
           \<and> (\<forall>ps b. \<exists>e. encryptStreamChunk worker None ps b = Inl e)"
  proof (rule pullUntilClosed_short)
    show "\<forall>ps b. \<exists>e. encryptStreamChunk worker None ps b = Inl e" using h by blast
    show "\<not> es_closed ?s" by (rule s(5))
    show "es_pullCount ?s + length (es_reader ?s) \<le> es_chunkCount ?s" using h s by simp
    show "length (es_reader ?s) < n" using h s by simp
  qed
  show "\<exists>s'. pullUntilClosed n worker ?s = Some (Inr s')
              \<and> es_closed s'
              \<and> length (es_enqueued s') = chunkCount fs
              \<and> snd (snd (encryptFileStream worker fs fileKey)) = chunkCount fs
              \<and> es_reader s' = drop (chunkCount fs) (stream fs)
              \<and> es_reader s' \<noteq> []"
    if h: "0 < chunkCount fs \<and> chunkCount fs < length (stream fs) \<and> chunkCount fs \<le> n
           \<and> (\<forall>c ps b. \<exists>e ps'. encryptStreamChunk worker (Some c) ps b = Inr (e, ps'))"
  proof -
    obtain m where m: "chunkCount fs = Suc m" using h by (cases "chunkCount fs") auto
    have enc: "\<forall>c ps b. \<exists>e ps'. encryptStreamChunk worker (Some c) ps b = Inr (e, ps')"
      using h by blast
    have "\<exists>s'. pullUntilClosed n worker ?s = Some (Inr s') \<and> es_closed s'
                  \<and> es_reader s' = drop (Suc m) (es_reader ?s)
                  \<and> length (es_enqueued s') = length (es_enqueued ?s) + Suc m
                  \<and> es_pullCount s' = es_chunkCount ?s + 1"
    proof (rule pullUntilClosed_surplus [OF enc])
      show "\<not> es_closed ?s" by (rule s(5))
      show "es_pullCount ?s + m = es_chunkCount ?s" using s m by simp
      show "m < length (es_reader ?s)" using h s m by simp
      show "m < n" using h m by simp
    qed
    then show ?thesis using s m h by auto
  qed
qed

lemma grown_read:
  "readUploadItem env grown_file =
     Inr \<lparr>stream = [replicate streamEncryptionChunkSize 0, [1]], chunkCount = 1, fileSize = 1,
          lastModifiedMs = 0,
          file_opt = Some \<lparr>file_name = ''IMG_0002.jpg'', file_size = 1, lastModified = 0,
                           file_stream = [replicate streamEncryptionChunkSize 0, [1]]\<rparr>\<rparr>"
proof -
  have 1: "transform_while [] (replicate streamEncryptionChunkSize 0)
             = ([replicate streamEncryptionChunkSize 0], [])"
    using chunkSize_pos
    by (subst transform_while.simps, simp, subst transform_while.simps, simp)
  have 2: "transform_while [replicate streamEncryptionChunkSize 0] [1]
             = ([replicate streamEncryptionChunkSize 0], [1])"
    by (subst transform_while.simps) (simp add: streamEncryptionChunkSize_def)
  have "pipeThrough [replicate streamEncryptionChunkSize 0, [1]]
          = [replicate streamEncryptionChunkSize 0, [1]]"
    by (simp add: pipeThrough_def transform_def flush_def 1 2)
  then show ?thesis
    by (simp add: readUploadItem_eval readUploadItem_source_def grown_file_def)
qed

lemma shrunk_read:
  "readUploadItem env shrunk_file =
     Inr \<lparr>stream = [[1]], chunkCount = 2, fileSize = 4194305, lastModifiedMs = 0,
          file_opt = Some \<lparr>file_name = ''IMG_0003.jpg'', file_size = 4194305, lastModified = 0,
                           file_stream = [[1]]\<rparr>\<rparr>"
proof -
  have "pipeThrough [[1]] = [[1]]"
    by (simp add: pipeThrough_eval)
  then show ?thesis
    by (simp add: readUploadItem_eval readUploadItem_source_def shrunk_file_def)
qed

text \<open>
  A file whose stream holds one chunk where its size promises two, and a file whose
  stream holds two chunks where its size promises one.
\<close>

theorem chunk_count_mismatch_witness:
  "computeHash sample_env sample_worker shrunk_file = Inl LessChunksThanExpected
   \<and> computeHash sample_env sample_worker grown_file = Inl MoreChunksThanExpected
   \<and> (\<exists>e. pullUntilClosed 2 sample_worker
              (fst (snd (encryptFileStream sample_worker
                 \<lparr>stream = [[1]], chunkCount = 2, fileSize = 4194305, lastModifiedMs = 0,
                  file_opt = Some \<lparr>file_name = ''IMG_0003.jpg'', file_size = 4194305,
                                   lastModified = 0, file_stream = [[1]]\<rparr>\<rparr> ''key'')))
            = Some (Inl e))
   \<and> (\<exists>s'. pullUntilClosed 1 sample_worker
              (fst (snd (encryptFileStream sample_worker
                 \<lparr>stream = [replicate streamEncryptionChunkSize 0, [1]], chunkCount = 1,
                  fileSize = 1, lastModifiedMs = 0,
                  file_opt = Some \<lparr>file_name = ''IMG_0002.jpg'', file_size = 1,
                                   lastModified = 0,
                                   file_stream = [replicate streamEncryptionChunkSize 0, [1]]\<rparr>\<rparr>
                 ''key'')))
            = Some (Inr s')
          \<and> es_closed s' \<and> length (es_enqueued s') = 1 \<and> es_reader s' = [[1]])"
proof -
  have rej: "\<forall>ps b. \<exists>e. encryptStreamChunk sample_worker None ps b = Inl e"
    by (simp add: sample_worker_def)
  have enc: "\<forall>c ps b. \<exists>e ps'. encryptStreamChunk sample_worker (Some c) ps b = Inr (e, ps')"
    by (simp add: sample_worker_def)
  note short = chunk_count_mismatch [where worker = sample_worker and n = 2 and fileKey = "''key''",
                 OF shrunk_read [of sample_env]]
  note long = chunk_count_mismatch [where worker = sample_worker and n = 1 and fileKey = "''key''",
                OF grown_read [of sample_env]]
  let ?short = "\<lparr>stream = [[1]], chunkCount = 2, fileSize = 4194305, lastModifiedMs = 0,
                  file_opt = Some \<lparr>file_name = ''IMG_0003.jpg'', file_size = 4194305,
                                   lastModified = 0, file_stream = [[1]]\<rparr>\<rparr>"
  let ?long = "\<lparr>stream = [replicate streamEncryptionChunkSize 0, [1]], chunkCount = 1,
                  fileSize = 1, lastModifiedMs = 0,
                  file_opt = Some \<lparr>file_name = ''IMG_0002.jpg'', file_size = 1,
                                   lastModified = 0,
                                   file_stream = [replicate streamEncryptionChunkSize 0, [1]]\<rparr>\<rparr>"
  have hs: "length (stream ?short) < chunkCount ?short" by simp
  have hl: "chunkCount ?long < length (stream ?long)" by simp
  have 1: "computeHash sample_env sample_worker shrunk_file = Inl LessChunksThanExpected"
    using short [THEN conjunct1, rule_format, OF hs] .
  have 2: "computeHash sample_env sample_worker grown_file = Inl MoreChunksThanExpected"
    using long [THEN conjunct2, THEN conjunct1, rule_format, OF hl] .
  have h3: "length (stream ?short) < chunkCount ?short \<and> length (stream ?short) < 2
            \<and> (\<forall>ps b. \<exists>e. encryptStreamChunk sample_worker None ps b = Inl e)"
    using rej by simp
  have 3: "\<exists>e. pullUntilClosed 2 sample_worker
              (fst (snd (encryptFileStream sample_worker ?short ''key''))) = Some (Inl e)"
    using short [THEN conjunct2, THEN conjunct2, THEN conjunct2, THEN conjunct1,
                 rule_format, OF h3] .
  have h4: "0 < chunkCount ?long \<and> chunkCount ?long < length (stream ?long)
            \<and> chunkCount ?long \<le> 1
            \<and> (\<forall>c ps b. \<exists>e ps'. encryptStreamChunk sample_worker (Some c) ps b = Inr (e, ps'))"
    using enc by simp
  obtain s' where s':
    "pullUntilClosed 1 sample_worker (fst (snd (encryptFileStream sample_worker ?long ''key'')))
       = Some (Inr s')"
    "es_closed s'" "length (es_enqueued s') = chunkCount ?long"
    "es_reader s' = drop (chunkCount ?long) (stream ?long)"
    using long [THEN conjunct2, THEN conjunct2, THEN conjunct2, THEN conjunct2,
                rule_format, OF h4] by blast
  have "length (es_enqueued s') = 1" "es_reader s' = [[1]]"
    using s'(3) s'(4) by simp_all
  with s'(1) s'(2) have 4: "\<exists>s'. pullUntilClosed 1 sample_worker
              (fst (snd (encryptFileStream sample_worker ?long ''key''))) = Some (Inr s')
          \<and> es_closed s' \<and> length (es_enqueued s') = 1 \<and> es_reader s' = [[1]]"
    by blast
  from 1 2 3 4 show ?thesis by blast
qed

text \<open>
  The file that has grown since its size was taken: \<^verbatim>\<open>encryptFileStream\<close> encrypts
  its first chunk as the final one and closes the stream; no error is thrown, and the
  second chunk is dropped.
\<close>

theorem encryptFileStream_truncates_counterexample:
  "\<exists>fs. readUploadItem sample_env grown_file = Inr fs
      \<and> length (stream fs) = 2 \<and> chunkCount fs = 1
      \<and> pullUntilClosed 1 sample_worker (fst (snd (encryptFileStream sample_worker fs ''key'')))
          = Some (Inr \<lparr>es_reader = [[1]], es_pushState = 1, es_pullCount = 2,
                        es_chunkCount = 1,
                        es_enqueued = [1 # replicate streamEncryptionChunkSize 0],
                        es_closed = True\<rparr>)"
  unfolding grown_read
  by (simp add: encryptFileStream_def pull_def sample_worker_def)

section \<open>Properties of clubbing a live photo\<close>

lemma prunedNames_types:
  "prunedNames env f g = Some p
   \<Longrightarrow> (pl_fileType f = Image \<and> pl_fileType g = Video)
        \<or> (pl_fileType f = Video \<and> pl_fileType g = Image)"
  by (auto simp: prunedNames_def split: prod.splits if_splits)

lemma not_sameish: "(fDate = None) \<noteq> (gDate = None) \<Longrightarrow> \<not> haveSameishDate fDate gDate"
  by (auto simp: haveSameishDate_def truthy_num_def)

text \<open>
  Claim C8, as amended. Let a pair of candidates pass the checks of the collection and
  the path prefix, be one image and one video with equal pruned names, and have sizes
  within the cap, and let the creation dates of both be determined (\<open>fDate\<close> and
  \<open>gDate\<close>, each a timestamp or none). Then \<^verbatim>\<open>areLivePhotoAssets\<close> returns true
  exactly when the two dates are present, not zero and less than a day apart, or when
  a metadata JSON was matched for exactly one of the two. So, when a creation
  timestamp is available for exactly one of the two candidates, the pairing is
  disqualified if a metadata JSON was matched for both or for neither, and accepted
  if it was matched for exactly one.
\<close>

theorem areLivePhotoAssets_date_check:
  assumes coll: "pl_collectionID f = pl_collectionID g"
    and pre: "pl_pathPrefix f = pl_pathPrefix g"
    and names: "prunedNames env f g = Some (pruned, pruned)"
    and fSize: "uploadItemSize env (pl_uploadItem f) = Inr fSize"
    and gSize: "uploadItemSize env (pl_uploadItem g) = Inr gSize"
    and cap: "fSize \<le> maxAssetSize \<and> gSize \<le> maxAssetSize"
    and fJ: "matchJSONMetadata env (pl_pathPrefix f) (pl_collectionID f) (pl_fileName f) m = fJ"
    and gJ: "matchJSONMetadata env (pl_pathPrefix g) (pl_collectionID g) (pl_fileName g) m = gJ"
    and fDate: "uploadItemCreationDate env (pl_uploadItem f) (pl_fileType f) fJ = Inr fDate"
    and gDate: "uploadItemCreationDate env (pl_uploadItem g) (pl_fileType g) gJ = Inr gDate"
  shows "areLivePhotoAssets env f g m
           = Inr (haveSameishDate fDate gDate \<or> (fJ = None) \<noteq> (gJ = None))
       \<and> ((fDate = None) \<noteq> (gDate = None)
            \<longrightarrow> areLivePhotoAssets env f g m = Inr ((fJ = None) \<noteq> (gJ = None)))"
proof -
  have 1: "areLivePhotoAssets env f g m
             = Inr (haveSameishDate fDate gDate \<or> (fJ = None) \<noteq> (gJ = None))"
    using assms by (auto simp: areLivePhotoAssets_def Let_def)
  show ?thesis
    using 1 not_sameish [of fDate gDate] by auto
qed

lemmas livePhoto_eval =
  takeout_env_def exif_env_def takeout_image_def takeout_video_def takeout_json_def
  sample_env_def sample_image_def sample_video_def lastDot_def
  prunedNames_def dotted_def removePotentialLivePhotoSuffix_def endsWith_def toLowerCase_def
  uploadItemSize_def uploadItemCreationDate_def tryExtractImageMetadata_def
  tryExtractVideoMetadata_def truthy_num_def maxAssetSize_def

text \<open>
  Without sidecars, an image with an Exif date and a video without a date are not
  clubbed.
\<close>

theorem areLivePhotoAssets_date_check_witness:
  "uploadItemCreationDate exif_env (pl_uploadItem takeout_image) Image None
     = Inr (Some 1700000000000000)
   \<and> uploadItemCreationDate exif_env (pl_uploadItem takeout_video) Video None = Inr None
   \<and> areLivePhotoAssets exif_env takeout_image takeout_video Map.empty = Inr False"
proof -
  have names: "prunedNames exif_env takeout_image takeout_video = Some (''IMG_0001'', ''IMG_0001'')"
    by (simp add: livePhoto_eval)
  have fSize: "uploadItemSize exif_env (pl_uploadItem takeout_image) = Inr 3"
    by (simp add: livePhoto_eval)
  have gSize: "uploadItemSize exif_env (pl_uploadItem takeout_video) = Inr 2"
    by (simp add: livePhoto_eval)
  have cap: "(3::nat) \<le> maxAssetSize \<and> (2::nat) \<le> maxAssetSize"
    by (simp add: maxAssetSize_def)
  have fJ: "matchJSONMetadata exif_env (pl_pathPrefix takeout_image)
              (pl_collectionID takeout_image) (pl_fileName takeout_image) Map.empty = None"
    by (simp add: livePhoto_eval)
  have gJ: "matchJSONMetadata exif_env (pl_pathPrefix takeout_video)
              (pl_collectionID takeout_video) (pl_fileName takeout_video) Map.empty = None"
    by (simp add: livePhoto_eval)
  have fDate: "uploadItemCreationDate exif_env (pl_uploadItem takeout_image)
                 (pl_fileType takeout_image) None = Inr (Some 1700000000000000)"
    by (simp add: livePhoto_eval)
  have gDate: "uploadItemCreationDate exif_env (pl_uploadItem takeout_video)
                 (pl_fileType takeout_video) None = Inr None"
    by (simp add: livePhoto_eval)
  have coll: "pl_collectionID takeout_image = pl_collectionID takeout_video"
    and pre: "pl_pathPrefix takeout_image = pl_pathPrefix takeout_video"
    and types: "pl_fileType takeout_image = Image" "pl_fileType takeout_video = Video"
    by (simp_all add: livePhoto_eval)
  have one: "(Some (1700000000000000::int) = None) \<noteq> ((None::int option) = None)" by simp
  note t = areLivePhotoAssets_date_check [OF coll pre names fSize gSize cap fJ gJ fDate gDate,
             THEN conjunct2, rule_format, OF one]
  show ?thesis
    using t fDate gDate by (simp add: types)
qed

text \<open>
  Claim C8 as stated fails on a Takeout: the image takes its date from its sidecar,
  the video has neither a sidecar nor a date, so that a timestamp is available on
  exactly one side, and the two are clubbed as a live photo.
\<close>

theorem areLivePhotoAssets_sidecar_counterexample:
  "uploadItemCreationDate takeout_env (pl_uploadItem takeout_image) Image
      (matchJSONMetadata takeout_env (pl_pathPrefix takeout_image)
         (pl_collectionID takeout_image) (pl_fileName takeout_image) takeout_json)
     = Inr (Some 1700000000000000)
   \<and> uploadItemCreationDate takeout_env (pl_uploadItem takeout_video) Video
      (matchJSONMetadata takeout_env (pl_pathPrefix takeout_video)
         (pl_collectionID takeout_video) (pl_fileName takeout_video) takeout_json)
     = Inr None
   \<and> prunedNames takeout_env takeout_image takeout_video = Some (''IMG_0001'', ''IMG_0001'')
   \<and> uploadItemSize takeout_env (pl_uploadItem takeout_image) = Inr 3
   \<and> uploadItemSize takeout_env (pl_uploadItem takeout_video) = Inr 2
   \<and> areLivePhotoAssets takeout_env takeout_image takeout_video takeout_json = Inr True"
proof (intro conjI)
  show names: "prunedNames takeout_env takeout_image takeout_video
                 = Some (''IMG_0001'', ''IMG_0001'')"
    by (simp add: livePhoto_eval)
  show fDate: "uploadItemCreationDate takeout_env (pl_uploadItem takeout_image) Image
      (matchJSONMetadata takeout_env (pl_pathPrefix takeout_image)
         (pl_collectionID takeout_image) (pl_fileName takeout_image) takeout_json)
     = Inr (Some 1700000000000000)"
    by (simp add: livePhoto_eval)
  show gDate: "uploadItemCreationDate takeout_env (pl_uploadItem takeout_video) Video
      (matchJSONMetadata takeout_env (pl_pathPrefix takeout_video)
         (pl_collectionID takeout_video) (pl_fileName takeout_video) takeout_json)
     = Inr None"
    by (simp add: livePhoto_eval)
  show fSize: "uploadItemSize takeout_env (pl_uploadItem takeout_image) = Inr 3"
    by (simp add: livePhoto_eval)
  show gSize: "uploadItemSize takeout_env (pl_uploadItem takeout_video) = Inr 2"
    by (simp add: livePhoto_eval)
  have types: "pl_fileType takeout_image = Image" "pl_fileType takeout_video = Video"
    and same: "pl_collectionID takeout_image = pl_collectionID takeout_video"
              "pl_pathPrefix takeout_image = pl_pathPrefix takeout_video"
    by (simp_all add: livePhoto_eval)
  have fJ: "matchJSONMetadata takeout_env (pl_pathPrefix takeout_image)
              (pl_collectionID takeout_image) (pl_fileName takeout_image) takeout_json \<noteq> None"
    by (simp add: livePhoto_eval)
  have gJ: "matchJSONMetadata takeout_env (pl_pathPrefix takeout_video)
              (pl_collectionID takeout_video) (pl_fileName takeout_video) takeout_json = None"
    by (simp add: livePhoto_eval)
  show "areLivePhotoAssets takeout_env takeout_image takeout_video takeout_json = Inr True"
    using fDate gDate fJ
    by (simp add: areLivePhotoAssets_def names fSize gSize same types gJ Let_def maxAssetSize_def)
qed

end
